(* ===== verification/JS_Prelude.thy ===== *)
theory JS_Prelude
  imports Main "HOL-Library.Sublist"
begin

text \<open>
  Shared vocabulary of the development: the JavaScript values and errors the
  route of \<^verbatim>\<open>src/api/routes/generate.js\<close> handles, the three ways a generator
  function of that file can end (it returns, it throws, or the promise it
  waits for never settles), and the sequencing of such functions over an
  explicit world. The collections \<open>js_defs\<close>, \<open>io_simps\<close> and \<open>frame\<close> carry the
  proofs of the component theories.
\<close>

section \<open>Lemma collections\<close>

named_theorems js_defs "definitions of the JavaScript primitives, unfolded to evaluate them"
named_theorems io_simps "how return, throw, pending, bind and catch compose"
named_theorems frame "what an operation leaves unchanged"

section \<open>Values and errors\<close>

text \<open>
  The value the route reads from the request body (\<open>this.request.body.url\<close>)
  is whatever the JSON body held. Numbers are integral here; a fractional
  number behaves as a non-zero one and \<open>NaN\<close> as \<open>JNull\<close> in every test the
  source makes (only truthiness is tested).
\<close>

datatype jsval =
    JUndefined
  | JNull
  | JBool bool
  | JNum int
  | JStr string
  | JObject

text \<open>JavaScript's \<open>ToBoolean\<close>, which \<open>!x\<close> and \<open>if (x)\<close> apply.\<close>

fun truthy :: "jsval \<Rightarrow> bool" where
  "truthy JUndefined = False"
| "truthy JNull = False"
| "truthy (JBool b) = b"
| "truthy (JNum n) = (n \<noteq> 0)"
| "truthy (JStr s) = (s \<noteq> [])"
| "truthy JObject = True"

text \<open>The string a string value carries (the empty string for the others).\<close>

fun js_str :: "jsval \<Rightarrow> string" where
  "js_str (JStr s) = s"
| "js_str _ = []"

text \<open>
  \<open>Error m\<close> is \<open>new Error(m)\<close> thrown by the source itself; \<open>TypeError\<close> is
  raised by the runtime when a property of \<open>null\<close> or \<open>undefined\<close> is read or a
  library is given a value of the wrong type; \<open>LibError\<close> is an error reported
  by an external library (request, pem, crx, fs).
\<close>

datatype js_error =
    Error string
  | TypeError string
  | LibError string

lemma truthy_JStr_iff: "truthy v \<and> (\<exists>s. v = JStr s) \<longleftrightarrow> (\<exists>s. v = JStr s \<and> s \<noteq> [])"
  by (cases v) auto

lemma js_str_JStr_id: "(\<exists>s. v = JStr s) \<Longrightarrow> JStr (js_str v) = v"
  by auto

section \<open>Outcomes of a generator function\<close>

text \<open>
  A generator function run by the coroutine scheduler ends in one of three
  ways: it returns a value, it throws (a rejected promise or a failed
  callback is thrown at the \<open>yield\<close> that waits for it), or it never resumes,
  because the promise it yielded is never settled. Only the second is visible
  to a \<open>try\<close>/\<open>catch\<close>.
\<close>

datatype 'a outcome =
    Return 'a
  | Throw js_error
  | Pending

text \<open>What an external callback-style call answers.\<close>

datatype 'a reply =
    Reply 'a
  | Fail js_error
  | NoReply

fun outcome_of_reply :: "'a reply \<Rightarrow> 'a outcome" where
  "outcome_of_reply (Reply a) = Return a"
| "outcome_of_reply (Fail e) = Throw e"
| "outcome_of_reply NoReply = Pending"

type_synonym ('w, 'a) io = "'w \<Rightarrow> 'w \<times> 'a outcome"

definition return :: "'a \<Rightarrow> ('w, 'a) io" where
  "return a = (\<lambda>w. (w, Return a))"

definition throw :: "js_error \<Rightarrow> ('w, 'a) io" where
  "throw e = (\<lambda>w. (w, Throw e))"

definition pending :: "('w, 'a) io" where
  "pending = (\<lambda>w. (w, Pending))"

text \<open>\<open>bind m f\<close>: run \<open>m\<close>, and continue with \<open>f\<close> only if it returned.\<close>

definition bind :: "('w, 'a) io \<Rightarrow> ('a \<Rightarrow> ('w, 'b) io) \<Rightarrow> ('w, 'b) io" where
  "bind m f = (\<lambda>w. case m w of
       (w', Return a) \<Rightarrow> f a w'
     | (w', Throw e) \<Rightarrow> (w', Throw e)
     | (w', Pending) \<Rightarrow> (w', Pending))"

text \<open>\<open>catch m h\<close>: \<open>try { m } catch (e) { h e }\<close>.\<close>

definition catch :: "('w, 'a) io \<Rightarrow> (js_error \<Rightarrow> ('w, 'a) io) \<Rightarrow> ('w, 'a) io" where
  "catch m h = (\<lambda>w. case m w of
       (w', Return a) \<Rightarrow> (w', Return a)
     | (w', Throw e) \<Rightarrow> h e w'
     | (w', Pending) \<Rightarrow> (w', Pending))"

text \<open>A synchronous result (an exception or a value) as a step of a generator.\<close>

definition lift_sum :: "js_error + 'a \<Rightarrow> ('w, 'a) io" where
  "lift_sum r = (case r of Inl e \<Rightarrow> throw e | Inr a \<Rightarrow> return a)"

fun is_Return :: "'a outcome \<Rightarrow> bool" where
  "is_Return (Return a) = True"
| "is_Return _ = False"

fun is_Throw :: "'a outcome \<Rightarrow> bool" where
  "is_Throw (Throw e) = True"
| "is_Throw _ = False"

subsection \<open>Laws\<close>

lemma return_apply [io_simps, simp]: "return a w = (w, Return a)"
  by (simp add: return_def)

lemma throw_apply [io_simps, simp]: "throw e w = (w, Throw e)"
  by (simp add: throw_def)

lemma pending_apply [io_simps, simp]: "pending w = (w, Pending)"
  by (simp add: pending_def)

lemma bind_Return [io_simps]: "m w = (w', Return a) \<Longrightarrow> bind m f w = f a w'"
  by (simp add: bind_def)

lemma bind_Throw [io_simps]: "m w = (w', Throw e) \<Longrightarrow> bind m f w = (w', Throw e)"
  by (simp add: bind_def)

lemma bind_Pending [io_simps]: "m w = (w', Pending) \<Longrightarrow> bind m f w = (w', Pending)"
  by (simp add: bind_def)

lemma bind_return_left [io_simps, simp]: "bind (return a) f = f a"
  by (simp add: bind_def fun_eq_iff)

lemma bind_throw_left [io_simps, simp]: "bind (throw e) f = throw e"
  by (simp add: bind_def fun_eq_iff)

lemma bind_pending_left [io_simps, simp]: "bind pending f = pending"
  by (simp add: bind_def fun_eq_iff)

lemma bind_return_right [io_simps, simp]: "bind m return = m"
  by (auto simp: bind_def fun_eq_iff split: prod.splits outcome.splits)

lemma bind_assoc [io_simps]: "bind (bind m f) g = bind m (\<lambda>a. bind (f a) g)"
  by (auto simp: bind_def fun_eq_iff split: prod.splits outcome.splits)

lemma catch_return [io_simps, simp]: "catch (return a) h = return a"
  by (simp add: catch_def fun_eq_iff)

lemma catch_throw [io_simps, simp]: "catch (throw e) h = h e"
  by (simp add: catch_def fun_eq_iff)

lemma catch_pending [io_simps, simp]: "catch pending h = pending"
  by (simp add: catch_def fun_eq_iff)

lemma catch_Return [io_simps]: "m w = (w', Return a) \<Longrightarrow> catch m h w = (w', Return a)"
  by (simp add: catch_def)

lemma catch_Throw [io_simps]: "m w = (w', Throw e) \<Longrightarrow> catch m h w = h e w'"
  by (simp add: catch_def)

lemma catch_Pending [io_simps]: "m w = (w', Pending) \<Longrightarrow> catch m h w = (w', Pending)"
  by (simp add: catch_def)

lemma lift_sum_Inl [io_simps, simp]: "lift_sum (Inl e) = throw e"
  by (simp add: lift_sum_def)

lemma lift_sum_Inr [io_simps, simp]: "lift_sum (Inr a) = return a"
  by (simp add: lift_sum_def)

text \<open>
  Inversion of a \<open>bind\<close>: the shapes a sequenced computation can end in.
  These three lemmas replace case analysis on the first step in every
  component proof.
\<close>

lemma bind_eq_Return_iff:
  "bind m f w = (w2, Return b) \<longleftrightarrow> (\<exists>w1 a. m w = (w1, Return a) \<and> f a w1 = (w2, Return b))"
  by (auto simp: bind_def split: prod.splits outcome.splits)

lemma bind_eq_Throw_iff:
  "bind m f w = (w2, Throw e) \<longleftrightarrow>
     m w = (w2, Throw e) \<or> (\<exists>w1 a. m w = (w1, Return a) \<and> f a w1 = (w2, Throw e))"
  by (auto simp: bind_def split: prod.splits outcome.splits)

lemma bind_eq_Pending_iff:
  "bind m f w = (w2, Pending) \<longleftrightarrow>
     m w = (w2, Pending) \<or> (\<exists>w1 a. m w = (w1, Return a) \<and> f a w1 = (w2, Pending))"
  by (auto simp: bind_def split: prod.splits outcome.splits)

lemma outcome_cases3:
  obtains (Return) w' a where "m w = (w', Return a)"
        | (Throw) w' e where "m w = (w', Throw e)"
        | (Pending) w' where "m w = (w', Pending)"
  by (cases "m w"; cases "snd (m w)") auto

lemma fst_bind_return [simp]: "fst (bind m (\<lambda>a. return (g a)) w) = fst (m w)"
  by (simp add: bind_def split: prod.splits outcome.splits)

section \<open>Lists\<close>

lemma sublist_code_Cons [js_defs]:
  "sublist (x # xs) (y # ys) \<longleftrightarrow> prefix (x # xs) (y # ys) \<or> sublist (x # xs) ys"
  by (rule sublist_Cons_right)

lemma dropWhile_rev_dropWhile_idem:
  "dropWhile P (rev (dropWhile P (rev (dropWhile P xs)))) = rev (dropWhile P (rev (dropWhile P xs)))"
proof (cases "dropWhile P xs")
  case Nil
  then show ?thesis by (simp only: rev.simps dropWhile.simps)
next
  case (Cons y ys)
  then have ny: "\<not> P y"
    by (metis dropWhile_eq_Cons_conv)
  let ?r = "rev (dropWhile P (rev (y # ys)))"
  show ?thesis
  proof (cases ?r)
    case Nil
    with \<open>dropWhile P xs = y # ys\<close> show ?thesis by (simp only: rev.simps dropWhile.simps)
  next
    case (Cons z zs)
    have "prefix ?r (y # ys)"
      by (metis rev_rev_ident suffix_dropWhile suffix_to_prefix)
    with Cons have "z = y" by simp
    with ny Cons have "dropWhile P ?r = ?r" by simp
    with \<open>dropWhile P xs = y # ys\<close> show ?thesis by (simp only:)
  qed
qed

end
