(* ===== verification/JS_String.thy ===== *)
theory JS_String
  imports JS_Prelude
begin

text \<open>
  The string methods \<^verbatim>\<open>src/api/routes/generate.js\<close> calls: \<open>toLowerCase\<close>,
  \<open>toUpperCase\<close>, \<open>trim\<close>, \<open>indexOf\<close>, \<open>replace\<close> with a string pattern,
  \<open>substring\<close> and \<open>match(/[A-Z]/)\<close>. A string is a list of code units below 256
  (the Latin-1 range of a JavaScript string). White space is what \<open>trim\<close> strips
  in that range: TAB, LF, VT, FF, CR, SP and the no-break space U+00A0; the
  further white space of JavaScript (U+FEFF, U+2028, U+2029 and the other space
  separators) lies above the range and has no counterpart here. The case
  mappings are those of the ASCII letters: the code applies them to host names
  only, which \<open>url.parse\<close> delivers in ASCII, and the letters of Latin-1 above
  127 are left as they are.
  Each method comes with the facts the components need: \<open>indexOf\<close> against the
  library's \<open>sublist\<close>, \<open>replace\<close> on the first occurrence only, \<open>trim\<close>
  idempotent and free of white space at both ends.
\<close>

section \<open>Case mapping\<close>

definition ascii_upper :: string where
  "ascii_upper = ''ABCDEFGHIJKLMNOPQRSTUVWXYZ''"

definition ascii_lower :: string where
  "ascii_lower = ''abcdefghijklmnopqrstuvwxyz''"

definition is_AZ :: "char \<Rightarrow> bool" where
  "is_AZ c \<longleftrightarrow> c \<in> set ascii_upper"

definition is_az :: "char \<Rightarrow> bool" where
  "is_az c \<longleftrightarrow> c \<in> set ascii_lower"

definition lower_char :: "char \<Rightarrow> char" where
  "lower_char c = (case map_of (zip ascii_upper ascii_lower) c of Some d \<Rightarrow> d | None \<Rightarrow> c)"

definition upper_char :: "char \<Rightarrow> char" where
  "upper_char c = (case map_of (zip ascii_lower ascii_upper) c of Some d \<Rightarrow> d | None \<Rightarrow> c)"

definition toLowerCase :: "string \<Rightarrow> string" where
  "toLowerCase s = map lower_char s"

definition toUpperCase :: "string \<Rightarrow> string" where
  "toUpperCase s = map upper_char s"

lemmas case_defs [js_defs] =
  ascii_upper_def ascii_lower_def is_AZ_def is_az_def lower_char_def upper_char_def
  toLowerCase_def toUpperCase_def

lemma lower_char_range:
  "(\<not> is_AZ c \<and> lower_char c = c) \<or> (is_AZ c \<and> is_az (lower_char c))"
  by (simp add: case_defs)

lemma upper_char_range:
  "(\<not> is_az c \<and> upper_char c = c) \<or> (is_az c \<and> is_AZ (upper_char c))"
  by (simp add: case_defs)

lemma is_az_not_AZ: "is_az c \<Longrightarrow> \<not> is_AZ c"
  by (auto simp: case_defs)

lemma lower_char_fix: "\<not> is_AZ c \<Longrightarrow> lower_char c = c"
  using lower_char_range [of c] by auto

lemma upper_char_fix: "\<not> is_az c \<Longrightarrow> upper_char c = c"
  using upper_char_range [of c] by auto

lemma is_AZ_lower_char [simp]: "\<not> is_AZ (lower_char c)"
  using lower_char_range [of c] is_az_not_AZ [of "lower_char c"] by auto

lemma lower_char_idem [simp]: "lower_char (lower_char c) = lower_char c"
  by (simp add: lower_char_fix)

lemma is_AZ_upper_char: "is_AZ (upper_char c) \<longleftrightarrow> is_AZ c \<or> is_az c"
  using upper_char_range [of c] is_az_not_AZ [of c] by auto

lemma length_toLowerCase [simp]: "length (toLowerCase s) = length s"
  by (simp add: toLowerCase_def)

lemma toLowerCase_Nil [simp]: "toLowerCase [] = []"
  by (simp add: toLowerCase_def)

lemma toLowerCase_append: "toLowerCase (s @ t) = toLowerCase s @ toLowerCase t"
  by (simp add: toLowerCase_def)

lemma toLowerCase_idem [simp]: "toLowerCase (toLowerCase s) = toLowerCase s"
  by (simp add: toLowerCase_def)

lemma toLowerCase_no_upper: "\<not> list_ex is_AZ (toLowerCase s)"
  by (simp add: toLowerCase_def list_ex_iff)

lemma toLowerCase_fix: "\<not> list_ex is_AZ s \<Longrightarrow> toLowerCase s = s"
  by (induction s) (simp_all add: toLowerCase_def lower_char_fix)

section \<open>Searching: indexOf\<close>

text \<open>
  \<open>first_index pat s\<close> is the least position of \<open>s\<close> at which \<open>pat\<close> starts,
  if there is one; \<open>indexOf\<close> reports it the way JavaScript does, with \<open>-1\<close>
  for no occurrence.
\<close>

fun first_index :: "string \<Rightarrow> string \<Rightarrow> nat option" where
  "first_index pat [] = (if pat = [] then Some 0 else None)"
| "first_index pat (c # cs) =
     (if prefix pat (c # cs) then Some 0 else map_option Suc (first_index pat cs))"

definition indexOf :: "string \<Rightarrow> string \<Rightarrow> int" where
  "indexOf s pat = (case first_index pat s of None \<Rightarrow> - 1 | Some i \<Rightarrow> int i)"

lemma first_index_None_iff: "first_index pat s = None \<longleftrightarrow> \<not> sublist pat s"
  by (induction s) (auto simp: sublist_Cons_right)

lemma first_index_Some_iff_sublist: "(\<exists>i. first_index pat s = Some i) \<longleftrightarrow> sublist pat s"
  using first_index_None_iff [of pat s] by (cases "first_index pat s") auto

lemma first_index_prefix: "first_index pat s = Some i \<Longrightarrow> prefix pat (drop i s)"
  by (induction s arbitrary: i) (auto split: if_splits)

lemma first_index_le: "first_index pat s = Some i \<Longrightarrow> i + length pat \<le> length s"
  by (induction s arbitrary: i) (auto split: if_splits dest: prefix_length_le)

lemma first_index_least:
  "first_index pat s = Some i \<Longrightarrow> j < i \<Longrightarrow> \<not> prefix pat (drop j s)"
proof (induction s arbitrary: i j)
  case Nil
  then show ?case by (simp split: if_splits)
next
  case (Cons c cs)
  then show ?case by (cases j) (auto split: if_splits)
qed

lemma first_index_decomp:
  assumes "first_index pat s = Some i"
  shows "s = take i s @ pat @ drop (i + length pat) s"
proof -
  from first_index_prefix [OF assms] obtain r where r: "drop i s = pat @ r"
    by (auto simp: prefix_def)
  have "drop (i + length pat) s = drop (length pat) (drop i s)"
    by (simp add: add.commute)
  with r have "drop (i + length pat) s = r" by simp
  with r show ?thesis
    by (metis append_take_drop_id)
qed

lemma first_index_prefixI: "prefix pat s \<Longrightarrow> first_index pat s = Some 0"
  by (cases s) auto

lemma indexOf_minus1_iff: "indexOf s pat = - 1 \<longleftrightarrow> \<not> sublist pat s"
  by (simp add: indexOf_def first_index_None_iff [symmetric] split: option.splits)

lemma indexOf_range: "- 1 \<le> indexOf s pat \<and> indexOf s pat \<le> int (length s)"
  by (auto simp: indexOf_def split: option.splits dest: first_index_le)

section \<open>replace with a string pattern\<close>

text \<open>
  \<open>s.replace(pat, rep)\<close> with a string \<open>pat\<close> replaces the first occurrence
  only, wherever it is; \<open>rep\<close> holds no \<open>$\<close> pattern in the source (it is
  empty there).
\<close>

definition replace :: "string \<Rightarrow> string \<Rightarrow> string \<Rightarrow> string" where
  "replace s pat rep =
     (case first_index pat s of
        None \<Rightarrow> s
      | Some i \<Rightarrow> take i s @ rep @ drop (i + length pat) s)"

lemma replace_no_match: "\<not> sublist pat s \<Longrightarrow> replace s pat rep = s"
  by (simp add: replace_def first_index_None_iff [symmetric])

lemma replace_prefix: "replace (pat @ s) pat rep = rep @ s"
  by (simp add: replace_def first_index_prefixI)

lemma replace_Cons_no_prefix:
  "\<not> prefix pat (c # cs) \<Longrightarrow> replace (c # cs) pat rep = c # replace cs pat rep"
  by (auto simp: replace_def split: option.splits)

lemma take_append_le: "n \<le> length xs \<Longrightarrow> take n (xs @ ys) = take n xs"
  by simp

lemma prefix_within:
  assumes "prefix pat (a @ pat @ b)" and "pat \<noteq> []" and "a \<noteq> []"
  shows "prefix pat (a @ butlast pat)"
proof -
  from assms(1) obtain zs where z: "a @ pat @ b = pat @ zs"
    by (auto simp: prefix_def)
  from assms(2,3) have le: "length pat \<le> length (a @ butlast pat)"
    by (cases a) simp_all
  have "pat = take (length pat) (a @ pat @ b)"
    unfolding z by simp
  also from assms(2) have "a @ pat @ b = (a @ butlast pat) @ (last pat # b)"
    by simp
  also have "take (length pat) \<dots> = take (length pat) (a @ butlast pat)"
    using le by (rule take_append_le)
  finally have "pat = take (length pat) (a @ butlast pat)" .
  then show ?thesis by (metis take_is_prefix)
qed

lemma replace_first_occurrence:
  "\<not> sublist pat (a @ butlast pat) \<Longrightarrow> replace (a @ pat @ b) pat rep = a @ rep @ b"
proof (induction a)
  case Nil
  then show ?case by (simp add: replace_prefix)
next
  case (Cons c a)
  from Cons.prems have ne: "pat \<noteq> []" by auto
  have np: "\<not> prefix pat ((c # a) @ pat @ b)"
    using prefix_within [of pat "c # a" b] ne Cons.prems by (auto dest: prefix_imp_sublist)
  from Cons.prems have "\<not> sublist pat (a @ butlast pat)"
    by (auto simp: sublist_Cons_right)
  with Cons.IH np show ?case
    by (simp add: replace_Cons_no_prefix)
qed

lemma length_replace_empty:
  "sublist pat s \<Longrightarrow> length (replace s pat []) = length s - length pat"
  using first_index_None_iff [of pat s]
  by (auto simp: replace_def split: option.splits dest: first_index_le)

section \<open>trim\<close>

text \<open>
  White space (\<open>WhiteSpace\<close> and \<open>LineTerminator\<close> of the language, below 256)
  is stripped from both ends; what lies between is kept.
\<close>

definition is_space :: "char \<Rightarrow> bool" where
  "is_space c \<longleftrightarrow>
     c \<in> set [CHR 0x09, CHR 0x0A, CHR 0x0B, CHR 0x0C, CHR 0x0D, CHR '' '', CHR 0xA0]"

definition trim :: "string \<Rightarrow> string" where
  "trim s = rev (dropWhile is_space (rev (dropWhile is_space s)))"

lemmas trim_defs [js_defs] = is_space_def trim_def

lemma trim_idem [simp]: "trim (trim s) = trim s"
  by (simp add: trim_def dropWhile_rev_dropWhile_idem)

lemma dropWhile_all_Nil: "list_all P (dropWhile P s) \<Longrightarrow> dropWhile P s = []"
  by (cases "dropWhile P s") (auto simp: dropWhile_eq_Cons_conv)

lemma trim_Nil_iff: "trim s = [] \<longleftrightarrow> list_all is_space s"
proof
  assume "trim s = []"
  then have "list_all is_space (dropWhile is_space s)"
    by (simp add: trim_def list_all_iff)
  then have "dropWhile is_space s = []" by (rule dropWhile_all_Nil)
  then show "list_all is_space s" by (simp add: list_all_iff)
next
  assume "list_all is_space s"
  then have d: "dropWhile is_space s = []" by (simp add: list_all_iff)
  show "trim s = []" unfolding trim_def d by simp
qed

lemma hd_trim_not_space: "trim s \<noteq> [] \<Longrightarrow> \<not> is_space (hd (trim s))"
proof -
  assume ne: "trim s \<noteq> []"
  have "dropWhile is_space (trim s) = trim s"
    by (simp add: trim_def dropWhile_rev_dropWhile_idem)
  with ne show ?thesis
    by (metis hd_dropWhile)
qed

lemma last_trim_not_space: "trim s \<noteq> [] \<Longrightarrow> \<not> is_space (last (trim s))"
proof -
  assume ne: "trim s \<noteq> []"
  let ?r = "dropWhile is_space (rev (dropWhile is_space s))"
  from ne have r: "?r \<noteq> []" by (simp add: trim_def)
  then have "\<not> is_space (hd ?r)" by (rule hd_dropWhile)
  with r show ?thesis by (simp add: trim_def last_rev)
qed

lemma trim_sublist: "sublist (trim s) s"
proof -
  have "suffix (dropWhile is_space s) s" by (rule suffix_dropWhile)
  moreover have "prefix (trim s) (dropWhile is_space s)"
    unfolding trim_def by (metis rev_rev_ident suffix_dropWhile suffix_to_prefix)
  ultimately show ?thesis by (auto simp: sublist_altdef')
qed

lemma trim_fix: "s \<noteq> [] \<Longrightarrow> \<not> is_space (hd s) \<Longrightarrow> \<not> is_space (last s) \<Longrightarrow> trim s = s"
proof -
  assume ne: "s \<noteq> []" and h: "\<not> is_space (hd s)" and l: "\<not> is_space (last s)"
  from ne h have d: "dropWhile is_space s = s" by (cases s) auto
  from ne l have "dropWhile is_space (rev s) = rev s" by (cases "rev s") (auto simp: last_rev)
  with d show ?thesis by (simp add: trim_def)
qed

lemma trim_no_break_spaces: "trim (replicate n (CHR 0xA0)) = []"
  by (simp add: trim_Nil_iff list_all_iff is_space_def)

section \<open>substring and the letter test\<close>

text \<open>
  \<open>s.substring(a, b)\<close> for non-negative arguments: both are clamped to the
  length and swapped if out of order. \<open>s.match(/[A-Z]/)\<close> is truthy when some
  character of \<open>s\<close> is in \<open>A\<close>..\<open>Z\<close>.
\<close>

definition substring :: "string \<Rightarrow> nat \<Rightarrow> nat \<Rightarrow> string" where
  "substring s a b =
     (let a' = min a (length s); b' = min b (length s)
      in take (max a' b' - min a' b') (drop (min a' b') s))"

definition matches_AZ :: "string \<Rightarrow> bool" where
  "matches_AZ s \<longleftrightarrow> list_ex is_AZ s"

lemmas substring_defs [js_defs] = substring_def matches_AZ_def

lemma substring_0_Suc0 [simp]: "substring s 0 (Suc 0) = take (Suc 0) s"
  by (cases s) (simp_all add: substring_def)

lemma length_substring_0_1: "length (substring s 0 1) \<le> 1"
  by simp

lemma first_letter_Nil: "toUpperCase (substring [] 0 1) = []"
  by (simp add: toUpperCase_def)

lemma first_letter_Cons: "toUpperCase (substring (c # cs) 0 1) = [upper_char c]"
  by (simp add: toUpperCase_def)

lemma matches_AZ_first_letter:
  "matches_AZ (toUpperCase (substring s 0 1)) \<longleftrightarrow> s \<noteq> [] \<and> (is_AZ (hd s) \<or> is_az (hd s))"
  by (cases s) (simp_all add: matches_AZ_def toUpperCase_def is_AZ_upper_char)

end
