(* ===== verification/Dom.thy ===== *)
theory Dom
  imports JS_String
begin

text \<open>
  The parsed page as the route sees it through the HTML library: a forest of
  element, text and comment nodes, the selection of elements by a selector (in
  document order), \<open>.attr(name)\<close> (the attribute of the first selected element)
  and \<open>.text()\<close> (the text of all selected elements, concatenated). The two
  selections of \<open>buildCrxConfig\<close> and \<open>getCrxTitle\<close> are \<open>icon_href\<close> and
  \<open>title_text\<close>. How markup becomes a forest is the library's business and is
  not modelled: the environment hands over the forest.

  The HTML library is not part of the repository, so the selection functions
  are written from its documented behaviour, not from code under
  \<^verbatim>\<open>src/\<close>: \<open>.attr\<close> reads the first element of a selection, \<open>.text()\<close>
  concatenates the text of every element of it, a selector group selects in
  document order, and \<open>[rel="icon"]\<close> compares the attribute value exactly
  (case included). What is proved of titles and icons holds under this
  reading of the library.
\<close>

section \<open>Documents\<close>

datatype node =
    Element string "(string \<times> string) list" "node list"
  | Text string
  | Comment string

type_synonym document = "node list"

text \<open>The elements of a tree in document order (a parent before its children).\<close>

fun elements :: "node \<Rightarrow> node list" where
  "elements (Element t as cs) = Element t as cs # concat (map elements cs)"
| "elements (Text s) = []"
| "elements (Comment s) = []"

definition elements_of :: "document \<Rightarrow> node list" where
  "elements_of d = concat (map elements d)"

fun text_of :: "node \<Rightarrow> string" where
  "text_of (Element t as cs) = concat (map text_of cs)"
| "text_of (Text s) = s"
| "text_of (Comment s) = []"

fun tag_of :: "node \<Rightarrow> string option" where
  "tag_of (Element t as cs) = Some t"
| "tag_of _ = None"

text \<open>An attribute of a node; of two attributes of one name the first counts.\<close>

fun attr_of :: "node \<Rightarrow> string \<Rightarrow> string option" where
  "attr_of (Element t as cs) a = map_of as a"
| "attr_of _ a = None"

section \<open>Selections\<close>

definition select_tag :: "document \<Rightarrow> string \<Rightarrow> node list" where
  "select_tag d t = filter (\<lambda>n. tag_of n = Some t) (elements_of d)"

text \<open>\<open>.attr(a)\<close> of a selection: the attribute of its first element.\<close>

fun sel_attr :: "node list \<Rightarrow> string \<Rightarrow> string option" where
  "sel_attr [] a = None"
| "sel_attr (n # ns) a = attr_of n a"

text \<open>\<open>.text()\<close> of a selection: the texts of all its elements, in order.\<close>

definition sel_text :: "node list \<Rightarrow> string" where
  "sel_text ns = concat (map text_of ns)"

text \<open>The selector \<^verbatim>\<open>link[rel="icon"], link[rel="shortcut icon"]\<close>.\<close>

definition is_icon_link :: "node \<Rightarrow> bool" where
  "is_icon_link n \<longleftrightarrow>
     tag_of n = Some ''link'' \<and>
     (attr_of n ''rel'' = Some ''icon'' \<or> attr_of n ''rel'' = Some ''shortcut icon'')"

definition icon_links :: "document \<Rightarrow> node list" where
  "icon_links d = filter is_icon_link (elements_of d)"

text \<open>Line 55: the \<open>href\<close> of the selection of icon links.\<close>

definition icon_href :: "document \<Rightarrow> string option" where
  "icon_href d = sel_attr (icon_links d) ''href''"

text \<open>Line 63: \<open>dom('title').text()\<close>.\<close>

definition title_text :: "document \<Rightarrow> string" where
  "title_text d = sel_text (select_tag d ''title'')"

lemmas dom_defs [js_defs] =
  elements_of_def select_tag_def sel_text_def is_icon_link_def icon_links_def
  icon_href_def title_text_def

section \<open>Facts\<close>

lemma elements_of_Nil [simp]: "elements_of [] = []"
  by (simp add: elements_of_def)

lemma elements_of_Cons [simp]: "elements_of (n # d) = elements n @ elements_of d"
  by (simp add: elements_of_def)

lemma elements_of_append [simp]: "elements_of (d @ d') = elements_of d @ elements_of d'"
  by (simp add: elements_of_def)

lemma elements_are_elements: "n \<in> set (elements m) \<Longrightarrow> tag_of n \<noteq> None"
proof (induction m arbitrary: n)
  case (Element t as cs)
  then show ?case by auto
qed simp_all

lemma select_tag_append [simp]: "select_tag (d @ d') t = select_tag d t @ select_tag d' t"
  by (simp add: select_tag_def)

lemma icon_links_append [simp]: "icon_links (d @ d') = icon_links d @ icon_links d'"
  by (simp add: icon_links_def)

lemma sel_text_append [simp]: "sel_text (ns @ ms) = sel_text ns @ sel_text ms"
  by (simp add: sel_text_def)

lemma sel_text_Nil [simp]: "sel_text [] = []"
  by (simp add: sel_text_def)

lemma sel_text_Cons [simp]: "sel_text (n # ns) = text_of n @ sel_text ns"
  by (simp add: sel_text_def)

text \<open>The title text of a document is that of its parts, one after the other.\<close>

lemma title_text_append: "title_text (d @ d') = title_text d @ title_text d'"
  by (simp add: title_text_def)

lemma title_text_no_title: "select_tag d ''title'' = [] \<Longrightarrow> title_text d = []"
  by (simp add: title_text_def)

text \<open>Only the first icon link is asked for its \<open>href\<close>.\<close>

lemma icon_href_no_link: "icon_links d = [] \<Longrightarrow> icon_href d = None"
  by (simp add: icon_href_def)

lemma icon_href_first: "icon_links d = n # ns \<Longrightarrow> icon_href d = attr_of n ''href''"
  by (simp add: icon_href_def)

lemma icon_href_append:
  "icon_href (d @ d') = (if icon_links d = [] then icon_href d' else icon_href d)"
  by (cases "icon_links d") (simp_all add: icon_href_def)

lemma icon_href_Some_link:
  "icon_href d = Some h \<Longrightarrow> \<exists>n \<in> set (elements_of d). is_icon_link n \<and> attr_of n ''href'' = Some h"
proof -
  assume h: "icon_href d = Some h"
  then obtain n ns where l: "icon_links d = n # ns"
    by (cases "icon_links d") (simp_all add: icon_href_def)
  then have "n \<in> set (icon_links d)" by simp
  then have "n \<in> set (elements_of d)" and "is_icon_link n"
    by (simp_all add: icon_links_def)
  with h l show ?thesis by (auto simp: icon_href_first)
qed

end
