(* ===== verification/Env.thy ===== *)
theory Env
  imports Dom
begin

text \<open>
  The interface between \<^verbatim>\<open>src/api/routes/generate.js\<close> and everything it
  calls: the data the libraries exchange with it (\<open>parsedUrl\<close>, \<open>request\<close>,
  \<open>response\<close>, \<open>cert\<close>, \<open>manifest\<close>, \<open>extension\<close>), the record \<open>env\<close> of what
  the libraries answer, the \<open>world\<close> the route changes (the files, and the
  trace of external calls in the order they are issued), and one action per
  external call. The components are stated over an arbitrary \<open>env\<close>; a
  concrete one is only chosen in witnesses.
\<close>

section \<open>Data exchanged with the libraries\<close>

text \<open>What \<open>url.parse\<close> returns, as far as the route reads it (\<open>null\<close> is \<open>None\<close>).\<close>

record parsedUrl =
  protocol :: "string option"
  hostname :: "string option"

text \<open>The object \<open>getPageDOM\<close> hands to \<open>request\<close>, and what comes back.\<close>

record request =
  req_url :: string
  req_headers :: "(string \<times> string) list"

record response =
  statusCode :: nat
  body :: string

record cert =
  clientKey :: string

text \<open>
  The fields of the packager's manifest the route reads or writes:
  \<open>name\<close> (\<open>None\<close> when \<open>null\<close>), \<open>app.urls\<close>, \<open>app.launch.web_url\<close> and
  \<open>icons['128']\<close>.
\<close>

record manifest =
  name :: "string option"
  app_urls :: "string list"
  app_launch_web_url :: string
  icons_128 :: string

record extension =
  privateKey :: string
  path :: string
  manifest :: manifest

text \<open>
  What piping a download into a file ends in: \<open>Finished c\<close>, the stream
  finished having written \<open>c\<close>; \<open>SyncThrow e\<close>, the call threw at once;
  \<open>Stalled c\<close>, the stream stopped after \<open>c\<close> without ever finishing.
\<close>

datatype stream_result =
    Finished string
  | SyncThrow js_error
  | Stalled string

section \<open>The environment and the world\<close>

type_synonym fs = "string \<rightharpoonup> string"

record env =
  url_parse :: "string \<Rightarrow> parsedUrl"
  url_resolve :: "string \<Rightarrow> string \<Rightarrow> string"
  http_request :: "request \<Rightarrow> response reply"
  cheerio_load :: "string \<Rightarrow> document"
  pem_createCertificate :: "nat \<Rightarrow> bool \<Rightarrow> cert reply"
  crx_load :: "string \<Rightarrow> fs \<Rightarrow> (string \<times> manifest \<times> fs) reply"
  crx_pack :: "extension \<Rightarrow> fs \<Rightarrow> string reply"
  http_stream :: "string \<Rightarrow> stream_result"
  stream_fault :: "string \<Rightarrow> js_error option"
  dirname :: string
  path_join :: "string \<Rightarrow> string \<Rightarrow> string"

datatype io_event =
    HttpRequest request
  | PemCreateCertificate nat bool
  | CrxLoad string
  | FsAccess string
  | FsWriteStream string
  | FsReadStream string
  | HttpStream string
  | CrxPack

record world =
  files :: fs
  trace :: "io_event list"

type_synonym 'a action = "(world, 'a) io"

definition init_world :: "fs \<Rightarrow> world" where
  "init_world f = \<lparr>files = f, trace = []\<rparr>"

section \<open>External calls as actions\<close>

definition emit :: "io_event \<Rightarrow> unit action" where
  "emit e = (\<lambda>w. (w\<lparr>trace := trace w @ [e]\<rparr>, Return ()))"

definition write_file :: "string \<Rightarrow> string \<Rightarrow> unit action" where
  "write_file p c = (\<lambda>w. (w\<lparr>files := (files w)(p \<mapsto> c)\<rparr>, Return ()))"

text \<open>\<open>thunkify(request)(req)\<close>: the callback form of \<open>request\<close>.\<close>

definition call_request :: "env \<Rightarrow> request \<Rightarrow> response action" where
  "call_request env req =
     bind (emit (HttpRequest req)) (\<lambda>_ w. (w, outcome_of_reply (http_request env req)))"

text \<open>\<open>thunkify(pem.createCertificate)({days, selfSigned})\<close>.\<close>

definition call_createCertificate :: "env \<Rightarrow> nat \<Rightarrow> bool \<Rightarrow> cert action" where
  "call_createCertificate env days selfSigned =
     bind (emit (PemCreateCertificate days selfSigned))
       (\<lambda>_ w. (w, outcome_of_reply (pem_createCertificate env days selfSigned)))"

text \<open>
  \<open>crx.load(dir)\<close>: the packager copies the template into a working directory
  and reads its manifest; the extension object then knows both.
\<close>

definition call_load :: "env \<Rightarrow> extension \<Rightarrow> string \<Rightarrow> extension action" where
  "call_load env crx dir =
     bind (emit (CrxLoad dir)) (\<lambda>_ w.
       case crx_load env dir (files w) of
         Reply (p, m, f) \<Rightarrow> (w\<lparr>files := f\<rparr>, Return (crx\<lparr>path := p, manifest := m\<rparr>))
       | Fail e \<Rightarrow> (w, Throw e)
       | NoReply \<Rightarrow> (w, Pending))"

text \<open>\<open>crx.pack()\<close>: the archive of the working directory as it is now.\<close>

definition call_pack :: "env \<Rightarrow> extension \<Rightarrow> string action" where
  "call_pack env crx =
     bind (emit CrxPack) (\<lambda>_ w. (w, outcome_of_reply (crx_pack env crx (files w))))"

text \<open>\<open>fs.accessSync(p, fs.F_OK)\<close>: throws unless \<open>p\<close> exists.\<close>

definition accessSync :: "string \<Rightarrow> unit action" where
  "accessSync p =
     bind (emit (FsAccess p)) (\<lambda>_ w.
       if p \<in> dom (files w) then (w, Return ()) else (w, Throw (LibError ''ENOENT'')))"

lemmas call_defs =
  emit_def write_file_def call_request_def call_createCertificate_def call_load_def
  call_pack_def accessSync_def

section \<open>The trace only grows, the files change only where written\<close>

text \<open>
  \<open>appends m\<close>: whatever \<open>m\<close> does, the calls recorded before it are still
  there, in order, when it ends. Every action of the development has this
  property; it is what makes statements about the order of calls meaningful.
\<close>

definition appends :: "'a action \<Rightarrow> bool" where
  "appends m \<longleftrightarrow> (\<forall>w. prefix (trace w) (trace (fst (m w))))"

text \<open>The calls an action adds to the trace.\<close>

definition issued :: "'a action \<Rightarrow> world \<Rightarrow> io_event list" where
  "issued m w = drop (length (trace w)) (trace (fst (m w)))"

lemma appendsI: "(\<And>w. prefix (trace w) (trace (fst (m w)))) \<Longrightarrow> appends m"
  by (simp add: appends_def)

lemma appendsD: "appends m \<Longrightarrow> m w = (w', r) \<Longrightarrow> prefix (trace w) (trace w')"
  by (auto simp: appends_def dest: spec [of _ w])

lemma appends_return [frame, simp]: "appends (return a)"
  by (simp add: appends_def)

lemma appends_throw [frame, simp]: "appends (throw e)"
  by (simp add: appends_def)

lemma appends_pending [frame, simp]: "appends pending"
  by (simp add: appends_def)

lemma appends_emit [frame, simp]: "appends (emit e)"
  by (simp add: appends_def emit_def)

lemma appends_write_file [frame, simp]: "appends (write_file p c)"
  by (simp add: appends_def write_file_def)

lemma appends_bind [frame]:
  assumes "appends m" and "\<And>a. appends (f a)"
  shows "appends (bind m f)"
proof (rule appendsI)
  fix w
  show "prefix (trace w) (trace (fst (bind m f w)))"
  proof (cases rule: outcome_cases3 [of m w])
    case (Return w' a)
    from assms(1) Return have "prefix (trace w) (trace w')" by (rule appendsD)
    moreover from assms(2) have "prefix (trace w') (trace (fst (f a w')))"
      by (simp add: appends_def)
    ultimately show ?thesis using Return by (auto simp: bind_Return)
  next
    case (Throw w' e)
    with assms(1) show ?thesis by (auto simp: bind_Throw dest: appendsD)
  next
    case (Pending w')
    with assms(1) show ?thesis by (auto simp: bind_Pending dest: appendsD)
  qed
qed

lemma appends_catch [frame]:
  assumes "appends m" and "\<And>e. appends (h e)"
  shows "appends (catch m h)"
proof (rule appendsI)
  fix w
  show "prefix (trace w) (trace (fst (catch m h w)))"
  proof (cases rule: outcome_cases3 [of m w])
    case (Return w' a)
    with assms(1) show ?thesis by (auto simp: catch_Return dest: appendsD)
  next
    case (Throw w' e)
    from assms(1) Throw have "prefix (trace w) (trace w')" by (rule appendsD)
    moreover from assms(2) have "prefix (trace w') (trace (fst (h e w')))"
      by (simp add: appends_def)
    ultimately show ?thesis using Throw by (auto simp: catch_Throw)
  next
    case (Pending w')
    with assms(1) show ?thesis by (auto simp: catch_Pending dest: appendsD)
  qed
qed

lemma appends_pure [frame]: "(\<And>w. fst (m w) = w) \<Longrightarrow> appends m"
  by (simp add: appends_def)

lemma appends_if [frame]: "appends m \<Longrightarrow> appends n \<Longrightarrow> appends (if b then m else n)"
  by simp

lemma appends_call_request [frame, simp]: "appends (call_request env req)"
  unfolding call_request_def by (intro appends_bind appends_emit appends_pure) simp

lemma appends_call_createCertificate [frame, simp]:
  "appends (call_createCertificate env d s)"
  unfolding call_createCertificate_def by (intro appends_bind appends_emit appends_pure) simp

lemma appends_call_pack [frame, simp]: "appends (call_pack env crx)"
  unfolding call_pack_def by (intro appends_bind appends_emit appends_pure) simp

lemma appends_accessSync [frame, simp]: "appends (accessSync p)"
  unfolding accessSync_def by (intro appends_bind appends_emit appends_pure) simp

lemma appends_call_load [frame, simp]: "appends (call_load env crx dir)"
  unfolding call_load_def
  by (intro appends_bind appends_emit appendsI) (simp split: reply.splits prod.splits)

lemma issued_trace: "appends m \<Longrightarrow> trace (fst (m w)) = trace w @ issued m w"
proof -
  assume "appends m"
  then obtain zs where "trace (fst (m w)) = trace w @ zs"
    by (auto simp: appends_def prefix_def)
  then show ?thesis
    by (simp add: issued_def)
qed

lemma issued_bind_Return:
  assumes "appends m" and "appends (f a)" and "m w = (w1, Return a)"
  shows "issued (bind m f) w = issued m w @ issued (f a) w1"
proof -
  from issued_trace [OF assms(1), of w] assms(3) have t: "trace w1 = trace w @ issued m w"
    by simp
  from issued_trace [OF assms(2), of w1] t
  have "trace (fst (f a w1)) = trace w @ issued m w @ issued (f a) w1"
    by simp
  moreover from assms(3) have "bind m f w = f a w1"
    by (simp add: bind_def)
  ultimately show ?thesis
    unfolding issued_def [of "bind m f"] by simp
qed

lemma issued_bind_stop:
  "m w = (w1, r) \<Longrightarrow> \<not> is_Return r \<Longrightarrow> issued (bind m f) w = issued m w"
proof -
  assume "m w = (w1, r)" and "\<not> is_Return r"
  then have "fst (bind m f w) = fst (m w)"
    by (cases r) (simp_all add: bind_def)
  then show ?thesis
    unfolding issued_def by simp
qed

lemma issued_bind_return [simp]: "issued (bind m (\<lambda>a. return (g a))) w = issued m w"
  by (simp add: issued_def)

lemma issued_return [simp]: "issued (return a) w = []"
  by (simp add: issued_def)

lemma issued_throw [simp]: "issued (throw e) w = []"
  by (simp add: issued_def)

lemma issued_shift:
  "appends m \<Longrightarrow>
   drop (length (trace w)) (trace (fst (m (w\<lparr>trace := trace w @ [e]\<rparr>)))) =
     e # issued m (w\<lparr>trace := trace w @ [e]\<rparr>)"
  using issued_trace [of m "w\<lparr>trace := trace w @ [e]\<rparr>"] by simp

section \<open>What each call does, by cases\<close>

lemma emit_apply [simp]: "emit e w = (w\<lparr>trace := trace w @ [e]\<rparr>, Return ())"
  by (simp add: emit_def)

lemma write_file_apply [simp]: "write_file p c w = (w\<lparr>files := (files w)(p \<mapsto> c)\<rparr>, Return ())"
  by (simp add: write_file_def)

lemma call_request_apply:
  "call_request env req w =
     (w\<lparr>trace := trace w @ [HttpRequest req]\<rparr>, outcome_of_reply (http_request env req))"
  by (simp add: call_request_def bind_def)

lemma call_createCertificate_apply:
  "call_createCertificate env d s w =
     (w\<lparr>trace := trace w @ [PemCreateCertificate d s]\<rparr>,
      outcome_of_reply (pem_createCertificate env d s))"
  by (simp add: call_createCertificate_def bind_def)

lemma call_pack_apply:
  "call_pack env crx w =
     (w\<lparr>trace := trace w @ [CrxPack]\<rparr>, outcome_of_reply (crx_pack env crx (files w)))"
  by (simp add: call_pack_def bind_def)

lemma accessSync_apply:
  "accessSync p w =
     (w\<lparr>trace := trace w @ [FsAccess p]\<rparr>,
      if p \<in> dom (files w) then Return () else Throw (LibError ''ENOENT''))"
  by (simp add: accessSync_def bind_def)

lemma call_load_apply:
  "call_load env crx dir w =
     (case crx_load env dir (files w) of
        Reply (p, m, f) \<Rightarrow>
          (w\<lparr>trace := trace w @ [CrxLoad dir], files := f\<rparr>, Return (crx\<lparr>path := p, manifest := m\<rparr>))
      | Fail e \<Rightarrow> (w\<lparr>trace := trace w @ [CrxLoad dir]\<rparr>, Throw e)
      | NoReply \<Rightarrow> (w\<lparr>trace := trace w @ [CrxLoad dir]\<rparr>, Pending))"
  by (simp add: call_load_def bind_def split: reply.splits)

lemmas call_simps =
  call_request_apply call_createCertificate_apply call_pack_apply accessSync_apply
  call_load_apply

lemma issued_call_pack [simp]: "issued (call_pack env crx) w = [CrxPack]"
  by (simp add: issued_def call_pack_apply)

end
