(* ===== verification/Demo.thy ===== *)
theory Demo
  imports Env
begin

text \<open>
  One concrete environment, \<open>demo_env\<close>, on which the closed instances of the
  development are evaluated: a handful of URLs with what \<open>url.parse\<close> makes
  of them, one page that answers, one host that refuses the connection, one
  that never answers, a packager with a template of one icon, and a file
  system \<open>demo_files\<close> with the placeholder letters \<open>E\<close> and \<open>D\<close> and one
  curated icon. Nothing is proved about \<open>demo_env\<close> for its own sake.
\<close>

definition demo_parse :: "string \<Rightarrow> parsedUrl" where
  "demo_parse s =
     (if s = ''http://example.com/'' then \<lparr>protocol = Some ''http:'', hostname = Some ''example.com''\<rparr>
      else if s = ''https://down.example.org/'' then \<lparr>protocol = Some ''https:'', hostname = Some ''down.example.org''\<rparr>
      else if s = ''https://www.messenger.com/'' then \<lparr>protocol = Some ''https:'', hostname = Some ''www.messenger.com''\<rparr>
      else if s = ''http://slow.example.net/'' then \<lparr>protocol = Some ''http:'', hostname = Some ''slow.example.net''\<rparr>
      else if s = ''http://123shop.io/'' then \<lparr>protocol = Some ''http:'', hostname = Some ''123shop.io''\<rparr>
      else if s = ''shttp://example.com/'' then \<lparr>protocol = Some ''shttp:'', hostname = Some ''example.com''\<rparr>
      else if s = ''http:example'' then \<lparr>protocol = Some ''http:'', hostname = None\<rparr>
      else if s = ''ftp://example.com/'' then \<lparr>protocol = Some ''ftp:'', hostname = Some ''example.com''\<rparr>
      else \<lparr>protocol = None, hostname = None\<rparr>)"

definition demo_page :: string where
  "demo_page = ''<title> Example Domain </title><link rel=icon href=/favicon.ico>''"

definition demo_dom :: document where
  "demo_dom =
     [Element ''html'' []
        [Element ''head'' []
           [Element ''title'' [] [Text '' Example Domain ''],
            Element ''link'' [(''rel'', ''icon''), (''href'', ''/favicon.ico'')] []],
         Element ''body'' [] [Text ''Hello'']]]"

definition demo_request :: "request \<Rightarrow> response reply" where
  "demo_request req =
     (if req_url req = ''http://example.com/'' then Reply \<lparr>statusCode = 200, body = demo_page\<rparr>
      else if req_url req = ''http://slow.example.net/'' then NoReply
      else Fail (LibError ''ECONNREFUSED''))"

definition demo_manifest :: manifest where
  "demo_manifest =
     \<lparr>name = Some ''template'', app_urls = [], app_launch_web_url = [], icons_128 = ''icon.png''\<rparr>"

definition demo_load :: "string \<Rightarrow> fs \<Rightarrow> (string \<times> manifest \<times> fs) reply" where
  "demo_load dir f = Reply (''/tmp/crx'', demo_manifest, f(''/tmp/crx/icon.png'' \<mapsto> ''DEFAULT''))"

text \<open>The demo packager's archive: title, launch URL and icon bytes, one per line.\<close>

definition demo_pack :: "extension \<Rightarrow> fs \<Rightarrow> string reply" where
  "demo_pack crx f =
     Reply (concat
       [case name (manifest crx) of None \<Rightarrow> ''null'' | Some n \<Rightarrow> n, ''|'',
        app_launch_web_url (manifest crx), ''|'',
        case f (path crx @ ''/'' @ icons_128 (manifest crx)) of None \<Rightarrow> [] | Some c \<Rightarrow> c])"

definition demo_env :: env where
  "demo_env =
     \<lparr>url_parse = demo_parse,
      url_resolve = (\<lambda>base rel. if prefix ''http'' rel then rel else ''http://example.com'' @ rel),
      http_request = demo_request,
      cheerio_load = (\<lambda>b. if b = demo_page then demo_dom else []),
      pem_createCertificate = (\<lambda>d s. Reply \<lparr>clientKey = ''KEY''\<rparr>),
      crx_load = demo_load,
      crx_pack = demo_pack,
      http_stream = (\<lambda>u. if u = ''http://example.com/favicon.ico'' then Finished ''FAVICON''
                          else Stalled []),
      stream_fault = (\<lambda>p. None),
      dirname = ''/app/api/routes'',
      path_join = (\<lambda>a b. a @ ''/'' @ b)\<rparr>"

definition demo_files :: fs where
  "demo_files =
     [''/app/api/routes/../lib/extension/icons/fallback/E.png'' \<mapsto> ''LETTER-E'',
      ''/app/api/routes/../lib/extension/icons/fallback/D.png'' \<mapsto> ''LETTER-D'',
      ''/app/api/routes/../assets/icons/messenger.com.png'' \<mapsto> ''CURATED-MESSENGER'']"

definition demo_world :: world where
  "demo_world = init_world demo_files"

lemmas demo_defs =
  demo_env_def demo_parse_def demo_request_def demo_page_def demo_dom_def demo_manifest_def
  demo_load_def demo_pack_def demo_files_def demo_world_def init_world_def

end
