(* ===== verification/Url.thy ===== *)
theory Url
  imports Demo
begin

text \<open>
  The URL validator, \<open>exports.parseUrl\<close> (lines 76 to 91 of
  \<^verbatim>\<open>src/api/routes/generate.js\<close>): the one gate every request passes before
  any external call. \<open>parseUrl\<close> is the function as written; \<open>is_http_scheme\<close>
  is what the specification asks of an accepted URL, and the lemmas say how
  the two relate: every URL with an \<open>http:\<close> or \<open>https:\<close> scheme is accepted,
  and so is every URL whose scheme merely contains \<open>http\<close>.
\<close>

section \<open>The function\<close>

definition no_url_message :: string where
  "no_url_message = ''Please provide a URL to continue.''"

definition bad_url_message :: string where
  "bad_url_message =
     ''Please provide a valid URL for your extension. (It must start with http(s)://)''"

text \<open>\<open>url.parse\<close> applied to a value: it refuses what is not a string.\<close>

definition url_parse_value :: "env \<Rightarrow> jsval \<Rightarrow> js_error + parsedUrl" where
  "url_parse_value env v =
     (case v of
        JStr s \<Rightarrow> Inr (url_parse env s)
      | _ \<Rightarrow> Inl (TypeError ''Parameter url must be a string''))"

definition parseUrl :: "env \<Rightarrow> jsval \<Rightarrow> js_error + parsedUrl" where
  "parseUrl env targetUrl =
     (if \<not> truthy targetUrl then Inl (Error no_url_message)
      else case url_parse_value env targetUrl of
        Inl e \<Rightarrow> Inl e
      | Inr parsedUrl \<Rightarrow>
          (case protocol parsedUrl of
             None \<Rightarrow> Inl (Error bad_url_message)
           | Some p \<Rightarrow>
               if p = [] \<or> indexOf p ''http'' = - 1 then Inl (Error bad_url_message)
               else Inr parsedUrl))"

text \<open>The specification's requirement: the scheme is HTTP or HTTPS.\<close>

definition is_http_scheme :: "string option \<Rightarrow> bool" where
  "is_http_scheme p \<longleftrightarrow> p = Some ''http:'' \<or> p = Some ''https:''"

text \<open>What the code tests instead: the scheme contains \<open>http\<close> somewhere.\<close>

definition accepted_scheme :: "string option \<Rightarrow> bool" where
  "accepted_scheme p \<longleftrightarrow> (case p of None \<Rightarrow> False | Some s \<Rightarrow> sublist ''http'' s)"

section \<open>Every branch\<close>

lemma url_parse_value_JStr [simp]: "url_parse_value env (JStr s) = Inr (url_parse env s)"
  by (simp add: url_parse_value_def)

lemma url_parse_value_Inr_iff:
  "url_parse_value env v = Inr p \<longleftrightarrow> (\<exists>s. v = JStr s \<and> p = url_parse env s)"
  by (cases v) (auto simp: url_parse_value_def)

lemma accepted_scheme_code:
  "accepted_scheme p \<longleftrightarrow> (\<exists>s. p = Some s \<and> s \<noteq> [] \<and> indexOf s ''http'' \<noteq> - 1)"
  by (cases p) (auto simp: accepted_scheme_def indexOf_minus1_iff)

lemma is_http_scheme_accepted: "is_http_scheme p \<Longrightarrow> accepted_scheme p"
  by (auto simp: is_http_scheme_def accepted_scheme_def sublist_Cons_right)

lemma parseUrl_falsy: "\<not> truthy v \<Longrightarrow> parseUrl env v = Inl (Error no_url_message)"
  by (simp add: parseUrl_def)

lemma parseUrl_not_string:
  "truthy v \<Longrightarrow> \<forall>s. v \<noteq> JStr s \<Longrightarrow> \<exists>m. parseUrl env v = Inl (TypeError m)"
  by (cases v) (auto simp: parseUrl_def url_parse_value_def)

lemma parseUrl_JStr:
  "parseUrl env (JStr s) =
     (if s = [] then Inl (Error no_url_message)
      else if accepted_scheme (protocol (url_parse env s)) then Inr (url_parse env s)
      else Inl (Error bad_url_message))"
  by (auto simp: parseUrl_def accepted_scheme_code split: option.splits)

lemma parseUrl_Inr_iff:
  "parseUrl env v = Inr p \<longleftrightarrow>
     (\<exists>s. v = JStr s \<and> s \<noteq> [] \<and> p = url_parse env s \<and> accepted_scheme (protocol p))"
proof (cases v)
  case (JStr s)
  then show ?thesis by (auto simp: parseUrl_JStr split: if_splits)
qed (auto simp: parseUrl_def url_parse_value_def)

lemma parseUrl_Inr_string: "parseUrl env v = Inr p \<Longrightarrow> JStr (js_str v) = v \<and> js_str v \<noteq> []"
  by (auto simp: parseUrl_Inr_iff)

lemma parseUrl_Inl_cases:
  "parseUrl env v = Inl e \<Longrightarrow>
     e = Error no_url_message \<or> e = Error bad_url_message
       \<or> e = TypeError ''Parameter url must be a string''"
  by (cases v) (auto simp: parseUrl_def url_parse_value_def split: if_splits option.splits)

section \<open>Properties\<close>

text \<open>
  C20: Every URL whose scheme is \<open>http:\<close> or \<open>https:\<close>, as the specification
  requires of a valid input, passes the validator, which returns what
  \<open>url.parse\<close> made of it unchanged.
\<close>

theorem parseUrl_accepts_http_and_https:
  assumes "is_http_scheme (protocol (url_parse env s))" and "s \<noteq> []"
  shows "parseUrl env (JStr s) = Inr (url_parse env s)"
  using assms by (simp add: parseUrl_JStr is_http_scheme_accepted)

theorem parseUrl_accepts_http_and_https_witness:
  "is_http_scheme (protocol (url_parse demo_env ''https://down.example.org/'')) \<and>
   parseUrl demo_env (JStr ''https://down.example.org/'') =
     Inr \<lparr>protocol = Some ''https:'', hostname = Some ''down.example.org''\<rparr>"
proof -
  have h: "is_http_scheme (protocol (url_parse demo_env ''https://down.example.org/''))"
    by (simp add: is_http_scheme_def demo_defs)
  from parseUrl_accepts_http_and_https [OF h] h show ?thesis
    by (simp add: demo_defs)
qed

text \<open>
  C22: An absent or empty input (any value JavaScript treats as false) is
  rejected with the message asking for a URL, before \<open>url.parse\<close> is called.
\<close>

theorem parseUrl_rejects_missing_input:
  "\<not> truthy v \<Longrightarrow> parseUrl env v = Inl (Error ''Please provide a URL to continue.'')"
  by (simp add: parseUrl_falsy no_url_message_def)

theorem parseUrl_rejects_missing_input_witness:
  "\<not> truthy JUndefined \<and> \<not> truthy (JStr []) \<and>
   parseUrl demo_env JUndefined = Inl (Error ''Please provide a URL to continue.'') \<and>
   parseUrl demo_env (JStr []) = Inl (Error ''Please provide a URL to continue.'')"
  using parseUrl_rejects_missing_input [of JUndefined demo_env]
    parseUrl_rejects_missing_input [of "JStr []" demo_env]
  by simp

text \<open>
  C21: A non-empty string is rejected exactly when its scheme is missing or does
  not contain \<open>http\<close>; the error is then the one asking for a valid URL.
\<close>

theorem parseUrl_rejects_iff:
  assumes "s \<noteq> []"
  shows "((\<exists>e. parseUrl env (JStr s) = Inl e) \<longleftrightarrow>
            \<not> accepted_scheme (protocol (url_parse env s))) \<and>
         (parseUrl env (JStr s) = Inl (Error bad_url_message) \<longleftrightarrow>
            \<not> accepted_scheme (protocol (url_parse env s)))"
  using assms by (simp add: parseUrl_JStr)

theorem parseUrl_rejects_iff_witness:
  "''ftp://example.com/'' \<noteq> [] \<and>
   parseUrl demo_env (JStr ''ftp://example.com/'') = Inl (Error bad_url_message) \<and>
   \<not> accepted_scheme (protocol (url_parse demo_env ''ftp://example.com/''))"
proof -
  have n: "\<not> accepted_scheme (protocol (url_parse demo_env ''ftp://example.com/''))"
    by (simp add: accepted_scheme_def demo_defs sublist_Cons_right)
  with parseUrl_rejects_iff [of "''ftp://example.com/''" demo_env] show ?thesis
    by simp
qed

text \<open>
  C14: The validator accepts any scheme that merely contains \<open>http\<close>: the test is
  \<open>indexOf('http') == -1\<close>, not a comparison with \<open>http:\<close> and \<open>https:\<close>. So a
  URL such as \<open>shttp://example.com/\<close> passes although the specification
  requires an HTTP or HTTPS scheme.
\<close>

theorem parseUrl_accepts_scheme_containing_http:
  assumes "protocol (url_parse env s) = Some pr" and "sublist ''http'' pr" and "s \<noteq> []"
  shows "parseUrl env (JStr s) = Inr (url_parse env s)"
  using assms by (simp add: parseUrl_JStr accepted_scheme_def)

theorem parseUrl_accepts_scheme_containing_http_witness:
  "protocol (url_parse demo_env ''shttp://example.com/'') = Some ''shttp:'' \<and>
   sublist ''http'' ''shttp:'' \<and> \<not> is_http_scheme (Some ''shttp:'') \<and>
   parseUrl demo_env (JStr ''shttp://example.com/'') =
     Inr \<lparr>protocol = Some ''shttp:'', hostname = Some ''example.com''\<rparr>"
proof -
  have p: "protocol (url_parse demo_env ''shttp://example.com/'') = Some ''shttp:''"
    by (simp add: demo_defs)
  have s: "sublist ''http'' ''shttp:''"
    by (simp add: sublist_Cons_right)
  from parseUrl_accepts_scheme_containing_http [OF p s] p s show ?thesis
    by (simp add: demo_defs is_http_scheme_def)
qed

end
