(* ===== verification/Config.thy ===== *)
theory Config
  imports Url
begin

text \<open>
  The configuration assembler of \<^verbatim>\<open>src/api/routes/generate.js\<close>:
  \<open>exports.buildCrxConfig\<close> (lines 28 to 58) with the object it builds
  (\<open>crxConfig\<close>), \<open>exports.getPageDOM\<close> (lines 93 to 107) and
  \<open>exports.getCrxTitle\<close> (lines 60 to 73). \<open>buildCrxConfig\<close> is the
  generator as written, exits included: the early \<open>return crxConfig\<close> of the
  \<open>catch\<close> block, and the end of the body, which has no \<open>return\<close>. The lemmas
  give its result on every answer of the page request, the title rule with
  its per-host override, the host normalisation, and the invariant
  \<open>wf_config\<close> of the configurations it builds. \<open>cheerio.load\<close> is taken to
  return a document for every body; the comparison with the assembler of the
  specification is in \<open>Assembler_Spec\<close>.
\<close>

section \<open>The configuration object\<close>

text \<open>\<open>title\<close> is \<open>None\<close> when it is \<open>null\<close>, \<open>icon\<close> when it is \<open>undefined\<close>.\<close>

record crxConfig =
  url :: string
  parsedUrl :: parsedUrl
  title :: "string option"
  filename :: string
  host :: string
  icon :: "string option"
  iconOverriden :: bool

section \<open>Fetching the page\<close>

definition userAgent :: string where
  "userAgent = ''Mozilla/5.0 (Macintosh; Intel Mac OS X 10_11_2) AppleWebKit/537.36 (KHTML, like Gecko) Chrome/47.0.2526.106 Safari/537.36''"

definition page_request :: "string \<Rightarrow> request" where
  "page_request u = \<lparr>req_url = u, req_headers = [(''User-Agent'', userAgent)]\<rparr>"

definition getPageDOM :: "env \<Rightarrow> string \<Rightarrow> document action" where
  "getPageDOM env u =
     bind (call_request env (page_request u))
       (\<lambda>response. return (cheerio_load env (body response)))"

section \<open>Title and host\<close>

text \<open>Line 41: lower case, then the first \<open>www.\<close> removed.\<close>

definition normalizeHost :: "string \<Rightarrow> string" where
  "normalizeHost h = replace (toLowerCase h) ''www.'' []"

definition getCrxTitle :: "document \<Rightarrow> crxConfig \<Rightarrow> string option" where
  "getCrxTitle doc crxConfig =
     (let t = trim (title_text doc);
          title = (if t \<noteq> [] then Some t else hostname (parsedUrl crxConfig))
      in if host crxConfig = ''messenger.com'' then Some ''Messenger'' else title)"

section \<open>Building the configuration\<close>

text \<open>
  Lines 33 to 41: the object with its default values, and the host. Reading
  \<open>toLowerCase\<close> of a \<open>null\<close> host name is a \<open>TypeError\<close>.
\<close>

definition initConfig :: "jsval \<Rightarrow> parsedUrl \<Rightarrow> js_error + crxConfig" where
  "initConfig targetUrl p =
     (case hostname p of
        None \<Rightarrow> Inl (TypeError ''Cannot read property toLowerCase of null'')
      | Some h \<Rightarrow>
          Inr \<lparr>url = js_str targetUrl, parsedUrl = p, title = Some h,
               filename = h @ ''.crx'', host = normalizeHost h,
               icon = None, iconOverriden = False\<rparr>)"

text \<open>Lines 54 to 57: the two assignments that follow a fetched page.\<close>

definition applyDom :: "document \<Rightarrow> crxConfig \<Rightarrow> crxConfig" where
  "applyDom doc crxConfig =
     (let c = crxConfig\<lparr>icon := icon_href doc\<rparr>
      in c\<lparr>title := getCrxTitle doc c\<rparr>)"

text \<open>
  The generator. The \<open>try\<close> holds the fetch alone: its \<open>catch\<close> returns the
  default configuration. After the assignments the body ends, so the caller
  receives \<open>undefined\<close> (\<open>None\<close>).
\<close>

definition buildCrxConfig :: "env \<Rightarrow> jsval \<Rightarrow> crxConfig option action" where
  "buildCrxConfig env targetUrl =
     bind (lift_sum (parseUrl env targetUrl)) (\<lambda>parsedUrl.
     bind (lift_sum (initConfig targetUrl parsedUrl)) (\<lambda>crxConfig.
     bind (catch (bind (getPageDOM env (url crxConfig)) (\<lambda>doc. return (Inr doc)))
                 (\<lambda>exc. return (Inl crxConfig)))
       (\<lambda>r. case r of
          Inl c \<Rightarrow> return (Some c)
        | Inr doc \<Rightarrow> (let crxConfig' = applyDom doc crxConfig in return None))))"

section \<open>The invariant of a configuration\<close>

text \<open>
  What the later stages rely on in a configuration: an accepted scheme, a
  non-empty URL, a host name from which file name and host are derived, and a
  title that is not \<open>null\<close>. The icon cascade needs the host name
  (\<open>Icon.icon_ready_wf\<close>), the comparison with the specification the title
  (\<open>Assembler_Spec.abs_config_wf\<close>).
\<close>

definition wf_config :: "crxConfig \<Rightarrow> bool" where
  "wf_config c \<longleftrightarrow>
     accepted_scheme (protocol (parsedUrl c)) \<and> url c \<noteq> [] \<and> title c \<noteq> None \<and>
     (case hostname (parsedUrl c) of
        None \<Rightarrow> False
      | Some h \<Rightarrow> filename c = h @ ''.crx'' \<and> host c = normalizeHost h)"

section \<open>Host normalisation\<close>

lemma normalizeHost_no_www:
  "\<not> sublist ''www.'' (toLowerCase h) \<Longrightarrow> normalizeHost h = toLowerCase h"
  by (simp add: normalizeHost_def replace_no_match)

lemma toLowerCase_www: "toLowerCase (''www.'' @ h) = ''www.'' @ toLowerCase h"
  by (simp add: case_defs)

lemma toLowerCase_WWW: "toLowerCase (''WWW.'' @ h) = ''www.'' @ toLowerCase h"
  by (simp add: case_defs)

lemma normalizeHost_leading_www: "normalizeHost (''www.'' @ h) = toLowerCase h"
  using replace_prefix [of "''www.''" "toLowerCase h" "[]"] toLowerCase_www [of h]
  by (simp add: normalizeHost_def)

lemma normalizeHost_leading_WWW: "normalizeHost (''WWW.'' @ h) = toLowerCase h"
  using replace_prefix [of "''www.''" "toLowerCase h" "[]"] toLowerCase_WWW [of h]
  by (simp add: normalizeHost_def)

lemma normalizeHost_inner_www:
  "\<not> sublist ''www.'' (toLowerCase a @ ''www'') \<Longrightarrow>
     normalizeHost (a @ ''www.'' @ b) = toLowerCase a @ toLowerCase b"
proof -
  assume h: "\<not> sublist ''www.'' (toLowerCase a @ ''www'')"
  have "toLowerCase (a @ ''www.'' @ b) = toLowerCase a @ ''www.'' @ toLowerCase b"
    by (simp add: case_defs)
  with replace_first_occurrence [of "''www.''" "toLowerCase a" "toLowerCase b" "[]"] h
  show ?thesis by (simp add: normalizeHost_def)
qed

lemma normalizeHost_lower: "normalizeHost (toLowerCase h) = normalizeHost h"
  by (simp add: normalizeHost_def)

lemma length_normalizeHost: "length (normalizeHost h) \<le> length h"
proof (cases "sublist ''www.'' (toLowerCase h)")
  case True
  then show ?thesis by (simp add: normalizeHost_def length_replace_empty)
next
  case False
  then show ?thesis by (simp add: normalizeHost_no_www)
qed

section \<open>The title rule\<close>

lemma getCrxTitle_messenger: "host c = ''messenger.com'' \<Longrightarrow> getCrxTitle doc c = Some ''Messenger''"
  by (simp add: getCrxTitle_def)

lemma getCrxTitle_page:
  "host c \<noteq> ''messenger.com'' \<Longrightarrow> trim (title_text doc) \<noteq> [] \<Longrightarrow>
     getCrxTitle doc c = Some (trim (title_text doc))"
  by (simp add: getCrxTitle_def)

lemma getCrxTitle_hostname:
  "host c \<noteq> ''messenger.com'' \<Longrightarrow> trim (title_text doc) = [] \<Longrightarrow>
     getCrxTitle doc c = hostname (parsedUrl c)"
  by (simp add: getCrxTitle_def)

lemma getCrxTitle_cases:
  "getCrxTitle doc c = Some ''Messenger'' \<or> getCrxTitle doc c = Some (trim (title_text doc))
     \<or> getCrxTitle doc c = hostname (parsedUrl c)"
  by (simp add: getCrxTitle_def Let_def)

lemma getCrxTitle_not_null: "hostname (parsedUrl c) \<noteq> None \<Longrightarrow> getCrxTitle doc c \<noteq> None"
  by (auto simp: getCrxTitle_def Let_def)

lemma getCrxTitle_frame:
  "host c' = host c \<Longrightarrow> hostname (parsedUrl c') = hostname (parsedUrl c) \<Longrightarrow>
     getCrxTitle doc c' = getCrxTitle doc c"
  by (simp add: getCrxTitle_def Let_def)

section \<open>The invariant is established and kept\<close>

lemma initConfig_Inr_iff:
  "initConfig v p = Inr c \<longleftrightarrow>
     (\<exists>h. hostname p = Some h \<and>
        c = \<lparr>url = js_str v, parsedUrl = p, title = Some h, filename = h @ ''.crx'',
             host = normalizeHost h, icon = None, iconOverriden = False\<rparr>)"
  by (auto simp: initConfig_def split: option.splits)

lemma initConfig_Inl_iff:
  "initConfig v p = Inl e \<longleftrightarrow>
     hostname p = None \<and> e = TypeError ''Cannot read property toLowerCase of null''"
  by (auto simp: initConfig_def split: option.splits)

lemma wf_initConfig:
  "parseUrl env v = Inr p \<Longrightarrow> initConfig v p = Inr c \<Longrightarrow> wf_config c"
  by (auto simp: initConfig_Inr_iff parseUrl_Inr_iff wf_config_def)

lemma applyDom_fields [simp]:
  "url (applyDom doc c) = url c"
  "parsedUrl (applyDom doc c) = parsedUrl c"
  "filename (applyDom doc c) = filename c"
  "host (applyDom doc c) = host c"
  "iconOverriden (applyDom doc c) = iconOverriden c"
  "icon (applyDom doc c) = icon_href doc"
  "title (applyDom doc c) = getCrxTitle doc c"
  by (simp_all add: applyDom_def Let_def getCrxTitle_def)

lemma wf_applyDom: "wf_config c \<Longrightarrow> wf_config (applyDom doc c)"
  by (auto simp: wf_config_def getCrxTitle_def Let_def split: option.splits)

section \<open>The generator, by cases\<close>

lemma getPageDOM_apply:
  "getPageDOM env u w =
     (w\<lparr>trace := trace w @ [HttpRequest (page_request u)]\<rparr>,
      case http_request env (page_request u) of
        Reply r \<Rightarrow> Return (cheerio_load env (body r))
      | Fail e \<Rightarrow> Throw e
      | NoReply \<Rightarrow> Pending)"
  by (simp add: getPageDOM_def bind_def call_request_apply split: reply.splits)

lemma appends_getPageDOM [frame, simp]: "appends (getPageDOM env u)"
  unfolding getPageDOM_def by (intro appends_bind appends_call_request appends_return)

text \<open>The whole of \<open>buildCrxConfig\<close> in one equation, from which the rest follows.\<close>

lemma buildCrxConfig_apply:
  "buildCrxConfig env v w =
     (case parseUrl env v of
        Inl e \<Rightarrow> (w, Throw e)
      | Inr p \<Rightarrow>
          (case initConfig v p of
             Inl e \<Rightarrow> (w, Throw e)
           | Inr c \<Rightarrow>
               (w\<lparr>trace := trace w @ [HttpRequest (page_request (url c))]\<rparr>,
                case http_request env (page_request (url c)) of
                  Reply r \<Rightarrow> Return None
                | Fail e \<Rightarrow> Return (Some c)
                | NoReply \<Rightarrow> Pending)))"
  by (simp add: buildCrxConfig_def bind_def catch_def getPageDOM_apply
      split: sum.splits reply.splits)

lemma appends_buildCrxConfig [frame, simp]: "appends (buildCrxConfig env v)"
  by (rule appendsI) (simp add: buildCrxConfig_apply split: sum.splits)

lemma buildCrxConfig_files [frame, simp]: "files (fst (buildCrxConfig env v w)) = files w"
  by (simp add: buildCrxConfig_apply split: sum.splits)

lemma buildCrxConfig_Return_Some:
  "buildCrxConfig env v w = (w', Return (Some c)) \<Longrightarrow>
     wf_config c \<and> icon c = None \<and> \<not> iconOverriden c \<and> title c = hostname (parsedUrl c)
       \<and> url c = js_str v"
  by (auto simp: buildCrxConfig_apply wf_initConfig initConfig_Inr_iff
      split: sum.splits reply.splits)

text \<open>The two answers of the page request that let the route go on.\<close>

lemma buildCrxConfig_fetched:
  assumes "parseUrl env v = Inr p" and "hostname p = Some h"
    and "http_request env (page_request (js_str v)) = Reply resp"
  shows "buildCrxConfig env v w =
     (w\<lparr>trace := trace w @ [HttpRequest (page_request (js_str v))]\<rparr>, Return None)"
  using assms by (simp add: buildCrxConfig_apply initConfig_def)

lemma buildCrxConfig_failed_fetch:
  assumes "parseUrl env (JStr s) = Inr p" and "hostname p = Some h"
    and "http_request env (page_request s) = Fail e"
  shows "buildCrxConfig env (JStr s) w =
     (w\<lparr>trace := trace w @ [HttpRequest (page_request s)]\<rparr>,
      Return (Some \<lparr>url = s, parsedUrl = p, title = Some h, filename = h @ ''.crx'',
        host = normalizeHost h, icon = None, iconOverriden = False\<rparr>))"
  using assms by (simp add: buildCrxConfig_apply initConfig_def)

section \<open>Closed instances\<close>

lemmas eval_config =
  buildCrxConfig_apply parseUrl_JStr accepted_scheme_def initConfig_def normalizeHost_def
  replace_def case_defs page_request_def sublist_Cons_right demo_defs

lemma demo_down_config:
  "buildCrxConfig demo_env (JStr ''https://down.example.org/'') demo_world =
     (\<lparr>files = demo_files,
       trace = [HttpRequest (page_request ''https://down.example.org/'')]\<rparr>,
      Return (Some \<lparr>url = ''https://down.example.org/'',
        parsedUrl = \<lparr>protocol = Some ''https:'', hostname = Some ''down.example.org''\<rparr>,
        title = Some ''down.example.org'', filename = ''down.example.org.crx'',
        host = ''down.example.org'', icon = None, iconOverriden = False\<rparr>))"
  by (simp add: eval_config)

section \<open>Properties\<close>

text \<open>
  C19: When the validator rejects the input, \<open>buildCrxConfig\<close> throws the
  validator's error and has made no external call and changed no file: the
  world is the one it started in.
\<close>

theorem buildCrxConfig_invalid_input_no_io:
  "parseUrl env v = Inl e \<Longrightarrow> buildCrxConfig env v w = (w, Throw e)"
  by (simp add: buildCrxConfig_apply)

theorem buildCrxConfig_invalid_input_no_io_witness:
  "parseUrl demo_env (JStr ''ftp://example.com/'') = Inl (Error bad_url_message) \<and>
   buildCrxConfig demo_env (JStr ''ftp://example.com/'') demo_world =
     (demo_world, Throw (Error bad_url_message))"
proof -
  have h: "parseUrl demo_env (JStr ''ftp://example.com/'') = Inl (Error bad_url_message)"
    by (simp add: parseUrl_JStr accepted_scheme_def sublist_Cons_right demo_defs)
  from buildCrxConfig_invalid_input_no_io [OF h] h show ?thesis by simp
qed

text \<open>
  C6: When the page request fails, \<open>buildCrxConfig\<close> returns the default
  configuration: the title is the host name, the file name is the host name
  followed by \<open>.crx\<close>, the host is the normalised host name, there is no icon
  reference and no override; exactly one request was issued, for the given
  URL.
\<close>

theorem buildCrxConfig_unreachable_gives_defaults:
  assumes "parseUrl env v = Inr p" and "hostname p = Some h"
    and "http_request env (page_request (js_str v)) = Fail e"
  shows "buildCrxConfig env v w =
     (w\<lparr>trace := trace w @ [HttpRequest (page_request (js_str v))]\<rparr>,
      Return (Some \<lparr>url = js_str v, parsedUrl = p, title = Some h, filename = h @ ''.crx'',
        host = normalizeHost h, icon = None, iconOverriden = False\<rparr>))"
  using assms by (simp add: buildCrxConfig_apply initConfig_def)

theorem buildCrxConfig_unreachable_gives_defaults_witness:
  "parseUrl demo_env (JStr ''https://down.example.org/'') =
     Inr \<lparr>protocol = Some ''https:'', hostname = Some ''down.example.org''\<rparr> \<and>
   http_request demo_env (page_request ''https://down.example.org/'') =
     Fail (LibError ''ECONNREFUSED'') \<and>
   snd (buildCrxConfig demo_env (JStr ''https://down.example.org/'') demo_world) =
     Return (Some \<lparr>url = ''https://down.example.org/'',
        parsedUrl = \<lparr>protocol = Some ''https:'', hostname = Some ''down.example.org''\<rparr>,
        title = Some ''down.example.org'', filename = ''down.example.org.crx'',
        host = ''down.example.org'', icon = None, iconOverriden = False\<rparr>)"
proof -
  let ?p = "\<lparr>protocol = Some ''https:'', hostname = Some ''down.example.org''\<rparr>"
  have p: "parseUrl demo_env (JStr ''https://down.example.org/'') = Inr ?p"
    by (simp add: eval_config)
  have r: "http_request demo_env (page_request (js_str (JStr ''https://down.example.org/''))) =
      Fail (LibError ''ECONNREFUSED'')"
    by (simp add: page_request_def demo_defs)
  from buildCrxConfig_unreachable_gives_defaults [OF p _ r, of "''down.example.org''" demo_world]
    p r show ?thesis
    by (simp add: normalizeHost_def replace_def case_defs)
qed

text \<open>
  C3: When the page is fetched, \<open>buildCrxConfig\<close> returns \<open>undefined\<close>: the body
  assigns icon and title to the configuration and then ends without a
  \<open>return\<close> statement, so the resolved configuration never reaches the caller.
\<close>

theorem buildCrxConfig_fetched_returns_undefined:
  assumes "parseUrl env v = Inr p" and "hostname p = Some h"
    and "http_request env (page_request (js_str v)) = Reply r"
  shows "buildCrxConfig env v w =
     (w\<lparr>trace := trace w @ [HttpRequest (page_request (js_str v))]\<rparr>, Return None)"
  using assms by (simp add: buildCrxConfig_apply initConfig_def)

theorem buildCrxConfig_fetched_returns_undefined_witness:
  "parseUrl demo_env (JStr ''http://example.com/'') =
     Inr \<lparr>protocol = Some ''http:'', hostname = Some ''example.com''\<rparr> \<and>
   http_request demo_env (page_request ''http://example.com/'') =
     Reply \<lparr>statusCode = 200, body = demo_page\<rparr> \<and>
   snd (buildCrxConfig demo_env (JStr ''http://example.com/'') demo_world) = Return None"
proof -
  let ?p = "\<lparr>protocol = Some ''http:'', hostname = Some ''example.com''\<rparr>"
  have p: "parseUrl demo_env (JStr ''http://example.com/'') = Inr ?p"
    by (simp add: eval_config)
  have r: "http_request demo_env (page_request (js_str (JStr ''http://example.com/''))) =
      Reply \<lparr>statusCode = 200, body = demo_page\<rparr>"
    by (simp add: page_request_def demo_env_def demo_request_def)
  from buildCrxConfig_fetched_returns_undefined [OF p _ r, of "''example.com''" demo_world]
    p r show ?thesis
    by simp
qed

text \<open>
  C23: A URL that passes the validator but has no host name (\<open>url.parse\<close> gives
  \<open>null\<close>, as for \<open>http:example\<close>) makes \<open>buildCrxConfig\<close> throw a \<open>TypeError\<close>
  when it lower-cases the host name; no request is made. The input is not
  reported as an invalid URL.
\<close>

theorem buildCrxConfig_null_hostname_TypeError:
  assumes "parseUrl env v = Inr p" and "hostname p = None"
  shows "buildCrxConfig env v w =
     (w, Throw (TypeError ''Cannot read property toLowerCase of null''))"
  using assms by (simp add: buildCrxConfig_apply initConfig_def)

theorem buildCrxConfig_null_hostname_TypeError_witness:
  "parseUrl demo_env (JStr ''http:example'') = Inr \<lparr>protocol = Some ''http:'', hostname = None\<rparr> \<and>
   buildCrxConfig demo_env (JStr ''http:example'') demo_world =
     (demo_world, Throw (TypeError ''Cannot read property toLowerCase of null''))"
proof -
  have p: "parseUrl demo_env (JStr ''http:example'') =
      Inr \<lparr>protocol = Some ''http:'', hostname = None\<rparr>"
    by (simp add: eval_config)
  from buildCrxConfig_null_hostname_TypeError [OF p, of demo_world] p show ?thesis by simp
qed

text \<open>
  C34: A page request that is never answered leaves \<open>buildCrxConfig\<close> pending for
  ever: the code sets no deadline of its own around the fetch.
\<close>

theorem buildCrxConfig_unanswered_fetch_pending:
  assumes "parseUrl env v = Inr p" and "hostname p = Some h"
    and "http_request env (page_request (js_str v)) = NoReply"
  shows "snd (buildCrxConfig env v w) = Pending"
  using assms by (simp add: buildCrxConfig_apply initConfig_def)

theorem buildCrxConfig_unanswered_fetch_pending_witness:
  "parseUrl demo_env (JStr ''http://slow.example.net/'') =
     Inr \<lparr>protocol = Some ''http:'', hostname = Some ''slow.example.net''\<rparr> \<and>
   http_request demo_env (page_request ''http://slow.example.net/'') = NoReply \<and>
   snd (buildCrxConfig demo_env (JStr ''http://slow.example.net/'') demo_world) = Pending"
proof -
  let ?p = "\<lparr>protocol = Some ''http:'', hostname = Some ''slow.example.net''\<rparr>"
  have p: "parseUrl demo_env (JStr ''http://slow.example.net/'') = Inr ?p"
    by (simp add: eval_config)
  have r: "http_request demo_env (page_request (js_str (JStr ''http://slow.example.net/''))) = NoReply"
    by (simp add: page_request_def demo_env_def demo_request_def)
  from buildCrxConfig_unanswered_fetch_pending [OF p _ r, of "''slow.example.net''" demo_world]
    p r show ?thesis
    by simp
qed

text \<open>
  C33: \<open>buildCrxConfig\<close> never changes a file, and the external calls it adds to
  the trace are either none or the single page request for the given URL,
  sent with the browser user agent header.
\<close>

theorem buildCrxConfig_effects:
  "files (fst (buildCrxConfig env v w)) = files w \<and>
   (trace (fst (buildCrxConfig env v w)) = trace w \<or>
    trace (fst (buildCrxConfig env v w)) =
      trace w @ [HttpRequest \<lparr>req_url = js_str v, req_headers = [(''User-Agent'', userAgent)]\<rparr>])"
  by (auto simp: buildCrxConfig_apply initConfig_def page_request_def
      split: sum.splits option.splits)

text \<open>
  C31: For a host that normalises to \<open>messenger.com\<close> the title set after the
  page is fetched is the literal \<open>Messenger\<close>, whatever the page holds.
\<close>

theorem messenger_title_regardless_of_page:
  assumes "initConfig v p = Inr c" and "hostname p = Some h"
    and "normalizeHost h = ''messenger.com''"
  shows "title (applyDom doc c) = Some ''Messenger''"
  using assms by (auto simp: initConfig_Inr_iff getCrxTitle_messenger)

theorem messenger_title_regardless_of_page_witness:
  "normalizeHost ''www.messenger.com'' = ''messenger.com'' \<and>
   title (applyDom demo_dom
     \<lparr>url = ''https://www.messenger.com/'',
      parsedUrl = demo_parse ''https://www.messenger.com/'',
      title = Some ''www.messenger.com'', filename = ''www.messenger.com.crx'',
      host = ''messenger.com'', icon = None, iconOverriden = False\<rparr>) = Some ''Messenger''"
proof -
  have n: "normalizeHost ''www.messenger.com'' = ''messenger.com''"
    by (simp add: normalizeHost_def replace_def case_defs)
  have i: "initConfig (JStr ''https://www.messenger.com/'') (demo_parse ''https://www.messenger.com/'') =
      Inr \<lparr>url = ''https://www.messenger.com/'',
        parsedUrl = demo_parse ''https://www.messenger.com/'',
        title = Some ''www.messenger.com'', filename = ''www.messenger.com.crx'',
        host = ''messenger.com'', icon = None, iconOverriden = False\<rparr>"
    by (simp add: initConfig_def demo_parse_def n)
  from messenger_title_regardless_of_page [OF i _ n, of demo_dom] n show ?thesis
    by (simp add: demo_parse_def)
qed

text \<open>
  C32: For any other host the title set after the page is fetched is the trimmed
  text of the page's title elements if that is not empty, and the host name
  otherwise; a title taken from the page neither starts nor ends with white
  space.
\<close>

theorem title_from_page_or_hostname:
  assumes "initConfig v p = Inr c" and "host c \<noteq> ''messenger.com''"
  shows "title (applyDom doc c) =
           (if trim (title_text doc) = [] then hostname p else Some (trim (title_text doc))) \<and>
         (trim (title_text doc) = [] \<or>
            (\<not> is_space (hd (trim (title_text doc))) \<and> \<not> is_space (last (trim (title_text doc)))))"
  using assms
  by (auto simp: initConfig_Inr_iff getCrxTitle_def Let_def hd_trim_not_space last_trim_not_space)

theorem title_from_page_or_hostname_witness:
  "initConfig (JStr ''http://example.com/'') (demo_parse ''http://example.com/'') =
     Inr \<lparr>url = ''http://example.com/'', parsedUrl = demo_parse ''http://example.com/'',
        title = Some ''example.com'', filename = ''example.com.crx'', host = ''example.com'',
        icon = None, iconOverriden = False\<rparr> \<and>
   title (applyDom demo_dom
     \<lparr>url = ''http://example.com/'', parsedUrl = demo_parse ''http://example.com/'',
      title = Some ''example.com'', filename = ''example.com.crx'', host = ''example.com'',
      icon = None, iconOverriden = False\<rparr>) = Some ''Example Domain''"
proof -
  let ?c = "\<lparr>url = ''http://example.com/'', parsedUrl = demo_parse ''http://example.com/'',
      title = Some ''example.com'', filename = ''example.com.crx'', host = ''example.com'',
      icon = None, iconOverriden = False\<rparr>"
  have i: "initConfig (JStr ''http://example.com/'') (demo_parse ''http://example.com/'') = Inr ?c"
    by (simp add: initConfig_def demo_parse_def normalizeHost_def replace_def case_defs)
  have h: "host ?c \<noteq> ''messenger.com''" by simp
  have t: "trim (title_text demo_dom) = ''Example Domain''"
    by (simp add: demo_dom_def title_text_def select_tag_def trim_defs)
  from title_from_page_or_hostname [OF i h, of demo_dom] i t show ?thesis
    by simp
qed

text \<open>
  C36: A leading \<open>www.\<close> is stripped from the host and the rest is lower-cased,
  whatever the case of the leading \<open>www.\<close> itself.
\<close>

theorem normalizeHost_strips_leading_www:
  "normalizeHost (''www.'' @ h) = toLowerCase h \<and> normalizeHost (''WWW.'' @ h) = toLowerCase h"
  by (simp only: normalizeHost_leading_www normalizeHost_leading_WWW)

text \<open>
  C30: The first \<open>www.\<close> is removed wherever it stands, not only at the start:
  \<open>replace('www.', '')\<close> is not anchored. A host name with \<open>www.\<close> in the
  middle therefore normalises to the host name without it, so that, for
  instance, \<open>mwww.essenger.com\<close> is treated as \<open>messenger.com\<close> by every
  per-host rule.
\<close>

theorem normalizeHost_strips_first_www_anywhere:
  assumes "\<not> sublist ''www.'' (toLowerCase a @ ''www'')"
  shows "normalizeHost (a @ ''www.'' @ b) = toLowerCase a @ toLowerCase b"
  using assms by (rule normalizeHost_inner_www)

theorem normalizeHost_strips_first_www_anywhere_witness:
  "\<not> sublist ''www.'' (toLowerCase ''m'' @ ''www'') \<and>
   normalizeHost ''mwww.essenger.com'' = ''messenger.com''"
proof -
  have h: "\<not> sublist ''www.'' (toLowerCase ''m'' @ ''www'')"
    by (simp add: case_defs sublist_Cons_right)
  from normalizeHost_strips_first_www_anywhere [OF h, of "''essenger.com''"] h show ?thesis
    by (simp add: case_defs)
qed

text \<open>
  C35: The configuration built from a validated URL satisfies the invariant the
  later stages rely on (accepted scheme, non-empty URL, file name and host
  derived from the host name, a title that is not \<open>null\<close>), and the
  assignments that follow a fetched page keep it.
\<close>

theorem config_invariant:
  assumes "parseUrl env v = Inr p" and "initConfig v p = Inr c"
  shows "wf_config c \<and> wf_config (applyDom doc c)"
  using assms by (blast intro: wf_initConfig wf_applyDom)

theorem config_invariant_witness:
  "wf_config \<lparr>url = ''http://example.com/'', parsedUrl = demo_parse ''http://example.com/'',
      title = Some ''example.com'', filename = ''example.com.crx'', host = ''example.com'',
      icon = None, iconOverriden = False\<rparr>"
proof -
  have p: "parseUrl demo_env (JStr ''http://example.com/'') = Inr (demo_parse ''http://example.com/'')"
    by (simp add: parseUrl_JStr accepted_scheme_def sublist_Cons_right demo_defs)
  have i: "initConfig (JStr ''http://example.com/'') (demo_parse ''http://example.com/'') =
     Inr \<lparr>url = ''http://example.com/'', parsedUrl = demo_parse ''http://example.com/'',
        title = Some ''example.com'', filename = ''example.com.crx'', host = ''example.com'',
        icon = None, iconOverriden = False\<rparr>"
    by (simp add: initConfig_def demo_parse_def normalizeHost_def replace_def case_defs)
  from config_invariant [OF p i] show ?thesis by simp
qed

end
