(* ===== verification/Files.thy ===== *)
theory Files
  imports Url
begin

text \<open>
  The two promise wrappers at the end of \<^verbatim>\<open>src/api/routes/generate.js\<close>:
  \<open>exports.downloadFile\<close> (lines 218 to 238) and \<open>exports.copyLocalFile\<close>
  (lines 240 to 260). Each creates the write stream first, resolves on the
  stream's \<open>finish\<close> event, and rejects only if a call inside the \<open>try\<close>
  throws at once; no \<open>error\<close> listener is attached, so a stream that fails
  later leaves the promise unsettled. The lemmas give the result and the file
  system after each way the piping can end, and the frame: only the
  destination is ever written.

  Two simplifications concern what happens outside the promise. Opening a
  file is asynchronous in the runtime; here the destination is created or
  emptied at the call, which is the state every later read of the request
  finds. And a stream that emits \<open>error\<close> with no listener raises an uncaught
  exception, which ends the server process unless the host installs a handler;
  the model follows the promise alone, which is then never settled
  (\<open>Pending\<close>), and does not model the process.
\<close>

section \<open>Streams\<close>

text \<open>
  \<open>fs.createWriteStream(p)\<close>: unless the call throws, \<open>p\<close> is opened for
  writing, which creates it or empties it.
\<close>

definition createWriteStream :: "env \<Rightarrow> string \<Rightarrow> unit action" where
  "createWriteStream env p =
     bind (emit (FsWriteStream p)) (\<lambda>_.
       case stream_fault env p of
         Some e \<Rightarrow> throw e
       | None \<Rightarrow> write_file p [])"

text \<open>
  \<open>fs.createReadStream(p)\<close>: unless the call throws, the content the stream
  will deliver, or \<open>None\<close> if there is no such file (the stream then fails
  later, with an \<open>error\<close> event).
\<close>

definition createReadStream :: "env \<Rightarrow> string \<Rightarrow> string option action" where
  "createReadStream env p =
     bind (emit (FsReadStream p)) (\<lambda>_ w.
       case stream_fault env p of
         Some e \<Rightarrow> (w, Throw e)
       | None \<Rightarrow> (w, Return (files w p)))"

section \<open>The two wrappers\<close>

definition downloadFile :: "env \<Rightarrow> string \<Rightarrow> string \<Rightarrow> bool action" where
  "downloadFile env u filePath =
     bind (createWriteStream env filePath) (\<lambda>_.
     bind (emit (HttpStream u)) (\<lambda>_.
       case http_stream env u of
         Finished c \<Rightarrow> bind (write_file filePath c) (\<lambda>_. return True)
       | SyncThrow e \<Rightarrow> throw e
       | Stalled c \<Rightarrow> bind (write_file filePath c) (\<lambda>_. pending)))"

definition copyLocalFile :: "env \<Rightarrow> string \<Rightarrow> string \<Rightarrow> bool action" where
  "copyLocalFile env from to =
     bind (createWriteStream env to) (\<lambda>_.
     bind (createReadStream env from) (\<lambda>content.
       case content of
         Some c \<Rightarrow> bind (write_file to c) (\<lambda>_. return True)
       | None \<Rightarrow> pending))"

section \<open>What they do, by cases\<close>

lemma createWriteStream_apply:
  "createWriteStream env p w =
     (case stream_fault env p of
        Some e \<Rightarrow> (w\<lparr>trace := trace w @ [FsWriteStream p]\<rparr>, Throw e)
      | None \<Rightarrow> (w\<lparr>trace := trace w @ [FsWriteStream p], files := (files w)(p \<mapsto> [])\<rparr>, Return ()))"
  by (simp add: createWriteStream_def bind_def split: option.splits)

lemma createReadStream_apply:
  "createReadStream env p w =
     (w\<lparr>trace := trace w @ [FsReadStream p]\<rparr>,
      case stream_fault env p of Some e \<Rightarrow> Throw e | None \<Rightarrow> Return (files w p))"
  by (simp add: createReadStream_def bind_def split: option.splits)

lemma copyLocalFile_apply:
  "copyLocalFile env from to w =
     (case stream_fault env to of
        Some e \<Rightarrow> (w\<lparr>trace := trace w @ [FsWriteStream to]\<rparr>, Throw e)
      | None \<Rightarrow>
          (case stream_fault env from of
             Some e \<Rightarrow>
               (w\<lparr>trace := trace w @ [FsWriteStream to, FsReadStream from],
                  files := (files w)(to \<mapsto> [])\<rparr>, Throw e)
           | None \<Rightarrow>
               (case ((files w)(to \<mapsto> [])) from of
                  Some c \<Rightarrow>
                    (w\<lparr>trace := trace w @ [FsWriteStream to, FsReadStream from],
                       files := (files w)(to \<mapsto> c)\<rparr>, Return True)
                | None \<Rightarrow>
                    (w\<lparr>trace := trace w @ [FsWriteStream to, FsReadStream from],
                       files := (files w)(to \<mapsto> [])\<rparr>, Pending))))"
  by (simp add: copyLocalFile_def bind_def createWriteStream_apply createReadStream_apply
      split: option.splits)

lemma downloadFile_apply:
  "downloadFile env u p w =
     (case stream_fault env p of
        Some e \<Rightarrow> (w\<lparr>trace := trace w @ [FsWriteStream p]\<rparr>, Throw e)
      | None \<Rightarrow>
          (case http_stream env u of
             Finished c \<Rightarrow>
               (w\<lparr>trace := trace w @ [FsWriteStream p, HttpStream u],
                  files := (files w)(p \<mapsto> c)\<rparr>, Return True)
           | SyncThrow e \<Rightarrow>
               (w\<lparr>trace := trace w @ [FsWriteStream p, HttpStream u],
                  files := (files w)(p \<mapsto> [])\<rparr>, Throw e)
           | Stalled c \<Rightarrow>
               (w\<lparr>trace := trace w @ [FsWriteStream p, HttpStream u],
                  files := (files w)(p \<mapsto> c)\<rparr>, Pending)))"
  by (simp add: downloadFile_def bind_def createWriteStream_apply
      split: option.splits stream_result.splits)

lemmas file_simps = copyLocalFile_apply downloadFile_apply

section \<open>Frame\<close>

lemma appends_createWriteStream [frame, simp]: "appends (createWriteStream env p)"
  by (rule appendsI) (simp add: createWriteStream_apply split: option.splits)

lemma appends_createReadStream [frame, simp]: "appends (createReadStream env p)"
  by (rule appendsI) (simp add: createReadStream_apply)

lemma appends_copyLocalFile [frame, simp]: "appends (copyLocalFile env from to)"
  by (rule appendsI) (simp add: copyLocalFile_apply split: option.splits)

lemma appends_downloadFile [frame, simp]: "appends (downloadFile env u p)"
  by (rule appendsI) (simp add: downloadFile_apply split: option.splits stream_result.splits)

lemma copyLocalFile_other_files [frame]:
  "q \<noteq> to \<Longrightarrow> files (fst (copyLocalFile env from to w)) q = files w q"
  by (simp add: copyLocalFile_apply split: option.splits)

lemma downloadFile_other_files [frame]:
  "q \<noteq> p \<Longrightarrow> files (fst (downloadFile env u p w)) q = files w q"
  by (simp add: downloadFile_apply split: option.splits stream_result.splits)

lemma copyLocalFile_Return:
  "copyLocalFile env from to w = (w', Return b) \<Longrightarrow>
     b \<and> files w' to = (if from = to then Some [] else files w from) \<and> files w' to \<noteq> None"
  by (auto simp: copyLocalFile_apply split: option.splits if_splits)

lemma downloadFile_Return:
  "downloadFile env u p w = (w', Return b) \<Longrightarrow> b \<and> http_stream env u = Finished (the (files w' p))"
  by (auto simp: downloadFile_apply split: option.splits stream_result.splits)

section \<open>Properties\<close>

text \<open>
  C25: When the source file exists and no stream call throws, \<open>copyLocalFile\<close>
  resolves with \<open>true\<close>, the destination then holds the content of the source,
  every other file is as before, and the write stream was created before the
  read stream.
\<close>

theorem copyLocalFile_copies:
  assumes "files w from = Some c" and "from \<noteq> to"
    and "stream_fault env to = None" and "stream_fault env from = None"
  shows "copyLocalFile env from to w =
     (w\<lparr>trace := trace w @ [FsWriteStream to, FsReadStream from],
        files := (files w)(to \<mapsto> c)\<rparr>, Return True)"
  using assms by (simp add: copyLocalFile_apply)

theorem copyLocalFile_copies_witness:
  "copyLocalFile demo_env ''/app/api/routes/../lib/extension/icons/fallback/E.png''
      ''/tmp/crx/icon.png'' demo_world =
     (\<lparr>files = demo_files(''/tmp/crx/icon.png'' \<mapsto> ''LETTER-E''),
       trace = [FsWriteStream ''/tmp/crx/icon.png'',
                FsReadStream ''/app/api/routes/../lib/extension/icons/fallback/E.png'']\<rparr>,
      Return True)"
proof -
  have f: "files demo_world ''/app/api/routes/../lib/extension/icons/fallback/E.png'' =
      Some ''LETTER-E''"
    by (simp add: demo_defs)
  have n: "''/app/api/routes/../lib/extension/icons/fallback/E.png'' \<noteq> ''/tmp/crx/icon.png''"
    by simp
  have s: "stream_fault demo_env p = None" for p
    by (simp add: demo_env_def)
  from copyLocalFile_copies [OF f n s s] show ?thesis
    by (simp add: demo_world_def init_world_def)
qed

text \<open>
  C10: When the source file does not exist, the promise of \<open>copyLocalFile\<close> is
  never settled: the read stream's error has no listener, \<open>finish\<close> never
  fires, and nothing in the \<open>try\<close> threw. The destination has been emptied
  all the same.
\<close>

theorem copyLocalFile_missing_source_pending:
  assumes "files w from = None" and "from \<noteq> to"
    and "stream_fault env to = None" and "stream_fault env from = None"
  shows "copyLocalFile env from to w =
     (w\<lparr>trace := trace w @ [FsWriteStream to, FsReadStream from],
        files := (files w)(to \<mapsto> [])\<rparr>, Pending)"
  using assms by (simp add: copyLocalFile_apply)

theorem copyLocalFile_missing_source_pending_witness:
  "files demo_world ''/app/api/routes/../lib/extension/icons/fallback/Q.png'' = None \<and>
   snd (copyLocalFile demo_env ''/app/api/routes/../lib/extension/icons/fallback/Q.png''
      ''/tmp/crx/icon.png'' demo_world) = Pending"
proof -
  have f: "files demo_world ''/app/api/routes/../lib/extension/icons/fallback/Q.png'' = None"
    by (simp add: demo_defs)
  have n: "''/app/api/routes/../lib/extension/icons/fallback/Q.png'' \<noteq> ''/tmp/crx/icon.png''"
    by simp
  have s: "stream_fault demo_env p = None" for p
    by (simp add: demo_env_def)
  from copyLocalFile_missing_source_pending [OF f n s s] f show ?thesis
    by simp
qed

text \<open>
  C24: \<open>downloadFile\<close> ends as the piping does: it resolves with \<open>true\<close> and the
  destination holds the downloaded bytes when the stream finishes; it rejects
  when the request throws at once; and it stays unsettled when the stream
  stops without finishing. In all three cases the destination was opened for
  writing first, so its former content is gone, and no other file is touched.
\<close>

theorem downloadFile_outcomes:
  assumes "stream_fault env p = None"
  shows "downloadFile env u p w =
     (w\<lparr>trace := trace w @ [FsWriteStream p, HttpStream u],
        files := (files w)(p \<mapsto> (case http_stream env u of
           Finished c \<Rightarrow> c | SyncThrow e \<Rightarrow> [] | Stalled c \<Rightarrow> c))\<rparr>,
      case http_stream env u of
        Finished c \<Rightarrow> Return True | SyncThrow e \<Rightarrow> Throw e | Stalled c \<Rightarrow> Pending)"
  using assms by (simp add: downloadFile_apply split: stream_result.splits)

theorem downloadFile_outcomes_witness:
  "downloadFile demo_env ''http://example.com/favicon.ico'' ''/tmp/crx/icon.png'' demo_world =
     (\<lparr>files = demo_files(''/tmp/crx/icon.png'' \<mapsto> ''FAVICON''),
       trace = [FsWriteStream ''/tmp/crx/icon.png'', HttpStream ''http://example.com/favicon.ico'']\<rparr>,
      Return True)"
proof -
  have s: "stream_fault demo_env ''/tmp/crx/icon.png'' = None"
    by (simp add: demo_env_def)
  from downloadFile_outcomes [OF s, of "''http://example.com/favicon.ico''" demo_world]
  show ?thesis
    by (simp add: demo_env_def demo_world_def init_world_def)
qed

end
