(* ===== verification/Icon.thy ===== *)
theory Icon
  imports Config Files
begin

text \<open>
  The icon resolver of \<^verbatim>\<open>src/api/routes/generate.js\<close>:
  \<open>exports.overrideIconIfExists\<close> (lines 165 to 186), \<open>exports.downloadIcon\<close>
  (lines 151 to 163), \<open>exports.setPlaceholderIcon\<close> (lines 188 to 205) and
  the cascade that \<open>generateCrx\<close> runs over them (lines 128 to 142), here
  \<open>resolveIcon\<close>. The cascade is compared with \<open>icon_decision\<close>, the choice
  among curated icon, favicon, letter and template icon that the
  specification describes: \<open>resolveIcon\<close> leaves in the extension's icon file
  what the decision names, touches no other file, opens at most one write
  stream, and is settled exactly when the chosen source can be delivered.
\<close>

section \<open>Paths\<close>

text \<open>\<open>crx.path + "/" + crx.manifest.icons['128']\<close> (lines 158, 179 and 201).\<close>

definition icon_file :: "extension \<Rightarrow> string" where
  "icon_file crx = path crx @ ''/'' @ icons_128 (manifest crx)"

definition override_path :: "env \<Rightarrow> crxConfig \<Rightarrow> string" where
  "override_path env crxConfig =
     path_join env (dirname env) (''../assets/icons/'' @ host crxConfig @ ''.png'')"

definition placeholder_letter :: "string \<Rightarrow> string" where
  "placeholder_letter h = toUpperCase (substring h 0 1)"

definition placeholder_path :: "env \<Rightarrow> string \<Rightarrow> string" where
  "placeholder_path env letter =
     path_join env (dirname env) (''../lib/extension/icons/fallback/'' @ letter @ ''.png'')"

lemmas path_defs [js_defs] =
  icon_file_def override_path_def placeholder_letter_def placeholder_path_def

section \<open>The three icon operations\<close>

text \<open>
  \<open>overrideIconIfExists\<close> sets \<open>crxConfig.iconOverriden\<close>; the configuration
  it returns is the object after the call.
\<close>

definition overrideIconIfExists :: "env \<Rightarrow> crxConfig \<Rightarrow> extension \<Rightarrow> crxConfig action" where
  "overrideIconIfExists env crxConfig crx =
     (let iconPath = override_path env crxConfig in
      bind (catch (bind (accessSync iconPath) (\<lambda>_. return True)) (\<lambda>e. return False))
        (\<lambda>found.
           if \<not> found then return crxConfig
           else
             (let copyToPath = icon_file crx in
              bind (copyLocalFile env iconPath copyToPath)
                (\<lambda>_. return (crxConfig\<lparr>iconOverriden := True\<rparr>)))))"

text \<open>
  \<open>url.resolve\<close> of an \<open>undefined\<close> reference is a \<open>TypeError\<close>; an empty
  result skips the download.
\<close>

definition downloadIcon :: "env \<Rightarrow> crxConfig \<Rightarrow> extension \<Rightarrow> unit action" where
  "downloadIcon env crxConfig crx =
     (case icon crxConfig of
        None \<Rightarrow> throw (TypeError ''Parameter url must be a string'')
      | Some i \<Rightarrow>
          (let absoluteIconUrl = url_resolve env (url crxConfig) i in
           if absoluteIconUrl \<noteq> [] then
             (let downloadPath = icon_file crx in
              bind (downloadFile env absoluteIconUrl downloadPath) (\<lambda>_. return ()))
           else return ()))"

definition setPlaceholderIcon :: "env \<Rightarrow> crxConfig \<Rightarrow> extension \<Rightarrow> unit action" where
  "setPlaceholderIcon env crxConfig crx =
     (case hostname (parsedUrl crxConfig) of
        None \<Rightarrow> throw (TypeError ''Cannot read property substring of null'')
      | Some h \<Rightarrow>
          (let letter = placeholder_letter h in
           if \<not> matches_AZ letter then return ()
           else
             (let copyFromPath = placeholder_path env letter;
                  copyToPath = icon_file crx in
              bind (copyLocalFile env copyFromPath copyToPath) (\<lambda>_. return ()))))"

section \<open>The cascade\<close>

text \<open>\<open>if (crxConfig.icon)\<close>: neither \<open>undefined\<close> nor the empty string.\<close>

definition icon_truthy :: "string option \<Rightarrow> bool" where
  "icon_truthy i \<longleftrightarrow> (case i of None \<Rightarrow> False | Some s \<Rightarrow> s \<noteq> [])"

definition resolveIcon :: "env \<Rightarrow> crxConfig \<Rightarrow> extension \<Rightarrow> crxConfig action" where
  "resolveIcon env crxConfig crx =
     bind (overrideIconIfExists env crxConfig crx) (\<lambda>crxConfig.
       if \<not> iconOverriden crxConfig then
         (if icon_truthy (icon crxConfig) then
            bind (downloadIcon env crxConfig crx) (\<lambda>_. return crxConfig)
          else
            bind (setPlaceholderIcon env crxConfig crx) (\<lambda>_. return crxConfig))
       else return crxConfig)"

section \<open>The decision of the specification\<close>

text \<open>
  Which icon the extension should carry: the curated one if there is one for
  the host, else the page's favicon if the page named one, else the letter of
  the host name if it starts with one, else the icon of the template.
\<close>

datatype icon_choice = Curated | Favicon | Letter | Template

definition icon_decision :: "env \<Rightarrow> fs \<Rightarrow> crxConfig \<Rightarrow> icon_choice" where
  "icon_decision env f c =
     (if override_path env c \<in> dom f then Curated
      else if icon_truthy (icon c) then
        (if url_resolve env (url c) (the (icon c)) \<noteq> [] then Favicon else Template)
      else
        (case hostname (parsedUrl c) of
           None \<Rightarrow> Template
         | Some h \<Rightarrow> if matches_AZ (placeholder_letter h) then Letter else Template))"

text \<open>The bytes the chosen icon consists of, if its source delivers them.\<close>

definition icon_bytes :: "env \<Rightarrow> fs \<Rightarrow> crxConfig \<Rightarrow> extension \<Rightarrow> icon_choice \<Rightarrow> string option" where
  "icon_bytes env f c crx choice =
     (case choice of
        Curated \<Rightarrow> f (override_path env c)
      | Favicon \<Rightarrow>
          (case http_stream env (url_resolve env (url c) (the (icon c))) of
             Finished b \<Rightarrow> Some b
           | SyncThrow e \<Rightarrow> None
           | Stalled b \<Rightarrow> None)
      | Letter \<Rightarrow> f (placeholder_path env (placeholder_letter (the (hostname (parsedUrl c)))))
      | Template \<Rightarrow> f (icon_file crx))"

text \<open>The files the cascade may read: they must not be the icon file itself.\<close>

definition icon_sources :: "env \<Rightarrow> crxConfig \<Rightarrow> string set" where
  "icon_sources env c =
     {override_path env c} \<union>
     (case hostname (parsedUrl c) of
        None \<Rightarrow> {}
      | Some h \<Rightarrow> {placeholder_path env (placeholder_letter h)})"

fun is_write :: "io_event \<Rightarrow> bool" where
  "is_write (FsWriteStream p) = True"
| "is_write _ = False"

text \<open>The calls the icon step can issue, and those among them that stay on the machine.\<close>

fun is_icon_event :: "io_event \<Rightarrow> bool" where
  "is_icon_event (FsAccess p) = True"
| "is_icon_event (FsWriteStream p) = True"
| "is_icon_event (FsReadStream p) = True"
| "is_icon_event (HttpStream u) = True"
| "is_icon_event _ = False"

fun is_local :: "io_event \<Rightarrow> bool" where
  "is_local (FsAccess p) = True"
| "is_local (FsWriteStream p) = True"
| "is_local (FsReadStream p) = True"
| "is_local _ = False"

fun is_download :: "io_event \<Rightarrow> bool" where
  "is_download (HttpStream u) = True"
| "is_download _ = False"

text \<open>
  What the comparison with the decision assumes: no stream call throws, the
  configuration is fresh, it has a host name, and the icon file is not one of
  the files the cascade reads.
\<close>

definition icon_ready :: "env \<Rightarrow> world \<Rightarrow> crxConfig \<Rightarrow> extension \<Rightarrow> bool" where
  "icon_ready env w c crx \<longleftrightarrow>
     stream_fault env = (\<lambda>p. None) \<and> \<not> iconOverriden c \<and> hostname (parsedUrl c) \<noteq> None \<and>
     icon_file crx \<notin> icon_sources env c"

section \<open>A concrete extension and concrete configurations\<close>

definition demo_crx :: extension where
  "demo_crx = \<lparr>privateKey = ''KEY'', path = ''/tmp/crx'', manifest = demo_manifest\<rparr>"

definition demo_config :: "string \<Rightarrow> string option \<Rightarrow> crxConfig" where
  "demo_config h i =
     \<lparr>url = ''https://'' @ h @ ''/'', parsedUrl = \<lparr>protocol = Some ''https:'', hostname = Some h\<rparr>,
      title = Some h, filename = h @ ''.crx'', host = h, icon = i, iconOverriden = False\<rparr>"

section \<open>The operations by cases\<close>

lemma overrideIconIfExists_apply:
  "overrideIconIfExists env c crx w =
     (if override_path env c \<in> dom (files w) then
        bind (copyLocalFile env (override_path env c) (icon_file crx))
          (\<lambda>_. return (c\<lparr>iconOverriden := True\<rparr>))
          (w\<lparr>trace := trace w @ [FsAccess (override_path env c)]\<rparr>)
      else (w\<lparr>trace := trace w @ [FsAccess (override_path env c)]\<rparr>, Return c))"
  by (simp add: overrideIconIfExists_def Let_def bind_def catch_def accessSync_apply)

lemma downloadIcon_apply:
  "icon c = Some i \<Longrightarrow>
   downloadIcon env c crx w =
     (if url_resolve env (url c) i \<noteq> [] then
        bind (downloadFile env (url_resolve env (url c) i) (icon_file crx)) (\<lambda>_. return ()) w
      else (w, Return ()))"
  by (simp add: downloadIcon_def Let_def)

lemma setPlaceholderIcon_apply:
  "hostname (parsedUrl c) = Some h \<Longrightarrow>
   setPlaceholderIcon env c crx w =
     (if matches_AZ (placeholder_letter h) then
        bind (copyLocalFile env (placeholder_path env (placeholder_letter h)) (icon_file crx))
          (\<lambda>_. return ()) w
      else (w, Return ()))"
  by (simp add: setPlaceholderIcon_def Let_def)

lemma setPlaceholderIcon_null_hostname:
  "hostname (parsedUrl c) = None \<Longrightarrow>
   setPlaceholderIcon env c crx w = (w, Throw (TypeError ''Cannot read property substring of null''))"
  by (simp add: setPlaceholderIcon_def)

lemma icon_truthy_simps [simp]:
  "icon_truthy None = False" "icon_truthy (Some s) = (s \<noteq> [])"
  by (simp_all add: icon_truthy_def)

lemma placeholder_letter_Nil [simp]: "placeholder_letter [] = []"
  by (simp add: placeholder_letter_def toUpperCase_def)

lemma placeholder_letter_Cons [simp]: "placeholder_letter (ch # cs) = [upper_char ch]"
  by (simp add: placeholder_letter_def toUpperCase_def)

lemma matches_AZ_placeholder_letter:
  "matches_AZ (placeholder_letter h) \<longleftrightarrow> h \<noteq> [] \<and> (is_AZ (hd h) \<or> is_az (hd h))"
  unfolding placeholder_letter_def by (rule matches_AZ_first_letter)

section \<open>Frame\<close>

lemma appends_overrideIconIfExists [frame, simp]: "appends (overrideIconIfExists env c crx)"
  unfolding overrideIconIfExists_def Let_def
  by (intro appends_bind appends_catch appends_if) simp_all

lemma appends_downloadIcon [frame, simp]: "appends (downloadIcon env c crx)"
  unfolding downloadIcon_def Let_def
  by (cases "icon c") (auto intro!: appends_bind appends_if)

lemma appends_setPlaceholderIcon [frame, simp]: "appends (setPlaceholderIcon env c crx)"
  unfolding setPlaceholderIcon_def Let_def
  by (cases "hostname (parsedUrl c)") (auto intro!: appends_bind appends_if)

lemma appends_resolveIcon [frame, simp]: "appends (resolveIcon env c crx)"
  unfolding resolveIcon_def
  by (intro appends_bind appends_if) simp_all

lemma writes_copyLocalFile:
  "filter is_write (issued (copyLocalFile env from to) w) = [FsWriteStream to]"
  by (simp add: issued_def copyLocalFile_apply split: option.splits)

lemma writes_downloadFile:
  "filter is_write (issued (downloadFile env u p) w) = [FsWriteStream p]"
  by (simp add: issued_def downloadFile_apply split: option.splits stream_result.splits)

lemma writes_downloadIcon:
  "length (filter is_write (issued (downloadIcon env c crx) w)) \<le> 1"
  by (simp add: downloadIcon_def Let_def writes_downloadFile split: option.splits)

lemma writes_setPlaceholderIcon:
  "length (filter is_write (issued (setPlaceholderIcon env c crx) w)) \<le> 1"
  by (simp add: setPlaceholderIcon_def Let_def writes_copyLocalFile split: option.splits)

lemma downloadIcon_other_files [frame]:
  "q \<noteq> icon_file crx \<Longrightarrow> files (fst (downloadIcon env c crx w)) q = files w q"
  by (simp add: downloadIcon_def Let_def downloadFile_other_files split: option.splits)

lemma setPlaceholderIcon_other_files [frame]:
  "q \<noteq> icon_file crx \<Longrightarrow> files (fst (setPlaceholderIcon env c crx w)) q = files w q"
  by (simp add: setPlaceholderIcon_def Let_def copyLocalFile_other_files split: option.splits)

lemma resolveIcon_Curated:
  assumes "override_path env c \<in> dom (files w)"
  shows "resolveIcon env c crx w =
     bind (copyLocalFile env (override_path env c) (icon_file crx))
       (\<lambda>_. return (c\<lparr>iconOverriden := True\<rparr>))
       (w\<lparr>trace := trace w @ [FsAccess (override_path env c)]\<rparr>)"
  using assms
  by (simp add: resolveIcon_def overrideIconIfExists_apply bind_def
      split: prod.splits outcome.splits)

lemma resolveIcon_not_Curated:
  assumes "override_path env c \<notin> dom (files w)" and "\<not> iconOverriden c"
  shows "resolveIcon env c crx w =
     bind (if icon_truthy (icon c) then downloadIcon env c crx else setPlaceholderIcon env c crx)
       (\<lambda>_. return c) (w\<lparr>trace := trace w @ [FsAccess (override_path env c)]\<rparr>)"
  using assms
  by (simp add: resolveIcon_def overrideIconIfExists_apply bind_def)

lemma resolveIcon_already_overridden:
  assumes "override_path env c \<notin> dom (files w)" and "iconOverriden c"
  shows "resolveIcon env c crx w =
     (w\<lparr>trace := trace w @ [FsAccess (override_path env c)]\<rparr>, Return c)"
  using assms
  by (simp add: resolveIcon_def overrideIconIfExists_apply bind_def)

lemma resolveIcon_cases:
  obtains (Curated) "override_path env c \<in> dom (files w)"
  | (Kept) "override_path env c \<notin> dom (files w)" "iconOverriden c"
  | (Download) "override_path env c \<notin> dom (files w)" "\<not> iconOverriden c" "icon_truthy (icon c)"
  | (Placeholder) "override_path env c \<notin> dom (files w)" "\<not> iconOverriden c" "\<not> icon_truthy (icon c)"
  by blast

lemma resolveIcon_frame:
  assumes "q \<noteq> icon_file crx"
  shows "files (fst (resolveIcon env c crx w)) q = files w q"
proof (cases rule: resolveIcon_cases [of env c w])
  case Curated
  with assms show ?thesis
    using copyLocalFile_other_files [of q "icon_file crx" env]
    by (simp add: resolveIcon_Curated)
next
  case Kept
  then show ?thesis by (simp add: resolveIcon_already_overridden)
next
  case Download
  with assms show ?thesis
    using downloadIcon_other_files [of q crx env c]
    by (simp add: resolveIcon_not_Curated)
next
  case Placeholder
  with assms show ?thesis
    using setPlaceholderIcon_other_files [of q crx env c]
    by (simp add: resolveIcon_not_Curated)
qed

lemma resolveIcon_one_write:
  "length (filter is_write (issued (resolveIcon env c crx) w)) \<le> 1"
proof (cases rule: resolveIcon_cases [of env c w])
  case Curated
  then show ?thesis
    by (simp add: issued_def [of "resolveIcon env c crx"] resolveIcon_Curated issued_shift
        writes_copyLocalFile)
next
  case Kept
  then show ?thesis by (simp add: issued_def resolveIcon_already_overridden)
next
  case Download
  then show ?thesis
    using writes_downloadIcon [of env c crx]
    by (simp add: issued_def [of "resolveIcon env c crx"] resolveIcon_not_Curated issued_shift)
next
  case Placeholder
  then show ?thesis
    using writes_setPlaceholderIcon [of env c crx]
    by (simp add: issued_def [of "resolveIcon env c crx"] resolveIcon_not_Curated issued_shift)
qed

section \<open>The calls of the cascade\<close>

lemma is_local_icon_event: "is_local e \<Longrightarrow> is_icon_event e"
  by (cases e) simp_all

lemma local_copyLocalFile: "list_all is_local (issued (copyLocalFile env a b) w)"
  by (simp add: issued_def copyLocalFile_apply split: option.splits)

lemma icon_events_downloadFile: "list_all is_icon_event (issued (downloadFile env u p) w)"
  by (simp add: issued_def downloadFile_apply split: option.splits stream_result.splits)

lemma local_setPlaceholderIcon: "list_all is_local (issued (setPlaceholderIcon env c crx) w)"
  by (simp add: setPlaceholderIcon_def Let_def local_copyLocalFile split: option.splits)

lemma icon_events_downloadIcon: "list_all is_icon_event (issued (downloadIcon env c crx) w)"
  by (simp add: downloadIcon_def Let_def icon_events_downloadFile split: option.splits)

lemma local_resolveIcon:
  assumes "\<not> icon_truthy (icon c)"
  shows "list_all is_local (issued (resolveIcon env c crx) w)"
proof (cases rule: resolveIcon_cases [of env c w])
  case Curated
  then show ?thesis
    by (simp add: issued_def [of "resolveIcon env c crx"] resolveIcon_Curated issued_shift
        local_copyLocalFile)
next
  case Kept
  then show ?thesis by (simp add: issued_def resolveIcon_already_overridden)
next
  case Download
  with assms show ?thesis by simp
next
  case Placeholder
  then show ?thesis
    by (simp add: issued_def [of "resolveIcon env c crx"] resolveIcon_not_Curated issued_shift
        local_setPlaceholderIcon)
qed

lemma icon_events_resolveIcon: "list_all is_icon_event (issued (resolveIcon env c crx) w)"
proof (cases "icon_truthy (icon c)")
  case False
  from local_resolveIcon [OF this] show ?thesis
    by (auto simp: list_all_iff is_local_icon_event)
next
  case True
  show ?thesis
  proof (cases rule: resolveIcon_cases [of env c w])
    case Curated
    then show ?thesis
      using local_copyLocalFile [of env "override_path env c" "icon_file crx"]
      by (auto simp: issued_def [of "resolveIcon env c crx"] resolveIcon_Curated issued_shift
          list_all_iff is_local_icon_event)
  next
    case Kept
    then show ?thesis by (simp add: issued_def resolveIcon_already_overridden)
  next
    case Download
    then show ?thesis
      by (simp add: issued_def [of "resolveIcon env c crx"] resolveIcon_not_Curated issued_shift
          icon_events_downloadIcon)
  next
    case Placeholder
    with True show ?thesis by simp
  qed
qed

lemma local_not_download: "is_local e \<Longrightarrow> \<not> is_download e"
  by (cases e) simp_all

lemma no_download_resolveIcon:
  "\<not> icon_truthy (icon c) \<Longrightarrow> list_all (\<lambda>e. \<not> is_download e) (issued (resolveIcon env c crx) w)"
  using local_resolveIcon [of c env crx w] by (auto simp: list_all_iff local_not_download)

lemma resolveIcon_Return_config:
  assumes "resolveIcon env c crx w = (w', Return c')"
  shows "c' = c \<or> c' = c\<lparr>iconOverriden := True\<rparr>"
proof (cases rule: resolveIcon_cases [of env c w])
  case Curated
  with assms show ?thesis
    by (auto simp: resolveIcon_Curated bind_eq_Return_iff)
next
  case Kept
  with assms show ?thesis by (simp add: resolveIcon_already_overridden)
next
  case Download
  with assms show ?thesis
    by (auto simp: resolveIcon_not_Curated bind_eq_Return_iff)
next
  case Placeholder
  with assms show ?thesis
    by (auto simp: resolveIcon_not_Curated bind_eq_Return_iff)
qed

section \<open>The cascade and the decision\<close>

lemma icon_decision_Curated_iff:
  "icon_decision env f c = Curated \<longleftrightarrow> override_path env c \<in> dom f"
  by (simp add: icon_decision_def split: option.splits)

lemma icon_decision_Favicon_iff:
  "icon_decision env f c = Favicon \<longleftrightarrow>
     override_path env c \<notin> dom f \<and> icon_truthy (icon c) \<and>
     url_resolve env (url c) (the (icon c)) \<noteq> []"
  by (simp add: icon_decision_def split: option.splits)

lemma icon_decision_Letter_iff:
  "icon_decision env f c = Letter \<longleftrightarrow>
     override_path env c \<notin> dom f \<and> \<not> icon_truthy (icon c) \<and>
     (\<exists>h. hostname (parsedUrl c) = Some h \<and> matches_AZ (placeholder_letter h))"
  by (simp add: icon_decision_def split: option.splits)

lemma icon_truthyE: "icon_truthy i \<Longrightarrow> (\<And>s. i = Some s \<Longrightarrow> s \<noteq> [] \<Longrightarrow> P) \<Longrightarrow> P"
  by (cases i) simp_all

text \<open>The cascade, decision by decision, when no stream call throws.\<close>

lemma resolveIcon_Curated_eq:
  assumes "icon_decision env (files w) c = Curated"
    and "stream_fault env = (\<lambda>p. None)" and "icon_file crx \<noteq> override_path env c"
  shows "resolveIcon env c crx w =
     (w\<lparr>trace := trace w @ [FsAccess (override_path env c), FsWriteStream (icon_file crx),
                               FsReadStream (override_path env c)],
        files := (files w)(icon_file crx := files w (override_path env c))\<rparr>,
      Return (c\<lparr>iconOverriden := True\<rparr>))"
  using assms
  by (auto simp: icon_decision_Curated_iff resolveIcon_Curated bind_def copyLocalFile_apply)

lemma resolveIcon_Favicon_eq:
  assumes "icon_decision env (files w) c = Favicon"
    and "stream_fault env = (\<lambda>p. None)" and "\<not> iconOverriden c"
  shows "resolveIcon env c crx w =
     (w\<lparr>trace := trace w @ [FsAccess (override_path env c), FsWriteStream (icon_file crx),
                               HttpStream (url_resolve env (url c) (the (icon c)))],
        files := (files w)(icon_file crx \<mapsto>
           (case http_stream env (url_resolve env (url c) (the (icon c))) of
              Finished b \<Rightarrow> b | SyncThrow e \<Rightarrow> [] | Stalled b \<Rightarrow> b))\<rparr>,
      case http_stream env (url_resolve env (url c) (the (icon c))) of
        Finished b \<Rightarrow> Return c | SyncThrow e \<Rightarrow> Throw e | Stalled b \<Rightarrow> Pending)"
  using assms
  by (auto simp: icon_decision_Favicon_iff resolveIcon_not_Curated bind_def downloadIcon_apply
      downloadFile_apply elim!: icon_truthyE split: stream_result.splits)

lemma resolveIcon_Letter_eq:
  assumes "icon_decision env (files w) c = Letter"
    and "stream_fault env = (\<lambda>p. None)" and "\<not> iconOverriden c"
    and "hostname (parsedUrl c) = Some h"
    and "icon_file crx \<noteq> placeholder_path env (placeholder_letter h)"
  shows "resolveIcon env c crx w =
     (w\<lparr>trace := trace w @ [FsAccess (override_path env c), FsWriteStream (icon_file crx),
                               FsReadStream (placeholder_path env (placeholder_letter h))],
        files := (files w)(icon_file crx \<mapsto>
           (case files w (placeholder_path env (placeholder_letter h)) of
              None \<Rightarrow> [] | Some b \<Rightarrow> b))\<rparr>,
      if placeholder_path env (placeholder_letter h) \<in> dom (files w) then Return c else Pending)"
  using assms
  by (auto simp: icon_decision_Letter_iff resolveIcon_not_Curated bind_def
      setPlaceholderIcon_apply copyLocalFile_apply)

lemma resolveIcon_Template_eq:
  assumes "icon_decision env (files w) c = Template"
    and "\<not> iconOverriden c" and "hostname (parsedUrl c) = Some h"
  shows "resolveIcon env c crx w =
     (w\<lparr>trace := trace w @ [FsAccess (override_path env c)]\<rparr>, Return c)"
  using assms
  by (auto simp: icon_decision_def resolveIcon_not_Curated bind_def downloadIcon_apply
      setPlaceholderIcon_apply elim!: icon_truthyE split: if_splits)

lemmas resolveIcon_by_decision =
  resolveIcon_Curated_eq resolveIcon_Favicon_eq resolveIcon_Letter_eq resolveIcon_Template_eq

lemma icon_readyD:
  assumes "icon_ready env w c crx"
  obtains h where "stream_fault env = (\<lambda>p. None)" "\<not> iconOverriden c"
    "hostname (parsedUrl c) = Some h" "icon_file crx \<noteq> override_path env c"
    "icon_file crx \<noteq> placeholder_path env (placeholder_letter h)"
  using assms by (auto simp: icon_ready_def icon_sources_def)

text \<open>
  The assumption is met by what the assembler hands over: a configuration
  that satisfies the invariant has a host name, and the assembler leaves the
  override flag unset.
\<close>

lemma icon_ready_wf:
  assumes "wf_config c" and "\<not> iconOverriden c" and "stream_fault env = (\<lambda>p. None)"
    and "icon_file crx \<notin> icon_sources env c"
  shows "icon_ready env w c crx"
  using assms by (auto simp: icon_ready_def wf_config_def split: option.splits)

lemma icon_ready_built:
  assumes "buildCrxConfig env v w = (w', Return (Some c))"
    and "stream_fault env = (\<lambda>p. None)" and "icon_file crx \<notin> icon_sources env c"
  shows "icon_ready env w' c crx"
  using buildCrxConfig_Return_Some [OF assms(1)] assms(2,3) by (simp add: icon_ready_wf)

section \<open>The concrete instances evaluated\<close>

lemma demo_paths [simp]:
  "override_path demo_env c = ''/app/api/routes/../assets/icons/'' @ host c @ ''.png''"
  "placeholder_path demo_env l = ''/app/api/routes/../lib/extension/icons/fallback/'' @ l @ ''.png''"
  "icon_file demo_crx = ''/tmp/crx/icon.png''"
  by (simp_all add: override_path_def placeholder_path_def icon_file_def demo_env_def demo_crx_def
      demo_manifest_def)

lemma demo_config_simps [simp]:
  "url (demo_config h i) = ''https://'' @ h @ ''/''"
  "hostname (parsedUrl (demo_config h i)) = Some h"
  "host (demo_config h i) = h"
  "icon (demo_config h i) = i"
  "iconOverriden (demo_config h i) = False"
  by (simp_all add: demo_config_def)

lemma demo_env_simps [simp]:
  "stream_fault demo_env = (\<lambda>p. None)"
  "url_resolve demo_env b r = (if prefix ''http'' r then r else ''http://example.com'' @ r)"
  "http_stream demo_env u = (if u = ''http://example.com/favicon.ico'' then Finished ''FAVICON'' else Stalled [])"
  by (simp_all add: demo_env_def)

lemma demo_world_simps [simp]:
  "files demo_world = demo_files" "trace demo_world = []"
  by (simp_all add: demo_world_def init_world_def)

lemma icon_ready_demo: "h \<noteq> [] \<Longrightarrow> icon_ready demo_env demo_world (demo_config h i) demo_crx"
  by (cases h) (simp_all add: icon_ready_def icon_sources_def)

lemma demo_decision_down:
  "icon_decision demo_env demo_files (demo_config ''down.example.org'' None) = Letter"
  by (simp add: icon_decision_def demo_files_def matches_AZ_def case_defs)

lemma demo_decision_example:
  "icon_decision demo_env demo_files (demo_config ''example.com'' (Some ''/favicon.ico'')) = Favicon"
  by (simp add: icon_decision_def demo_files_def)

lemma demo_decision_messenger:
  "icon_decision demo_env demo_files (demo_config ''messenger.com'' (Some ''/favicon.ico'')) = Curated"
  by (simp add: icon_decision_def demo_files_def)

lemma demo_decision_123:
  "icon_decision demo_env demo_files (demo_config ''123shop.io'' None) = Template"
  by (simp add: icon_decision_def demo_files_def matches_AZ_def case_defs)

section \<open>Properties\<close>

text \<open>
  C4: The cascade implements the decision of the specification. When no
  stream call throws and the icon file is not one of the cascade's sources,
  a run of \<open>resolveIcon\<close> that returns leaves in the extension's icon file
  exactly the bytes of the icon that \<open>icon_decision\<close> names (the curated icon,
  the downloaded favicon, the letter, or what the template had), changes no
  other file, and sets \<open>iconOverriden\<close> exactly when the curated icon was
  chosen.
\<close>

theorem resolveIcon_refines_decision:
  assumes "icon_ready env w c crx" and "resolveIcon env c crx w = (w', Return c')"
  shows "files w' = (files w)(icon_file crx :=
            icon_bytes env (files w) c crx (icon_decision env (files w) c)) \<and>
         c' = c\<lparr>iconOverriden := (icon_decision env (files w) c = Curated)\<rparr>"
proof -
  from assms(1) obtain h where h: "stream_fault env = (\<lambda>p. None)" "\<not> iconOverriden c"
    "hostname (parsedUrl c) = Some h" "icon_file crx \<noteq> override_path env c"
    "icon_file crx \<noteq> placeholder_path env (placeholder_letter h)"
    by (rule icon_readyD)
  note r = assms(2) [symmetric]
  show ?thesis
  proof (cases "icon_decision env (files w) c")
    case Curated
    from r have "files w' = (files w)(icon_file crx := files w (override_path env c))"
      and "c' = c\<lparr>iconOverriden := True\<rparr>"
      by (simp_all add: resolveIcon_Curated_eq [OF Curated h(1,4)])
    then show ?thesis
      by (simp add: icon_bytes_def Curated)
  next
    case Favicon
    from r obtain b where "http_stream env (url_resolve env (url c) (the (icon c))) = Finished b"
      and "files w' = (files w)(icon_file crx \<mapsto> b)" and "c' = c"
      by (auto simp: resolveIcon_Favicon_eq [OF Favicon h(1,2)] split: stream_result.splits)
    with h(2) show ?thesis
      by (simp add: icon_bytes_def Favicon)
  next
    case Letter
    from r obtain b where "files w (placeholder_path env (placeholder_letter h)) = Some b"
      and "files w' = (files w)(icon_file crx \<mapsto> b)" and "c' = c"
      by (auto simp: resolveIcon_Letter_eq [OF Letter h(1,2,3,5)] split: if_splits)
    with h(2) show ?thesis
      by (simp add: icon_bytes_def Letter h(3))
  next
    case Template
    from r have "files w' = files w" and "c' = c"
      by (simp_all add: resolveIcon_Template_eq [OF Template h(2,3)])
    with h(2) show ?thesis
      by (simp add: icon_bytes_def Template)
  qed
qed


theorem resolveIcon_refines_decision_witness:
  "icon_ready demo_env demo_world (demo_config ''down.example.org'' None) demo_crx \<and>
   icon_decision demo_env (files demo_world) (demo_config ''down.example.org'' None) = Letter \<and>
   files (fst (resolveIcon demo_env (demo_config ''down.example.org'' None) demo_crx demo_world)) =
     demo_files(''/tmp/crx/icon.png'' \<mapsto> ''LETTER-D'')"
proof -
  let ?c = "demo_config ''down.example.org'' None"
  have r: "icon_ready demo_env demo_world ?c demo_crx"
    by (rule icon_ready_demo) simp
  have d: "icon_decision demo_env (files demo_world) ?c = Letter"
    by (simp add: demo_decision_down)
  have "snd (resolveIcon demo_env ?c demo_crx demo_world) = Return ?c"
    by (simp add: resolveIcon_Letter_eq [OF d] demo_files_def case_defs)
  then have "resolveIcon demo_env ?c demo_crx demo_world =
      (fst (resolveIcon demo_env ?c demo_crx demo_world), Return ?c)"
    by (simp add: prod_eq_iff)
  from resolveIcon_refines_decision [OF r this] r d show ?thesis
    by (simp add: icon_bytes_def demo_files_def case_defs)
qed


text \<open>
  C7: When the icon step is settled. Under the same assumptions
  \<open>resolveIcon\<close> returns exactly when the template icon is kept or the
  chosen source delivers its bytes. In every other case the step does not
  return: a favicon whose download throws rejects it (the request fails), a
  favicon whose download stalls and a letter whose placeholder file is missing
  leave it pending (the request is never answered). None of them is replaced by
  the template icon.
\<close>

theorem resolveIcon_settles_iff:
  assumes "icon_ready env w c crx"
  shows "is_Return (snd (resolveIcon env c crx w)) \<longleftrightarrow>
     icon_decision env (files w) c = Template \<or>
     icon_bytes env (files w) c crx (icon_decision env (files w) c) \<noteq> None"
proof -
  from assms(1) obtain h where h: "stream_fault env = (\<lambda>p. None)" "\<not> iconOverriden c"
    "hostname (parsedUrl c) = Some h" "icon_file crx \<noteq> override_path env c"
    "icon_file crx \<noteq> placeholder_path env (placeholder_letter h)"
    by (rule icon_readyD)
  show ?thesis
  proof (cases "icon_decision env (files w) c")
    case Curated
    then have "override_path env c \<in> dom (files w)"
      by (simp add: icon_decision_Curated_iff)
    with resolveIcon_Curated_eq [OF Curated h(1,4)] show ?thesis
      by (auto simp: icon_bytes_def Curated)
  next
    case Favicon
    from resolveIcon_Favicon_eq [OF Favicon h(1,2)] show ?thesis
      by (auto simp: icon_bytes_def Favicon split: stream_result.splits)
  next
    case Letter
    from resolveIcon_Letter_eq [OF Letter h(1,2,3,5)] show ?thesis
      by (auto simp: icon_bytes_def Letter h(3) split: if_splits)
  next
    case Template
    from resolveIcon_Template_eq [OF Template h(2,3)] show ?thesis
      by (simp add: Template)
  qed
qed


theorem resolveIcon_settles_iff_witness:
  "icon_ready demo_env demo_world (demo_config ''example.com'' (Some ''/favicon.ico'')) demo_crx \<and>
   is_Return (snd (resolveIcon demo_env (demo_config ''example.com'' (Some ''/favicon.ico''))
      demo_crx demo_world))"
proof -
  let ?c = "demo_config ''example.com'' (Some ''/favicon.ico'')"
  have r: "icon_ready demo_env demo_world ?c demo_crx"
    by (rule icon_ready_demo) simp
  from resolveIcon_settles_iff [OF r] r show ?thesis
    by (simp add: demo_decision_example icon_bytes_def)
qed


text \<open>
  C15: The curated icon takes precedence. If a curated icon exists for the
  host, \<open>resolveIcon\<close> copies it into the icon file and sets
  \<open>iconOverriden\<close>, whatever icon reference the page gave: the calls it
  issues are the existence test, the write stream and the read stream of the
  curated file, so nothing is downloaded and no placeholder is read.
\<close>

theorem override_takes_precedence:
  assumes "override_path env c \<in> dom (files w)"
    and "stream_fault env = (\<lambda>p. None)" and "icon_file crx \<noteq> override_path env c"
  shows "snd (resolveIcon env c crx w) = Return (c\<lparr>iconOverriden := True\<rparr>) \<and>
     files (fst (resolveIcon env c crx w)) (icon_file crx) = files w (override_path env c) \<and>
     issued (resolveIcon env c crx) w =
       [FsAccess (override_path env c), FsWriteStream (icon_file crx),
        FsReadStream (override_path env c)]"
proof -
  from assms(1) have "icon_decision env (files w) c = Curated"
    by (simp add: icon_decision_Curated_iff)
  from resolveIcon_Curated_eq [OF this assms(2,3)] show ?thesis
    by (simp add: issued_def)
qed

theorem override_takes_precedence_witness:
  "snd (resolveIcon demo_env (demo_config ''messenger.com'' (Some ''/favicon.ico'')) demo_crx
      demo_world) =
     Return (demo_config ''messenger.com'' (Some ''/favicon.ico'')\<lparr>iconOverriden := True\<rparr>) \<and>
   files (fst (resolveIcon demo_env (demo_config ''messenger.com'' (Some ''/favicon.ico''))
      demo_crx demo_world)) ''/tmp/crx/icon.png'' = Some ''CURATED-MESSENGER''"
proof -
  let ?c = "demo_config ''messenger.com'' (Some ''/favicon.ico'')"
  have "override_path demo_env ?c \<in> dom (files demo_world)"
    by (simp add: demo_files_def)
  from override_takes_precedence [OF this, of demo_crx] show ?thesis
    by (simp add: demo_files_def)
qed

text \<open>
  C26: The icon step writes one file. Whatever the environment answers,
  \<open>resolveIcon\<close> opens at most one write stream, and every file other than
  the extension's icon file has afterwards the content it had before: at most
  one branch of the cascade runs, and none of them writes elsewhere.
\<close>

theorem resolveIcon_writes_icon_file_only:
  "length (filter is_write (issued (resolveIcon env c crx) w)) \<le> 1 \<and>
   (\<forall>q. q \<noteq> icon_file crx \<longrightarrow> files (fst (resolveIcon env c crx w)) q = files w q)"
  using resolveIcon_one_write [of env c crx w] by (simp add: resolveIcon_frame)

theorem resolveIcon_writes_icon_file_only_witness:
  "length (filter is_write
      (issued (resolveIcon demo_env (demo_config ''down.example.org'' None) demo_crx) demo_world)) \<le> 1 \<and>
   files (fst (resolveIcon demo_env (demo_config ''down.example.org'' None) demo_crx demo_world))
     ''/app/api/routes/../lib/extension/icons/fallback/D.png'' = Some ''LETTER-D''"
  using resolveIcon_writes_icon_file_only
    [of demo_env "demo_config ''down.example.org'' None" demo_crx demo_world]
  by (simp add: demo_files_def)

text \<open>
  C27: The placeholder rule. \<open>setPlaceholderIcon\<close> takes the first character
  of the host name in upper case; if that is a letter \<open>A\<close> to \<open>Z\<close> it copies
  the placeholder of that letter into the icon file, and otherwise (a digit,
  any other character, an empty host name) it returns having done nothing, so
  the template icon stays.
\<close>

theorem setPlaceholderIcon_letter_rule:
  assumes "hostname (parsedUrl c) = Some h"
  shows "setPlaceholderIcon env c crx w =
     (if h \<noteq> [] \<and> (is_AZ (hd h) \<or> is_az (hd h)) then
        bind (copyLocalFile env (placeholder_path env [upper_char (hd h)]) (icon_file crx))
          (\<lambda>_. return ()) w
      else (w, Return ()))"
  using assms matches_AZ_placeholder_letter [of h]
  by (cases h) (simp_all add: setPlaceholderIcon_apply)

theorem setPlaceholderIcon_letter_rule_witness:
  "setPlaceholderIcon demo_env (demo_config ''123shop.io'' None) demo_crx demo_world =
     (demo_world, Return ())"
  using setPlaceholderIcon_letter_rule
    [of "demo_config ''123shop.io'' None" "''123shop.io''" demo_env demo_crx demo_world]
  by (simp add: case_defs)

end
