(* ===== verification/Generate.thy ===== *)
theory Generate
  imports Icon
begin

text \<open>
  Packaging and reply of \<^verbatim>\<open>src/api/routes/generate.js\<close>:
  \<open>exports.generateCrx\<close> (lines 109 to 149) and \<open>exports.sendCrx\<close> (lines 207
  to 216). \<open>generateCrx\<close> creates the certificate, loads the template,
  writes three fields of the manifest, runs the icon cascade and packs;
  it reads \<open>crxConfig.title\<close> only after certificate and template, so an
  \<open>undefined\<close> configuration fails there. \<open>sendCrx\<close> writes two headers and
  the body of the response, in that order. The lemmas give the calls
  \<open>generateCrx\<close> issues and their order, what is packed, and what each
  failing call leaves behind.
\<close>

section \<open>The response\<close>

text \<open>
  The part of the request context the route touches: the \<open>url\<close> field of the
  parsed request body, the headers of the response, and its body
  (\<open>None\<close> until it is assigned).
\<close>

record ctx =
  body_url :: jsval
  headers :: "string \<rightharpoonup> string"
  resp_body :: "string option"

definition sendCrx :: "crxConfig option \<Rightarrow> string \<Rightarrow> (ctx, unit) io" where
  "sendCrx crxConfig crxBuffer request =
     (let request = request\<lparr>headers :=
            (headers request)(''content-type'' \<mapsto> ''application/x-chrome-extension'')\<rparr>
      in case crxConfig of
           None \<Rightarrow> (request, Throw (TypeError ''Cannot read property filename of undefined''))
         | Some c \<Rightarrow>
             (request\<lparr>headers :=
                  (headers request)(''content-disposition'' \<mapsto>
                     ''attachment; filename='' @ filename c),
                resp_body := Some crxBuffer\<rparr>,
              Return ()))"

section \<open>Packaging\<close>

text \<open>\<open>new Extension({privateKey: \<dots>})\<close>: no path and no manifest before \<open>load\<close>.\<close>

definition new_Extension :: "string \<Rightarrow> extension" where
  "new_Extension key =
     \<lparr>privateKey = key, path = [],
      manifest = \<lparr>name = None, app_urls = [], app_launch_web_url = [], icons_128 = []\<rparr>\<rparr>"

text \<open>Lines 119 to 126: title, permission for the URL, launch URL.\<close>

definition configure_manifest :: "crxConfig \<Rightarrow> extension \<Rightarrow> extension" where
  "configure_manifest crxConfig crx =
     crx\<lparr>manifest := (manifest crx)
       \<lparr>name := title crxConfig,
        app_urls := app_urls (manifest crx) @ [url crxConfig],
        app_launch_web_url := url crxConfig\<rparr>\<rparr>"

definition template_dir :: "env \<Rightarrow> string" where
  "template_dir env = path_join env (dirname env) ''../lib/extension/files''"

text \<open>
  The generator returns the buffer; the configuration it was given is
  returned with it, since the cascade has assigned \<open>iconOverriden\<close> in it.
\<close>

definition generateCrx :: "env \<Rightarrow> crxConfig option \<Rightarrow> (crxConfig option \<times> string) action" where
  "generateCrx env crxConfig =
     bind (call_createCertificate env (365 * 10) True) (\<lambda>cert.
     (let crx = new_Extension (clientKey cert) in
      bind (call_load env crx (template_dir env)) (\<lambda>crx.
        case crxConfig of
          None \<Rightarrow> throw (TypeError ''Cannot read property title of undefined'')
        | Some c \<Rightarrow>
            (let crx = configure_manifest c crx in
             bind (resolveIcon env c crx) (\<lambda>c.
             bind (call_pack env crx) (\<lambda>crxBuffer.
               return (Some c, crxBuffer)))))))"

section \<open>The extension that is packed\<close>

text \<open>
  \<open>loaded env k p m c\<close>: the extension object after \<open>load\<close> answered with path
  \<open>p\<close> and manifest \<open>m\<close> and the manifest fields were set from \<open>c\<close>.
\<close>

definition loaded :: "cert \<Rightarrow> string \<Rightarrow> manifest \<Rightarrow> crxConfig \<Rightarrow> extension" where
  "loaded k p m c = configure_manifest c (new_Extension (clientKey k)\<lparr>path := p, manifest := m\<rparr>)"

section \<open>The operations by cases\<close>

lemma sendCrx_Some:
  "sendCrx (Some c) b r =
     (r\<lparr>headers := (headers r)
          (''content-type'' \<mapsto> ''application/x-chrome-extension'',
           ''content-disposition'' \<mapsto> ''attachment; filename='' @ filename c),
        resp_body := Some b\<rparr>, Return ())"
  by (simp add: sendCrx_def)

lemma sendCrx_None:
  "sendCrx None b r =
     (r\<lparr>headers := (headers r)(''content-type'' \<mapsto> ''application/x-chrome-extension'')\<rparr>,
      Throw (TypeError ''Cannot read property filename of undefined''))"
  by (simp add: sendCrx_def)

lemma loaded_simps [simp]:
  "path (loaded k p m c) = p"
  "privateKey (loaded k p m c) = clientKey k"
  "name (manifest (loaded k p m c)) = title c"
  "app_urls (manifest (loaded k p m c)) = app_urls m @ [url c]"
  "app_launch_web_url (manifest (loaded k p m c)) = url c"
  "icons_128 (manifest (loaded k p m c)) = icons_128 m"
  "icon_file (loaded k p m c) = p @ ''/'' @ icons_128 m"
  by (simp_all add: loaded_def configure_manifest_def new_Extension_def icon_file_def)

lemma generateCrx_cert_Fail:
  "pem_createCertificate env 3650 True = Fail e \<Longrightarrow>
   generateCrx env cfg w = (w\<lparr>trace := trace w @ [PemCreateCertificate 3650 True]\<rparr>, Throw e)"
  by (simp add: generateCrx_def bind_def call_createCertificate_apply)

lemma generateCrx_cert_NoReply:
  "pem_createCertificate env 3650 True = NoReply \<Longrightarrow>
   generateCrx env cfg w = (w\<lparr>trace := trace w @ [PemCreateCertificate 3650 True]\<rparr>, Pending)"
  by (simp add: generateCrx_def bind_def call_createCertificate_apply)

lemma generateCrx_load_Fail:
  "pem_createCertificate env 3650 True = Reply k \<Longrightarrow>
   crx_load env (template_dir env) (files w) = Fail e \<Longrightarrow>
   generateCrx env cfg w =
     (w\<lparr>trace := trace w @ [PemCreateCertificate 3650 True, CrxLoad (template_dir env)]\<rparr>, Throw e)"
  by (simp add: generateCrx_def bind_def call_createCertificate_apply call_load_apply Let_def)

lemma generateCrx_load_NoReply:
  "pem_createCertificate env 3650 True = Reply k \<Longrightarrow>
   crx_load env (template_dir env) (files w) = NoReply \<Longrightarrow>
   generateCrx env cfg w =
     (w\<lparr>trace := trace w @ [PemCreateCertificate 3650 True, CrxLoad (template_dir env)]\<rparr>, Pending)"
  by (simp add: generateCrx_def bind_def call_createCertificate_apply call_load_apply Let_def)

lemma generateCrx_None:
  "pem_createCertificate env 3650 True = Reply k \<Longrightarrow>
   crx_load env (template_dir env) (files w) = Reply (p, m, f) \<Longrightarrow>
   generateCrx env None w =
     (w\<lparr>trace := trace w @ [PemCreateCertificate 3650 True, CrxLoad (template_dir env)],
        files := f\<rparr>,
      Throw (TypeError ''Cannot read property title of undefined''))"
  by (simp add: generateCrx_def bind_def call_createCertificate_apply call_load_apply Let_def)

lemma generateCrx_Some:
  "pem_createCertificate env 3650 True = Reply k \<Longrightarrow>
   crx_load env (template_dir env) (files w) = Reply (p, m, f) \<Longrightarrow>
   generateCrx env (Some c) w =
     bind (resolveIcon env c (loaded k p m c)) (\<lambda>c'.
       bind (call_pack env (loaded k p m c)) (\<lambda>b. return (Some c', b)))
       (w\<lparr>trace := trace w @ [PemCreateCertificate 3650 True, CrxLoad (template_dir env)],
          files := f\<rparr>)"
  by (simp add: generateCrx_def bind_def call_createCertificate_apply call_load_apply Let_def
      loaded_def)

lemmas generateCrx_simps =
  generateCrx_cert_Fail generateCrx_cert_NoReply generateCrx_load_Fail generateCrx_load_NoReply
  generateCrx_None generateCrx_Some

text \<open>The ways the first two calls can end.\<close>

lemma generateCrx_cases:
  obtains (cert_Fail) e where "pem_createCertificate env 3650 True = Fail e"
  | (cert_NoReply) "pem_createCertificate env 3650 True = NoReply"
  | (load_Fail) k e where "pem_createCertificate env 3650 True = Reply k"
      "crx_load env (template_dir env) (files w) = Fail e"
  | (load_NoReply) k where "pem_createCertificate env 3650 True = Reply k"
      "crx_load env (template_dir env) (files w) = NoReply"
  | (loaded) k p m f where "pem_createCertificate env 3650 True = Reply k"
      "crx_load env (template_dir env) (files w) = Reply (p, m, f)"
proof (cases "pem_createCertificate env 3650 True")
  case (Reply k)
  then show ?thesis
    by (cases "crx_load env (template_dir env) (files w)") (auto intro: that)
qed (auto intro: that)

section \<open>Frame\<close>

lemma appends_generateCrx [frame, simp]: "appends (generateCrx env cfg)"
  unfolding generateCrx_def Let_def
  by (cases cfg) (auto intro!: appends_bind)

text \<open>The calls of a run of \<open>generateCrx\<close> that got past \<open>load\<close>.\<close>

lemma issued_then_pack:
  "issued (bind (resolveIcon env c crx) (\<lambda>c'. bind (call_pack env crx) (\<lambda>b. return (Some c', b)))) w =
     issued (resolveIcon env c crx) w @
     (if is_Return (snd (resolveIcon env c crx w)) then [CrxPack] else [])"
proof (cases rule: outcome_cases3 [of "resolveIcon env c crx" w])
  case (Return w1 c1)
  with issued_bind_Return [of "resolveIcon env c crx"
      "\<lambda>c'. bind (call_pack env crx) (\<lambda>b. return (Some c', b))" c1 w w1]
  show ?thesis by (simp add: appends_bind)
next
  case (Throw w1 e)
  with issued_bind_stop [of "resolveIcon env c crx" w w1 "Throw e"] show ?thesis by simp
next
  case (Pending w1)
  with issued_bind_stop [of "resolveIcon env c crx" w w1 Pending] show ?thesis by simp
qed

lemma issued_generateCrx_Some:
  assumes "pem_createCertificate env 3650 True = Reply k"
    and "crx_load env (template_dir env) (files w) = Reply (p, m, f)"
  shows "issued (generateCrx env (Some c)) w =
     PemCreateCertificate 3650 True # CrxLoad (template_dir env) #
     issued (resolveIcon env c (loaded k p m c))
       (w\<lparr>trace := trace w @ [PemCreateCertificate 3650 True, CrxLoad (template_dir env)],
          files := f\<rparr>) @
     (if is_Return (snd (resolveIcon env c (loaded k p m c)
           (w\<lparr>trace := trace w @ [PemCreateCertificate 3650 True, CrxLoad (template_dir env)],
              files := f\<rparr>)))
      then [CrxPack] else [])"
proof -
  let ?m = "bind (resolveIcon env c (loaded k p m c)) (\<lambda>c'.
        bind (call_pack env (loaded k p m c)) (\<lambda>b. return (Some c', b)))"
  let ?w = "w\<lparr>trace := trace w @ [PemCreateCertificate 3650 True, CrxLoad (template_dir env)],
          files := f\<rparr>"
  have "appends ?m"
    by (intro appends_bind) simp_all
  from issued_trace [OF this, of ?w] have "issued (generateCrx env (Some c)) w =
      PemCreateCertificate 3650 True # CrxLoad (template_dir env) # issued ?m ?w"
    by (simp add: issued_def [of "generateCrx env (Some c)"] generateCrx_Some [OF assms])
  then show ?thesis
    by (simp only: issued_then_pack append_Cons)
qed

lemma icon_event_not_pack: "is_icon_event e \<Longrightarrow> e \<noteq> CrxPack"
  by (cases e) simp_all

text \<open>A run of \<open>generateCrx\<close> that returns, taken apart.\<close>

lemma generateCrx_ReturnE:
  assumes "generateCrx env (Some c) w = (w', Return (c', b))"
  obtains k p m f w1 c1 where
    "pem_createCertificate env 3650 True = Reply k"
    "crx_load env (template_dir env) (files w) = Reply (p, m, f)"
    "resolveIcon env c (loaded k p m c)
       (w\<lparr>trace := trace w @ [PemCreateCertificate 3650 True, CrxLoad (template_dir env)],
          files := f\<rparr>) = (w1, Return c1)"
    "crx_pack env (loaded k p m c) (files w1) = Reply b"
    "w' = w1\<lparr>trace := trace w1 @ [CrxPack]\<rparr>" "c' = Some c1"
proof (cases rule: generateCrx_cases [where env = env and w = w])
  case (loaded k p m f)
  from assms show ?thesis
    unfolding generateCrx_Some [OF loaded]
    by (auto simp: bind_eq_Return_iff call_pack_apply intro: that [OF loaded]
        elim!: outcome_of_reply.elims)
qed (use assms in \<open>simp_all add: generateCrx_simps\<close>)

lemma no_download_generateCrx:
  assumes "\<And>c. cfg = Some c \<Longrightarrow> \<not> icon_truthy (icon c)"
  shows "list_all (\<lambda>e. \<not> is_download e) (issued (generateCrx env cfg) w)"
proof (cases rule: generateCrx_cases [where env = env and w = w])
  case (loaded k p m f)
  show ?thesis
  proof (cases cfg)
    case None
    with loaded show ?thesis by (simp add: issued_def generateCrx_simps)
  next
    case (Some c)
    let ?w = "w\<lparr>trace := trace w @ [PemCreateCertificate 3650 True, CrxLoad (template_dir env)],
          files := f\<rparr>"
    from no_download_resolveIcon [OF assms [OF Some], of env "loaded k p m c" ?w]
    show ?thesis
      by (simp add: Some issued_generateCrx_Some [OF loaded])
  qed
qed (simp_all add: issued_def generateCrx_simps)

section \<open>One concrete run\<close>

lemma demo_load_reply:
  "files w = demo_files \<Longrightarrow>
   crx_load demo_env (template_dir demo_env) (files w) =
     Reply (''/tmp/crx'', demo_manifest, demo_files(''/tmp/crx/icon.png'' \<mapsto> ''DEFAULT''))"
  by (simp add: demo_env_def demo_load_def)

lemma demo_cert_reply: "pem_createCertificate demo_env 3650 True = Reply \<lparr>clientKey = ''KEY''\<rparr>"
  by (simp add: demo_env_def)

text \<open>Packaging for a host that has no curated icon and starts with a letter.\<close>

lemma demo_generate_from:
  assumes "files w = demo_files"
  shows "generateCrx demo_env (Some (demo_config ''down.example.org'' None)) w =
     (w\<lparr>files := demo_files(''/tmp/crx/icon.png'' \<mapsto> ''LETTER-D''),
        trace := trace w @
          [PemCreateCertificate 3650 True, CrxLoad ''/app/api/routes/../lib/extension/files'',
           FsAccess ''/app/api/routes/../assets/icons/down.example.org.png'',
           FsWriteStream ''/tmp/crx/icon.png'',
           FsReadStream ''/app/api/routes/../lib/extension/icons/fallback/D.png'',
           CrxPack]\<rparr>,
      Return (Some (demo_config ''down.example.org'' None),
              ''down.example.org|https://down.example.org/|LETTER-D''))"
proof -
  let ?c = "demo_config ''down.example.org'' None"
  let ?x = "loaded \<lparr>clientKey = ''KEY''\<rparr> ''/tmp/crx'' demo_manifest ?c"
  let ?w = "w\<lparr>trace := trace w @
        [PemCreateCertificate 3650 True, CrxLoad (template_dir demo_env)],
      files := demo_files(''/tmp/crx/icon.png'' \<mapsto> ''DEFAULT'')\<rparr>"
  have d: "icon_decision demo_env (files ?w) ?c = Letter"
    by (simp add: icon_decision_def demo_files_def matches_AZ_def case_defs)
  have "icon_file ?x \<noteq> placeholder_path demo_env (placeholder_letter ''down.example.org'')"
    by (simp add: demo_manifest_def)
  with resolveIcon_Letter_eq [OF d, where crx = ?x and h = "''down.example.org''"]
  have "resolveIcon demo_env ?c ?x ?w =
      (?w\<lparr>trace := trace ?w @ [FsAccess ''/app/api/routes/../assets/icons/down.example.org.png'',
           FsWriteStream ''/tmp/crx/icon.png'',
           FsReadStream ''/app/api/routes/../lib/extension/icons/fallback/D.png''],
         files := (files ?w)(''/tmp/crx/icon.png'' \<mapsto> ''LETTER-D'')\<rparr>, Return ?c)"
    by (simp add: demo_manifest_def demo_files_def case_defs)
  moreover have "crx_pack demo_env ?x (demo_files(''/tmp/crx/icon.png'' \<mapsto> ''LETTER-D'')) =
      Reply ''down.example.org|https://down.example.org/|LETTER-D''"
    by (simp add: demo_env_def demo_pack_def demo_manifest_def demo_config_def)
  moreover have "template_dir demo_env = ''/app/api/routes/../lib/extension/files''"
    by (simp add: template_dir_def demo_env_def)
  ultimately show ?thesis
    by (simp add: generateCrx_Some [OF demo_cert_reply demo_load_reply [OF assms]] bind_def
        call_pack_apply)
qed

lemma demo_generate:
  "generateCrx demo_env (Some (demo_config ''down.example.org'' None)) demo_world =
     (\<lparr>files = demo_files(''/tmp/crx/icon.png'' \<mapsto> ''LETTER-D''),
       trace = [PemCreateCertificate 3650 True, CrxLoad ''/app/api/routes/../lib/extension/files'',
                FsAccess ''/app/api/routes/../assets/icons/down.example.org.png'',
                FsWriteStream ''/tmp/crx/icon.png'',
                FsReadStream ''/app/api/routes/../lib/extension/icons/fallback/D.png'',
                CrxPack]\<rparr>,
      Return (Some (demo_config ''down.example.org'' None),
              ''down.example.org|https://down.example.org/|LETTER-D''))"
  by (simp add: demo_generate_from demo_world_def init_world_def)

section \<open>Properties\<close>

text \<open>
  C28: An \<open>undefined\<close> configuration. Given no configuration, \<open>generateCrx\<close>
  never returns a buffer, never calls \<open>pack\<close> and never reaches the icon
  step, whatever certificate generator and packager answer: the read of
  \<open>crxConfig.title\<close> comes after both and throws.
\<close>

theorem generateCrx_undefined_config_fails:
  "\<not> is_Return (snd (generateCrx env None w)) \<and>
   CrxPack \<notin> set (issued (generateCrx env None) w) \<and>
   list_all (\<lambda>e. \<not> is_icon_event e) (issued (generateCrx env None) w)"
  by (cases rule: generateCrx_cases [where env = env and w = w]) (simp_all add: issued_def generateCrx_simps)

text \<open>
  C16: What is packed. When \<open>generateCrx\<close> returns a buffer, that buffer is
  what \<open>pack\<close> answered for the files as they are then and for an extension
  that is signed with the key of the certificate, is named after the
  configuration's title, launches the configuration's URL, and has that URL
  as the last of its permitted URLs.
\<close>

theorem generateCrx_packs_configured_extension:
  assumes "generateCrx env (Some c) w = (w', Return (c', b))"
  shows "\<exists>crx k. crx_pack env crx (files w') = Reply b \<and>
     pem_createCertificate env 3650 True = Reply k \<and> privateKey crx = clientKey k \<and>
     name (manifest crx) = title c \<and> app_launch_web_url (manifest crx) = url c \<and>
     last (app_urls (manifest crx)) = url c"
proof -
  from assms obtain k p m w1 where "pem_createCertificate env 3650 True = Reply k"
    and "crx_pack env (loaded k p m c) (files w1) = Reply b"
    and "w' = w1\<lparr>trace := trace w1 @ [CrxPack]\<rparr>"
    by (rule generateCrx_ReturnE)
  then show ?thesis
    by (intro exI [of _ "loaded k p m c"] exI [of _ k]) simp
qed

theorem generateCrx_packs_configured_extension_witness:
  "\<exists>crx k. crx_pack demo_env crx (demo_files(''/tmp/crx/icon.png'' \<mapsto> ''LETTER-D'')) =
       Reply ''down.example.org|https://down.example.org/|LETTER-D'' \<and>
     pem_createCertificate demo_env 3650 True = Reply k \<and> privateKey crx = clientKey k \<and>
     name (manifest crx) = Some ''down.example.org'' \<and>
     app_launch_web_url (manifest crx) = ''https://down.example.org/'' \<and>
     last (app_urls (manifest crx)) = ''https://down.example.org/''"
  using generateCrx_packs_configured_extension [OF demo_generate]
  by (simp add: demo_config_def)

text \<open>
  C9: The order of the calls. A run of \<open>generateCrx\<close> that returns has
  issued, in this order: the certificate request for 3650 days, self-signed;
  the load of the template directory; the calls of the icon step, with at
  most one write stream among them; and, last, \<open>pack\<close>. So the archive holds
  the icon as the icon step left it.
\<close>

theorem generateCrx_call_order:
  assumes "generateCrx env (Some c) w = (w', Return r)"
  shows "\<exists>es. issued (generateCrx env (Some c)) w =
       PemCreateCertificate 3650 True # CrxLoad (template_dir env) # es @ [CrxPack] \<and>
     list_all is_icon_event es \<and> length (filter is_write es) \<le> 1"
proof -
  obtain c' b where r: "r = (c', b)" by (cases r)
  from assms [unfolded r] obtain k p m f w1 c1 where
    l: "pem_createCertificate env 3650 True = Reply k"
      "crx_load env (template_dir env) (files w) = Reply (p, m, f)"
    and i: "resolveIcon env c (loaded k p m c)
       (w\<lparr>trace := trace w @ [PemCreateCertificate 3650 True, CrxLoad (template_dir env)],
          files := f\<rparr>) = (w1, Return c1)"
    by (rule generateCrx_ReturnE)
  let ?w = "w\<lparr>trace := trace w @ [PemCreateCertificate 3650 True, CrxLoad (template_dir env)],
          files := f\<rparr>"
  let ?es = "issued (resolveIcon env c (loaded k p m c)) ?w"
  have "issued (generateCrx env (Some c)) w =
      PemCreateCertificate 3650 True # CrxLoad (template_dir env) # ?es @ [CrxPack]"
    using i by (simp add: issued_generateCrx_Some [OF l])
  with icon_events_resolveIcon [of env c "loaded k p m c" ?w]
    resolveIcon_one_write [of env c "loaded k p m c" ?w]
  show ?thesis by blast
qed

theorem generateCrx_call_order_witness:
  "\<exists>es. issued (generateCrx demo_env (Some (demo_config ''down.example.org'' None))) demo_world =
       PemCreateCertificate 3650 True # CrxLoad (template_dir demo_env) # es @ [CrxPack] \<and>
     list_all is_icon_event es \<and> length (filter is_write es) \<le> 1"
  using generateCrx_call_order [OF demo_generate] .

text \<open>
  C29: The response. \<open>sendCrx\<close> sets the content type of a browser extension,
  a content disposition that names the configuration's file name as an
  attachment, and the buffer as the body; every other header is as it was.
\<close>

theorem sendCrx_response:
  "snd (sendCrx (Some c) b r) = Return () \<and>
   resp_body (fst (sendCrx (Some c) b r)) = Some b \<and>
   headers (fst (sendCrx (Some c) b r)) ''content-type'' = Some ''application/x-chrome-extension'' \<and>
   headers (fst (sendCrx (Some c) b r)) ''content-disposition'' =
     Some (''attachment; filename='' @ filename c) \<and>
   (\<forall>h. h \<noteq> ''content-type'' \<and> h \<noteq> ''content-disposition'' \<longrightarrow>
      headers (fst (sendCrx (Some c) b r)) h = headers r h)"
  by (simp add: sendCrx_Some)

theorem sendCrx_response_witness:
  "headers (fst (sendCrx (Some (demo_config ''down.example.org'' None)) ''BUFFER''
      \<lparr>body_url = JStr ''https://down.example.org/'', headers = [''vary'' \<mapsto> ''Origin''],
       resp_body = None\<rparr>)) ''vary'' = Some ''Origin'' \<and>
   headers (fst (sendCrx (Some (demo_config ''down.example.org'' None)) ''BUFFER''
      \<lparr>body_url = JStr ''https://down.example.org/'', headers = [''vary'' \<mapsto> ''Origin''],
       resp_body = None\<rparr>)) ''content-disposition'' =
     Some ''attachment; filename=down.example.org.crx''"
  using sendCrx_response [of "demo_config ''down.example.org'' None" "''BUFFER''"
      "\<lparr>body_url = JStr ''https://down.example.org/'', headers = [''vary'' \<mapsto> ''Origin''],
        resp_body = None\<rparr>"]
  by (simp add: demo_config_def)

end
