(* ===== verification/Handler.thy ===== *)
theory Handler
  imports Generate
begin

text \<open>
  The route itself, \<open>module.exports\<close> of \<^verbatim>\<open>src/api/routes/generate.js\<close>
  (lines 14 to 26): read the URL from the request body, build the
  configuration, generate the archive, send it. Its state is the world
  together with the request context; \<open>lift_world\<close> and \<open>lift_ctx\<close> run a
  step on one half of it. The lemmas take a run of \<open>handler\<close> apart into the
  runs of its three stages.
\<close>

type_synonym server = "world \<times> ctx"

definition lift_world :: "'a action \<Rightarrow> (server, 'a) io" where
  "lift_world m = (\<lambda>(w, r). case m w of (w', out) \<Rightarrow> ((w', r), out))"

definition lift_ctx :: "(ctx, 'a) io \<Rightarrow> (server, 'a) io" where
  "lift_ctx m = (\<lambda>(w, r). case m r of (r', out) \<Rightarrow> ((w, r'), out))"

text \<open>
  \<open>crxConfig\<close> is one object throughout: \<open>sendCrx\<close> sees it as \<open>generateCrx\<close>
  left it.
\<close>

definition handler :: "env \<Rightarrow> (server, unit) io" where
  "handler env = (\<lambda>s.
     (let url = body_url (snd s) in
      bind (lift_world (buildCrxConfig env url)) (\<lambda>crxConfig.
      bind (lift_world (generateCrx env crxConfig)) (\<lambda>(crxConfig, crxBuffer).
        lift_ctx (sendCrx crxConfig crxBuffer)))) s)"

text \<open>The calls a run of the route adds to the trace.\<close>

definition calls :: "env \<Rightarrow> server \<Rightarrow> io_event list" where
  "calls env s = drop (length (trace (fst s))) (trace (fst (fst (handler env s))))"

definition demo_ctx :: "string \<Rightarrow> ctx" where
  "demo_ctx u = \<lparr>body_url = JStr u, headers = Map.empty, resp_body = None\<rparr>"

section \<open>A run, stage by stage\<close>

lemma lift_world_apply [simp]:
  "lift_world m (w, r) = ((fst (m w), r), snd (m w))"
  by (simp add: lift_world_def split: prod.splits)

lemma lift_ctx_apply [simp]:
  "lift_ctx m (w, r) = ((w, fst (m r)), snd (m r))"
  by (simp add: lift_ctx_def split: prod.splits)

lemma handler_build_Throw:
  "buildCrxConfig env (body_url r) w = (w1, Throw e) \<Longrightarrow>
   handler env (w, r) = ((w1, r), Throw e)"
  by (simp add: handler_def bind_def)

lemma handler_build_Pending:
  "buildCrxConfig env (body_url r) w = (w1, Pending) \<Longrightarrow>
   handler env (w, r) = ((w1, r), Pending)"
  by (simp add: handler_def bind_def)

lemma handler_generate_Throw:
  "buildCrxConfig env (body_url r) w = (w1, Return cfg) \<Longrightarrow>
   generateCrx env cfg w1 = (w2, Throw e) \<Longrightarrow>
   handler env (w, r) = ((w2, r), Throw e)"
  by (simp add: handler_def bind_def)

lemma handler_generate_Pending:
  "buildCrxConfig env (body_url r) w = (w1, Return cfg) \<Longrightarrow>
   generateCrx env cfg w1 = (w2, Pending) \<Longrightarrow>
   handler env (w, r) = ((w2, r), Pending)"
  by (simp add: handler_def bind_def)

lemma handler_send:
  "buildCrxConfig env (body_url r) w = (w1, Return cfg) \<Longrightarrow>
   generateCrx env cfg w1 = (w2, Return (cfg', b)) \<Longrightarrow>
   handler env (w, r) = ((w2, fst (sendCrx cfg' b r)), snd (sendCrx cfg' b r))"
  by (simp add: handler_def bind_def)

lemmas handler_simps =
  handler_build_Throw handler_build_Pending handler_generate_Throw handler_generate_Pending
  handler_send

text \<open>The five ways a run can go.\<close>

lemma handler_cases:
  obtains (build_Throw) w1 e where "buildCrxConfig env (body_url r) w = (w1, Throw e)"
  | (build_Pending) w1 where "buildCrxConfig env (body_url r) w = (w1, Pending)"
  | (generate_Throw) w1 cfg w2 e where "buildCrxConfig env (body_url r) w = (w1, Return cfg)"
      "generateCrx env cfg w1 = (w2, Throw e)"
  | (generate_Pending) w1 cfg w2 where "buildCrxConfig env (body_url r) w = (w1, Return cfg)"
      "generateCrx env cfg w1 = (w2, Pending)"
  | (send) w1 cfg w2 cfg' b where "buildCrxConfig env (body_url r) w = (w1, Return cfg)"
      "generateCrx env cfg w1 = (w2, Return (cfg', b))"
proof (cases rule: outcome_cases3 [of "buildCrxConfig env (body_url r)" w])
  case (Return w1 cfg)
  then show ?thesis
    by (cases rule: outcome_cases3 [of "generateCrx env cfg" w1]) (auto intro: that)
qed (auto intro: that)

text \<open>A configuration that reaches \<open>sendCrx\<close> is never \<open>undefined\<close>.\<close>

lemma generateCrx_Return_Some:
  "generateCrx env cfg w = (w', Return (cfg', b)) \<Longrightarrow> \<exists>c c'. cfg = Some c \<and> cfg' = Some c'"
proof (cases cfg)
  case None
  assume "generateCrx env cfg w = (w', Return (cfg', b))"
  with None show ?thesis
    by (cases rule: generateCrx_cases [where env = env and w = w])
      (simp_all add: generateCrx_simps)
next
  case (Some c)
  assume "generateCrx env cfg w = (w', Return (cfg', b))"
  with Some show ?thesis
    by (auto elim: generateCrx_ReturnE)
qed

section \<open>The calls of a run\<close>

lemma no_download_buildCrxConfig:
  "list_all (\<lambda>e. \<not> is_download e) (issued (buildCrxConfig env v) w)"
  by (simp add: issued_def buildCrxConfig_apply split: sum.splits)

lemma calls_handler:
  "calls env (w, r) =
     issued (buildCrxConfig env (body_url r)) w @
     (case buildCrxConfig env (body_url r) w of
        (w1, Return cfg) \<Rightarrow> issued (generateCrx env cfg) w1
      | (w1, Throw e) \<Rightarrow> []
      | (w1, Pending) \<Rightarrow> [])"
proof -
  have b: "trace (fst (buildCrxConfig env (body_url r) w)) =
      trace w @ issued (buildCrxConfig env (body_url r)) w"
    by (rule issued_trace) simp
  have g: "trace (fst (generateCrx env cfg w1)) = trace w1 @ issued (generateCrx env cfg) w1"
    for cfg w1
    by (rule issued_trace) simp
  show ?thesis
  proof (cases rule: handler_cases [where env = env and r = r and w = w])
    case (build_Throw w1 e)
    with b show ?thesis by (simp add: calls_def handler_simps)
  next
    case (build_Pending w1)
    with b show ?thesis by (simp add: calls_def handler_simps)
  next
    case (generate_Throw w1 cfg w2 e)
    with b g [of cfg w1] show ?thesis by (simp add: calls_def handler_simps)
  next
    case (generate_Pending w1 cfg w2)
    with b g [of cfg w1] show ?thesis by (simp add: calls_def handler_simps)
  next
    case (send w1 cfg w2 cfg' bf)
    with b g [of cfg w1] show ?thesis by (simp add: calls_def handler_simps)
  qed
qed

section \<open>One concrete run\<close>

lemma demo_handler_down:
  "handler demo_env (demo_world, demo_ctx ''https://down.example.org/'') =
     ((\<lparr>files = demo_files(''/tmp/crx/icon.png'' \<mapsto> ''LETTER-D''),
        trace = [HttpRequest (page_request ''https://down.example.org/''),
                 PemCreateCertificate 3650 True, CrxLoad ''/app/api/routes/../lib/extension/files'',
                 FsAccess ''/app/api/routes/../assets/icons/down.example.org.png'',
                 FsWriteStream ''/tmp/crx/icon.png'',
                 FsReadStream ''/app/api/routes/../lib/extension/icons/fallback/D.png'',
                 CrxPack]\<rparr>,
       \<lparr>body_url = JStr ''https://down.example.org/'',
        headers = [''content-type'' \<mapsto> ''application/x-chrome-extension'',
                   ''content-disposition'' \<mapsto> ''attachment; filename=down.example.org.crx''],
        resp_body = Some ''down.example.org|https://down.example.org/|LETTER-D''\<rparr>),
      Return ())"
proof -
  have "buildCrxConfig demo_env (JStr ''https://down.example.org/'') demo_world =
      (demo_world\<lparr>trace := [HttpRequest (page_request ''https://down.example.org/'')]\<rparr>,
       Return (Some (demo_config ''down.example.org'' None)))"
    using demo_down_config by (simp add: demo_config_def demo_world_def init_world_def)
  then have b: "buildCrxConfig demo_env
      (body_url (demo_ctx ''https://down.example.org/'')) demo_world =
      (demo_world\<lparr>trace := [HttpRequest (page_request ''https://down.example.org/'')]\<rparr>,
       Return (Some (demo_config ''down.example.org'' None)))"
    by (simp add: demo_ctx_def)
  have "files (demo_world\<lparr>trace := [HttpRequest (page_request ''https://down.example.org/'')]\<rparr>) =
      demo_files"
    by simp
  from handler_send [OF b demo_generate_from [OF this]] show ?thesis
    by (simp add: sendCrx_Some demo_ctx_def demo_world_def init_world_def demo_config_def)
qed


end
