(* ===== verification/Protocol.thy ===== *)
theory Protocol
  imports Handler
begin

text \<open>
  The order of the external calls of one request, as a protocol: an automaton
  over the calls, and the statement that what a run of \<open>handler\<close> issues is
  always a path of it. The automaton is read off the code: the page request
  (line 103) comes first, then the certificate (line 111), the load of the
  template (line 117), the existence test of the curated icon (line 171), at
  most one write stream with the read stream or download that fills it
  (lines 223 to 232, 245 to 254), and \<open>pack\<close> (line 145) last.
\<close>

datatype phase = Idle | Fetching | Certifying | Loading | Checking | Writing | Filling | Packing

inductive next_call :: "string \<Rightarrow> phase \<Rightarrow> io_event \<Rightarrow> phase \<Rightarrow> bool" for u where
  fetch: "next_call u Idle (HttpRequest (page_request u)) Fetching"
| certify: "next_call u Fetching (PemCreateCertificate 3650 True) Certifying"
| load_template: "next_call u Certifying (CrxLoad d) Loading"
| access: "next_call u Loading (FsAccess p) Checking"
| open_stream: "next_call u Checking (FsWriteStream p) Writing"
| fill_copy: "next_call u Writing (FsReadStream p) Filling"
| fill_download: "next_call u Writing (HttpStream v) Filling"
| pack_template: "next_call u Checking CrxPack Packing"
| pack_icon: "next_call u Filling CrxPack Packing"

inductive follows :: "string \<Rightarrow> phase \<Rightarrow> io_event list \<Rightarrow> phase \<Rightarrow> bool" for u where
  stop: "follows u ph [] ph"
| call: "next_call u ph e ph' \<Longrightarrow> follows u ph' es ph'' \<Longrightarrow> follows u ph (e # es) ph''"

text \<open>The same automaton as a function, for evaluation.\<close>

fun next_phase :: "string \<Rightarrow> phase \<Rightarrow> io_event \<Rightarrow> phase option" where
  "next_phase u Idle (HttpRequest q) = (if q = page_request u then Some Fetching else None)"
| "next_phase u Fetching (PemCreateCertificate d s) =
     (if d = 3650 \<and> s then Some Certifying else None)"
| "next_phase u Certifying (CrxLoad d) = Some Loading"
| "next_phase u Loading (FsAccess p) = Some Checking"
| "next_phase u Checking (FsWriteStream p) = Some Writing"
| "next_phase u Writing (FsReadStream p) = Some Filling"
| "next_phase u Writing (HttpStream v) = Some Filling"
| "next_phase u Checking CrxPack = Some Packing"
| "next_phase u Filling CrxPack = Some Packing"
| "next_phase u _ _ = None"

fun walk :: "string \<Rightarrow> phase \<Rightarrow> io_event list \<Rightarrow> phase option" where
  "walk u ph [] = Some ph"
| "walk u ph (e # es) = (case next_phase u ph e of None \<Rightarrow> None | Some ph' \<Rightarrow> walk u ph' es)"

text \<open>How far a phase is along the protocol.\<close>

fun rank :: "phase \<Rightarrow> nat" where
  "rank Idle = 0"
| "rank Fetching = 1"
| "rank Certifying = 2"
| "rank Loading = 3"
| "rank Checking = 4"
| "rank Writing = 5"
| "rank Filling = 6"
| "rank Packing = 7"

text \<open>
  \<open>icon_walk u es returned\<close>: \<open>es\<close> is what an icon operation may issue after
  the existence test. If the operation returned, \<open>pack\<close> may follow: either
  nothing was opened, or a stream was opened and filled.
\<close>

definition icon_walk :: "string \<Rightarrow> io_event list \<Rightarrow> bool \<Rightarrow> bool" where
  "icon_walk u es returned \<longleftrightarrow>
     walk u Checking es \<in> (if returned then {Some Checking, Some Filling}
                            else {Some Checking, Some Writing, Some Filling})"

code_pred next_call .

code_pred follows .

inductive_cases follows_NilE [elim!]: "follows u ph [] ph'"

inductive_cases follows_ConsE [elim!]: "follows u ph (e # es) ph'"

inductive_simps follows_Nil_iff [simp]: "follows u ph [] ph'"

inductive_simps follows_Cons_iff: "follows u ph (e # es) ph'"

inductive_cases next_callE: "next_call u ph e ph'"

lemmas protocol_intros = next_call.intros follows.intros

section \<open>The automaton\<close>

lemma follows_append:
  "follows u a xs b \<Longrightarrow> follows u b ys c \<Longrightarrow> follows u a (xs @ ys) c"
  by (induction rule: follows.induct) (auto intro: follows.intros)

lemma next_call_deterministic:
  "next_call u ph e a \<Longrightarrow> next_call u ph e b \<Longrightarrow> a = b"
  by (auto elim!: next_call.cases)

lemma follows_deterministic:
  "follows u ph es a \<Longrightarrow> follows u ph es b \<Longrightarrow> a = b"
proof (induction arbitrary: b rule: follows.induct)
  case (stop ph)
  then show ?case by auto
next
  case (call ph e ph' es ph'')
  from call.prems obtain q where "next_call u ph e q" "follows u q es b"
    by auto
  with call.hyps(1) call.IH show ?case
    by (auto dest: next_call_deterministic)
qed

text \<open>No call follows \<open>pack\<close>, and \<open>pack\<close> is the only way into \<open>Packing\<close>.\<close>

lemma Packing_final: "follows u Packing es ph \<Longrightarrow> es = [] \<and> ph = Packing"
  by (cases es) (auto elim: next_call.cases)


section \<open>Relation and function agree\<close>

lemma next_call_iff: "next_call u ph e ph' \<longleftrightarrow> next_phase u ph e = Some ph'"
proof
  assume "next_call u ph e ph'"
  then show "next_phase u ph e = Some ph'"
    by cases simp_all
next
  assume "next_phase u ph e = Some ph'"
  then show "next_call u ph e ph'"
    by (cases rule: next_phase.elims) (auto intro: next_call.intros split: if_splits)
qed

lemma follows_iff_walk: "follows u ph es ph' \<longleftrightarrow> walk u ph es = Some ph'"
  by (induction es arbitrary: ph)
    (auto simp: follows_Cons_iff next_call_iff split: option.splits)

lemma walk_append [simp]:
  "walk u a (xs @ ys) = (case walk u a xs of None \<Rightarrow> None | Some b \<Rightarrow> walk u b ys)"
  by (induction xs arbitrary: a) (auto split: option.splits)


section \<open>Every call advances the protocol\<close>

lemma next_call_rank: "next_call u ph e ph' \<Longrightarrow> rank ph < rank ph'"
  by (induction rule: next_call.induct) simp_all

lemma follows_rank: "follows u ph es ph' \<Longrightarrow> rank ph + length es \<le> rank ph'"
  by (induction rule: follows.induct) (auto dest: next_call_rank)

lemma rank_le_7: "rank ph \<le> 7"
  by (cases ph) simp_all

lemma follows_Idle_length: "follows u Idle es ph \<Longrightarrow> length es \<le> 7"
  using follows_rank [of u Idle es ph] rank_le_7 [of ph] by simp

section \<open>The calls of each stage\<close>

lemma walk_copyLocalFile:
  "walk u Checking (issued (copyLocalFile env a b) w) =
     Some (if stream_fault env b = None then Filling else Writing)"
  by (simp add: issued_def copyLocalFile_apply split: option.splits)

lemma walk_downloadFile:
  "walk u Checking (issued (downloadFile env v p) w) =
     Some (if stream_fault env p = None then Filling else Writing)"
  by (simp add: issued_def downloadFile_apply split: option.splits stream_result.splits)

lemma copyLocalFile_Return_no_fault:
  "is_Return (snd (copyLocalFile env a b w)) \<Longrightarrow> stream_fault env b = None"
  by (simp add: copyLocalFile_apply split: option.splits)

lemma downloadFile_Return_no_fault:
  "is_Return (snd (downloadFile env v p w)) \<Longrightarrow> stream_fault env p = None"
  by (simp add: downloadFile_apply split: option.splits)

lemma icon_walk_return [simp]: "icon_walk u [] b"
  by (simp add: icon_walk_def)

lemma icon_walk_copy:
  "icon_walk u (issued (copyLocalFile env a b) w) (is_Return (snd (copyLocalFile env a b w)))"
  using copyLocalFile_Return_no_fault [of env a b w]
  by (auto simp: icon_walk_def walk_copyLocalFile)

lemma icon_walk_download:
  "icon_walk u (issued (downloadFile env v p) w) (is_Return (snd (downloadFile env v p w)))"
  using downloadFile_Return_no_fault [of env v p w]
  by (auto simp: icon_walk_def walk_downloadFile)

lemma is_Return_bind_return [simp]:
  "is_Return (snd (bind m (\<lambda>a. return (g a)) w)) = is_Return (snd (m w))"
  by (cases rule: outcome_cases3 [of m w]) (simp_all add: bind_def)

lemma icon_walk_downloadIcon:
  "icon_walk u (issued (downloadIcon env c crx) w) (is_Return (snd (downloadIcon env c crx w)))"
  by (simp add: downloadIcon_def Let_def icon_walk_download split: option.splits)

lemma icon_walk_setPlaceholderIcon:
  "icon_walk u (issued (setPlaceholderIcon env c crx) w)
     (is_Return (snd (setPlaceholderIcon env c crx w)))"
  by (simp add: setPlaceholderIcon_def Let_def icon_walk_copy split: option.splits)

lemma issued_resolveIcon:
  "\<exists>es. issued (resolveIcon env c crx) w = FsAccess (override_path env c) # es \<and>
     icon_walk u es (is_Return (snd (resolveIcon env c crx w)))"
proof (cases rule: resolveIcon_cases [of env c w])
  case Curated
  then show ?thesis
    using icon_walk_copy [of u env "override_path env c" "icon_file crx"]
    by (simp add: issued_def [of "resolveIcon env c crx"] resolveIcon_Curated issued_shift)
next
  case Kept
  then show ?thesis by (simp add: issued_def resolveIcon_already_overridden)
next
  case Download
  then show ?thesis
    using icon_walk_downloadIcon [of u env c crx]
    by (simp add: issued_def [of "resolveIcon env c crx"] resolveIcon_not_Curated issued_shift)
next
  case Placeholder
  then show ?thesis
    using icon_walk_setPlaceholderIcon [of u env c crx]
    by (simp add: issued_def [of "resolveIcon env c crx"] resolveIcon_not_Curated issued_shift)
qed

lemma walk_generateCrx:
  "\<exists>ph. walk u Fetching (issued (generateCrx env cfg) w) = Some ph \<and>
     (is_Return (snd (generateCrx env cfg w)) \<longrightarrow> ph = Packing)"
proof (cases rule: generateCrx_cases [where env = env and w = w])
  case (loaded k p m f)
  show ?thesis
  proof (cases cfg)
    case None
    with loaded show ?thesis by (simp add: issued_def generateCrx_simps)
  next
    case (Some c)
    let ?w = "w\<lparr>trace := trace w @ [PemCreateCertificate 3650 True, CrxLoad (template_dir env)],
          files := f\<rparr>"
    from issued_resolveIcon [of env c "loaded k p m c" ?w u] obtain es
      where es: "issued (resolveIcon env c (loaded k p m c)) ?w = FsAccess (override_path env c) # es"
        and iw: "icon_walk u es (is_Return (snd (resolveIcon env c (loaded k p m c) ?w)))"
      by blast
    show ?thesis
    proof (cases rule: outcome_cases3 [of "resolveIcon env c (loaded k p m c)" ?w])
      case (Return w1 c1)
      with iw es show ?thesis
        by (auto simp: Some issued_generateCrx_Some [OF loaded] icon_walk_def)
    next
      case (Throw w1 e)
      with iw es show ?thesis
        by (auto simp: Some issued_generateCrx_Some [OF loaded] icon_walk_def
            generateCrx_Some [OF loaded] bind_def)
    next
      case (Pending w1)
      with iw es show ?thesis
        by (auto simp: Some issued_generateCrx_Some [OF loaded] icon_walk_def
            generateCrx_Some [OF loaded] bind_def)
    qed
  qed
qed (simp_all add: issued_def generateCrx_simps)

lemma walk_buildCrxConfig:
  "walk (js_str v) Idle (issued (buildCrxConfig env v) w) =
     Some (if issued (buildCrxConfig env v) w = [] then Idle else Fetching) \<and>
   (is_Return (snd (buildCrxConfig env v w)) \<longrightarrow> issued (buildCrxConfig env v) w \<noteq> [])"
  by (auto simp: issued_def buildCrxConfig_apply initConfig_Inr_iff split: sum.splits reply.splits)

lemma walk_calls:
  "\<exists>ph. walk (js_str (body_url r)) Idle (calls env (w, r)) = Some ph \<and>
     (is_Return (snd (handler env (w, r))) \<longrightarrow> ph = Packing)"
proof (cases rule: handler_cases [where env = env and r = r and w = w])
  case (build_Throw w1 e)
  with walk_buildCrxConfig [of "body_url r" env w] show ?thesis
    by (simp add: calls_handler handler_simps)
next
  case (build_Pending w1)
  with walk_buildCrxConfig [of "body_url r" env w] show ?thesis
    by (simp add: calls_handler handler_simps)
next
  case (generate_Throw w1 cfg w2 e)
  with walk_buildCrxConfig [of "body_url r" env w]
    walk_generateCrx [of "js_str (body_url r)" env cfg w1]
  show ?thesis
    by (auto simp: calls_handler handler_simps)
next
  case (generate_Pending w1 cfg w2)
  with walk_buildCrxConfig [of "body_url r" env w]
    walk_generateCrx [of "js_str (body_url r)" env cfg w1]
  show ?thesis
    by (auto simp: calls_handler handler_simps)
next
  case (send w1 cfg w2 cfg' b)
  with walk_buildCrxConfig [of "body_url r" env w]
    walk_generateCrx [of "js_str (body_url r)" env cfg w1]
  show ?thesis
    by (auto simp: calls_handler)
qed


section \<open>Properties\<close>

text \<open>
  C11: Every request follows the protocol. Whatever the environment answers,
  the calls a run of the route issues form a path of the automaton from
  \<open>Idle\<close>: the page request for the given URL, the certificate, the load,
  the existence test, at most one write stream followed by what fills it,
  and \<open>pack\<close>; and a run that returns has gone all the way to \<open>Packing\<close>.
\<close>

theorem calls_follow_protocol:
  "\<exists>ph. follows (js_str (body_url r)) Idle (calls env (w, r)) ph \<and>
     (is_Return (snd (handler env (w, r))) \<longrightarrow> ph = Packing)"
  using walk_calls [of r env w] by (simp add: follows_iff_walk)

theorem calls_follow_protocol_witness:
  "follows ''https://down.example.org/'' Idle
     (calls demo_env (demo_world, demo_ctx ''https://down.example.org/'')) Packing"
proof -
  have "is_Return (snd (handler demo_env (demo_world, demo_ctx ''https://down.example.org/'')))"
    by (simp add: demo_handler_down)
  with calls_follow_protocol [of "demo_ctx ''https://down.example.org/''" demo_env demo_world]
  show ?thesis
    by (auto simp: demo_ctx_def)
qed

text \<open>
  C12: A request issues at most seven external calls, whatever the environment
  answers: each call moves the protocol forward, and the protocol has eight
  phases.
\<close>

theorem request_issues_at_most_seven_calls: "length (calls env (w, r)) \<le> 7"
proof -
  from walk_calls [of r env w] obtain ph
    where "follows (js_str (body_url r)) Idle (calls env (w, r)) ph"
    by (auto simp: follows_iff_walk)
  then show ?thesis
    by (rule follows_Idle_length)
qed

end
