(* ===== verification/Assembler_Spec.thy ===== *)
theory Assembler_Spec
  imports Config
begin

text \<open>
  The configuration assembler as the specification describes it (sections 3,
  4.1 to 4.6 and 7 of \<^verbatim>\<open>spec.md\<close>), written from the specification alone, and
  its comparison with \<open>buildCrxConfig\<close>. The specification's validator asks
  for an \<open>http:\<close> or \<open>https:\<close> scheme and a host name, its host normalisation
  strips a leading \<open>www.\<close>, its fetch treats a non-success status as a
  failure, and a fetched page yields the resolved configuration. \<open>diverges\<close>
  lists the inputs on which the code does something else, and the refinement
  theorem says that these are all of them.
\<close>

section \<open>The specified assembler\<close>

datatype spec_error = InvalidInputError | InvalidUrlError

record targetConfig =
  sourceUrl :: string
  parsed :: parsedUrl
  normalizedHost :: string
  displayTitle :: string
  iconRef :: "string option"
  iconOverridden :: bool
  outFilename :: string

text \<open>
  What \<open>build\<close> ends in: a rejection, a configuration, or no answer (the page
  request is never answered, about which the specification says nothing).
\<close>

datatype spec_result = Rejected spec_error | Built targetConfig | Unanswered

text \<open>
  4.1: an absent or empty input is an input error; anything else that is not
  an absolute URL with scheme \<open>http\<close> or \<open>https\<close> is an invalid URL.
\<close>

definition spec_validate :: "env \<Rightarrow> jsval \<Rightarrow> spec_error + (string \<times> parsedUrl \<times> string)" where
  "spec_validate env v =
     (case v of
        JUndefined \<Rightarrow> Inl InvalidInputError
      | JNull \<Rightarrow> Inl InvalidInputError
      | JStr s \<Rightarrow>
          if s = [] then Inl InvalidInputError
          else
            (let p = url_parse env s in
             case hostname p of
               None \<Rightarrow> Inl InvalidUrlError
             | Some h \<Rightarrow>
                 if is_http_scheme (protocol p) then Inr (s, p, h) else Inl InvalidUrlError)
      | _ \<Rightarrow> Inl InvalidUrlError)"

text \<open>3: the host name in lower case with a leading \<open>www.\<close> stripped.\<close>

definition spec_normalize :: "string \<Rightarrow> string" where
  "spec_normalize h =
     (let l = toLowerCase h in if prefix ''www.'' l then drop 4 l else l)"

text \<open>4.6: the default configuration.\<close>

definition spec_default :: "string \<Rightarrow> parsedUrl \<Rightarrow> string \<Rightarrow> targetConfig" where
  "spec_default s p h =
     \<lparr>sourceUrl = s, parsed = p, normalizedHost = spec_normalize h, displayTitle = h,
      iconRef = None, iconOverridden = False, outFilename = h @ ''.crx''\<rparr>"

text \<open>4.3: the first title text that is not blank, and the first icon link.\<close>

definition spec_extract_title :: "document \<Rightarrow> string option" where
  "spec_extract_title d =
     find (\<lambda>t. t \<noteq> []) (map (\<lambda>n. trim (text_of n)) (select_tag d ''title''))"

definition spec_extract_icon :: "document \<Rightarrow> string option" where
  "spec_extract_icon d = (case icon_links d of [] \<Rightarrow> None | n # ns \<Rightarrow> attr_of n ''href'')"

text \<open>4.5: the table of per-host titles wins over the page title, that over the host name.\<close>

definition spec_title_table :: "(string \<times> string) list" where
  "spec_title_table = [(''messenger.com'', ''Messenger'')]"

definition spec_resolve :: "document \<Rightarrow> targetConfig \<Rightarrow> targetConfig" where
  "spec_resolve d c =
     c\<lparr>iconRef := spec_extract_icon d,
       displayTitle :=
         (case map_of spec_title_table (normalizedHost c) of
            Some t \<Rightarrow> t
          | None \<Rightarrow> (case spec_extract_title d of Some t \<Rightarrow> t | None \<Rightarrow> displayTitle c))\<rparr>"

text \<open>4.2: only a success status counts as a fetched page.\<close>

definition success_status :: "response \<Rightarrow> bool" where
  "success_status r \<longleftrightarrow> 200 \<le> statusCode r \<and> statusCode r < 300"

definition spec_build :: "env \<Rightarrow> jsval \<Rightarrow> spec_result" where
  "spec_build env v =
     (case spec_validate env v of
        Inl e \<Rightarrow> Rejected e
      | Inr (s, p, h) \<Rightarrow>
          (case http_request env (page_request s) of
             Reply r \<Rightarrow>
               if success_status r
               then Built (spec_resolve (cheerio_load env (body r)) (spec_default s p h))
               else Built (spec_default s p h)
           | Fail e \<Rightarrow> Built (spec_default s p h)
           | NoReply \<Rightarrow> Unanswered))"

section \<open>What the code's results mean in the specification\<close>

text \<open>
  A configuration of the code as a \<open>targetConfig\<close>; one whose title is \<open>null\<close>
  is none.
\<close>

definition abs_config :: "crxConfig \<Rightarrow> targetConfig option" where
  "abs_config c =
     (case title c of
        None \<Rightarrow> None
      | Some t \<Rightarrow>
          Some \<lparr>sourceUrl = url c, parsed = parsedUrl c, normalizedHost = host c,
                displayTitle = t, iconRef = icon c, iconOverridden = iconOverriden c,
                outFilename = filename c\<rparr>)"

text \<open>
  The two errors with a message for the user are the two rejections; a
  \<open>TypeError\<close> is not a rejection the specification knows.
\<close>

fun abs_error :: "js_error \<Rightarrow> spec_error option" where
  "abs_error (Error m) =
     (if m = no_url_message then Some InvalidInputError
      else if m = bad_url_message then Some InvalidUrlError else None)"
| "abs_error _ = None"

fun abs_outcome :: "crxConfig option outcome \<Rightarrow> spec_result option" where
  "abs_outcome (Return (Some c)) = map_option Built (abs_config c)"
| "abs_outcome (Return None) = None"
| "abs_outcome (Throw e) = map_option Rejected (abs_error e)"
| "abs_outcome Pending = Some Unanswered"

section \<open>Where code and specification part\<close>

text \<open>\<open>www.\<close> occurs in the lower-cased host name, but not at its start.\<close>

definition inner_www :: "string \<Rightarrow> bool" where
  "inner_www h \<longleftrightarrow> sublist ''www.'' (toLowerCase h) \<and> \<not> prefix ''www.'' (toLowerCase h)"

text \<open>
  The inputs on which \<open>buildCrxConfig\<close> does not do what \<open>spec_build\<close> says:
  a value that is neither absent nor a string; and a string that passes the
  code's scheme test and either has another scheme than \<open>http:\<close> and
  \<open>https:\<close>, or has no host name, or whose page request is answered, or
  whose page request fails while \<open>www.\<close> stands inside its host name.
\<close>

definition diverges :: "env \<Rightarrow> jsval \<Rightarrow> bool" where
  "diverges env v =
     (case v of
        JUndefined \<Rightarrow> False
      | JNull \<Rightarrow> False
      | JStr s \<Rightarrow>
          s \<noteq> [] \<and> accepted_scheme (protocol (url_parse env s)) \<and>
          (\<not> is_http_scheme (protocol (url_parse env s)) \<or>
           (case hostname (url_parse env s) of
              None \<Rightarrow> True
            | Some h \<Rightarrow>
                (case http_request env (page_request s) of
                   Reply r \<Rightarrow> True
                 | Fail e \<Rightarrow> inner_www h
                 | NoReply \<Rightarrow> False)))
      | _ \<Rightarrow> True)"

section \<open>Host normalisation, code against specification\<close>

lemma spec_normalize_no_www:
  "\<not> prefix ''www.'' (toLowerCase h) \<Longrightarrow> spec_normalize h = toLowerCase h"
  by (simp add: spec_normalize_def)

lemma normalizeHost_prefix:
  assumes "prefix ''www.'' (toLowerCase h)"
  shows "normalizeHost h = spec_normalize h"
proof -
  from assms obtain t where t: "toLowerCase h = ''www.'' @ t"
    by (auto simp: prefix_def)
  with replace_prefix [of "''www.''" t "[]"] show ?thesis
    by (simp add: normalizeHost_def spec_normalize_def)
qed

lemma normalizeHost_eq_spec_iff: "normalizeHost h = spec_normalize h \<longleftrightarrow> \<not> inner_www h"
proof (cases "sublist ''www.'' (toLowerCase h)")
  case False
  then have "\<not> prefix ''www.'' (toLowerCase h)"
    by (auto dest: prefix_imp_sublist)
  with False show ?thesis
    by (simp add: inner_www_def normalizeHost_no_www spec_normalize_no_www)
next
  case True
  show ?thesis
  proof (cases "prefix ''www.'' (toLowerCase h)")
    case True
    then show ?thesis by (simp add: inner_www_def normalizeHost_prefix)
  next
    case False
    from \<open>sublist ''www.'' (toLowerCase h)\<close>
    have "length (normalizeHost h) = length (toLowerCase h) - 4"
      by (simp add: normalizeHost_def length_replace_empty)
    moreover from \<open>sublist ''www.'' (toLowerCase h)\<close> have "4 \<le> length (toLowerCase h)"
      by (auto dest: sublist_length_le)
    ultimately have "normalizeHost h \<noteq> toLowerCase h"
      by (metis diff_less length_toLowerCase less_irrefl zero_less_numeral
          less_le_trans)
    with False True show ?thesis
      by (simp add: inner_www_def spec_normalize_no_www)
  qed
qed


section \<open>The two validators\<close>

lemma messages_distinct [simp]: "bad_url_message \<noteq> no_url_message"
  by (simp add: no_url_message_def bad_url_message_def)

lemma abs_error_simps [simp]:
  "abs_error (Error no_url_message) = Some InvalidInputError"
  "abs_error (Error bad_url_message) = Some InvalidUrlError"
  by (simp_all add: no_url_message_def bad_url_message_def)

lemma spec_validate_JStr:
  "s \<noteq> [] \<Longrightarrow>
   spec_validate env (JStr s) =
     (case hostname (url_parse env s) of
        None \<Rightarrow> Inl InvalidUrlError
      | Some h \<Rightarrow>
          if is_http_scheme (protocol (url_parse env s)) then Inr (s, url_parse env s, h)
          else Inl InvalidUrlError)"
  by (simp add: spec_validate_def Let_def)

lemma abs_config_wf: "wf_config c \<Longrightarrow> abs_config c \<noteq> None"
  by (auto simp: wf_config_def abs_config_def split: option.splits)

lemma abs_config_default:
  "abs_config \<lparr>url = s, parsedUrl = p, title = Some h, filename = h @ ''.crx'',
       host = normalizeHost h, icon = None, iconOverriden = False\<rparr> = Some (spec_default s p h)
     \<longleftrightarrow> \<not> inner_www h"
  by (simp add: abs_config_def spec_default_def normalizeHost_eq_spec_iff)

section \<open>Refinement\<close>

text \<open>The comparison for a non-empty string, by what the validators say.\<close>

lemma refines_rejected:
  assumes "s \<noteq> []" and "\<not> accepted_scheme (protocol (url_parse env s))"
  shows "abs_outcome (snd (buildCrxConfig env (JStr s) w)) = Some (spec_build env (JStr s))"
proof -
  from assms(2) have "\<not> is_http_scheme (protocol (url_parse env s))"
    by (auto dest: is_http_scheme_accepted)
  with assms show ?thesis
    by (simp add: buildCrxConfig_apply parseUrl_JStr spec_build_def spec_validate_JStr
        split: option.splits)
qed

lemma refines_accepted:
  assumes "s \<noteq> []" and "accepted_scheme (protocol (url_parse env s))"
  shows "abs_outcome (snd (buildCrxConfig env (JStr s) w)) = Some (spec_build env (JStr s))
     \<longleftrightarrow> \<not> diverges env (JStr s)"
proof (cases "hostname (url_parse env s)")
  case None
  with assms show ?thesis
    by (simp add: buildCrxConfig_apply parseUrl_JStr initConfig_def spec_build_def
        spec_validate_JStr diverges_def)
next
  case (Some h)
  show ?thesis
  proof (cases "is_http_scheme (protocol (url_parse env s))")
    case True
    with assms Some show ?thesis
      by (simp add: buildCrxConfig_apply parseUrl_JStr initConfig_def spec_build_def
          spec_validate_JStr diverges_def abs_config_default split: reply.splits)
  next
    case False
    with assms Some show ?thesis
      by (simp add: buildCrxConfig_apply parseUrl_JStr initConfig_def spec_build_def
          spec_validate_JStr diverges_def abs_config_def split: reply.splits)
  qed
qed

section \<open>Closed instances\<close>

text \<open>
  Both sides of the comparison occur in the concrete environment: a page
  request that fails or is never answered and a rejected scheme on one side,
  a page that answers, a scheme that merely contains \<open>http\<close> and a missing host
  name on the other. For the page that answers, the specification asks for
  the configuration with the title and the icon of the page.
\<close>

lemma diverges_demo:
  "\<not> diverges demo_env (JStr ''https://down.example.org/'')"
  "\<not> diverges demo_env (JStr ''http://slow.example.net/'')"
  "\<not> diverges demo_env (JStr ''ftp://example.com/'')"
  "diverges demo_env (JStr ''http://example.com/'')"
  "diverges demo_env (JStr ''shttp://example.com/'')"
  "diverges demo_env (JStr ''http:example'')"
  by (simp_all add: diverges_def accepted_scheme_def is_http_scheme_def inner_www_def
      page_request_def sublist_Cons_right case_defs demo_defs)

lemma spec_build_demo_fetched:
  "spec_build demo_env (JStr ''http://example.com/'') =
     Built \<lparr>sourceUrl = ''http://example.com/'',
       parsed = \<lparr>protocol = Some ''http:'', hostname = Some ''example.com''\<rparr>,
       normalizedHost = ''example.com'', displayTitle = ''Example Domain'',
       iconRef = Some ''/favicon.ico'', iconOverridden = False,
       outFilename = ''example.com.crx''\<rparr>"
  by (simp add: spec_build_def spec_validate_JStr is_http_scheme_def page_request_def
      success_status_def spec_resolve_def spec_default_def spec_normalize_def
      spec_extract_title_def spec_extract_icon_def spec_title_table_def
      case_defs trim_defs dom_defs demo_defs)

section \<open>The refinement theorem\<close>

text \<open>
  C13: \<open>buildCrxConfig\<close> against the assembler of the specification. The
  result of the code, read as a result of the specification, is what
  \<open>spec_build\<close> prescribes exactly on the inputs outside \<open>diverges\<close>. So the
  code implements the specification for absent and empty inputs, for strings
  it rejects, and for \<open>http:\<close> and \<open>https:\<close> URLs with a host name whose page
  request fails or is never answered; and it departs from it on every other
  input: a value that is no string, a scheme that merely contains \<open>http\<close>, a
  missing host name, a \<open>www.\<close> inside the host name, and every page that
  answers.
\<close>

theorem buildCrxConfig_refines_spec_iff:
  "abs_outcome (snd (buildCrxConfig env v w)) = Some (spec_build env v) \<longleftrightarrow> \<not> diverges env v"
proof (cases v)
  case (JStr s)
  show ?thesis
  proof (cases "s = []")
    case True
    with JStr show ?thesis
      by (simp add: buildCrxConfig_apply parseUrl_def spec_build_def spec_validate_def
          diverges_def)
  next
    case False
    with JStr refines_rejected [of s env w] refines_accepted [of s env w] show ?thesis
      by (cases "accepted_scheme (protocol (url_parse env s))") (simp_all add: diverges_def)
  qed
qed (simp_all add: buildCrxConfig_apply parseUrl_def url_parse_value_def spec_build_def
    spec_validate_def diverges_def)

theorem buildCrxConfig_refines_spec_iff_witness:
  "abs_outcome (snd (buildCrxConfig demo_env (JStr ''https://down.example.org/'') demo_world)) =
     Some (spec_build demo_env (JStr ''https://down.example.org/'')) \<and>
   abs_outcome (snd (buildCrxConfig demo_env (JStr ''http://example.com/'') demo_world)) \<noteq>
     Some (spec_build demo_env (JStr ''http://example.com/'')) \<and>
   abs_outcome (snd (buildCrxConfig demo_env (JStr ''shttp://example.com/'') demo_world)) \<noteq>
     Some (spec_build demo_env (JStr ''shttp://example.com/''))"
  using buildCrxConfig_refines_spec_iff [of demo_env "JStr ''https://down.example.org/''" demo_world]
    buildCrxConfig_refines_spec_iff [of demo_env "JStr ''http://example.com/''" demo_world]
    buildCrxConfig_refines_spec_iff [of demo_env "JStr ''shttp://example.com/''" demo_world]
  by (simp add: diverges_demo)

end
