(* ===== verification/Spec2Isabelle.thy ===== *)
theory Spec2Isabelle
  imports Protocol Assembler_Spec
begin

text \<open>
  \<^bold>\<open>A verification development for applicationize's \<open>POST /generate\<close> route.\<close>

  The program (\<^verbatim>\<open>src/api/routes/generate.js\<close>) turns a URL into a signed
  browser extension that opens that URL. One request runs, in this order:
  \<open>parseUrl\<close> (validate the input), \<open>buildCrxConfig\<close> (default configuration,
  then a best-effort fetch of the page through \<open>getPageDOM\<close>, from which
  \<open>getCrxTitle\<close> and the icon selector take title and icon reference),
  \<open>generateCrx\<close> (certificate, packager, manifest fields, then the icon
  cascade \<open>overrideIconIfExists\<close> / \<open>downloadIcon\<close> / \<open>setPlaceholderIcon\<close>
  over \<open>copyLocalFile\<close> and \<open>downloadFile\<close>, then \<open>pack\<close>), and \<open>sendCrx\<close>
  (headers and body of the response). The functions are generators run by a
  coroutine scheduler: each \<open>yield\<close> waits for one external call.

  \<^bold>\<open>How the code is modelled.\<close> Every exported function of the file is one
  definition of the same name, translated statement by statement.
  \<^item> A synchronous function that can throw returns \<open>js_error + 'a\<close>
    (\<open>parseUrl\<close>, \<open>initConfig\<close>).
  \<^item> A generator is an \<open>'a action\<close>, a function from the \<open>world\<close> to the new
    world and an \<open>outcome\<close>: \<open>Return\<close>, \<open>Throw\<close> (what a \<open>try\<close> can catch) or
    \<open>Pending\<close> (the awaited promise is never settled). \<open>bind\<close> is the
    sequencing of \<open>yield\<close>, \<open>catch\<close> is \<open>try\<close>/\<open>catch\<close>.
  \<^item> The \<open>world\<close> is the file system (a map from paths to contents) and the
    \<open>trace\<close>, the list of external calls in the order they were issued;
    \<open>issued m w\<close> is what a run of \<open>m\<close> from \<open>w\<close> adds to it.
  \<^item> The libraries (\<open>url\<close>, \<open>request\<close>, \<open>cheerio\<close>, \<open>pem\<close>, \<open>crx\<close>, \<open>fs\<close>,
    \<open>path\<close>) are the fields of the record \<open>env\<close>: what each answers to each
    call. Theorems hold for every \<open>env\<close>; \<open>demo_env\<close> is one concrete
    environment on which the closed instances are evaluated.
  \<^item> An object the code mutates (\<open>crxConfig\<close>, the extension, the request
    context) is passed in and returned: \<open>overrideIconIfExists\<close> and
    \<open>generateCrx\<close> return the configuration as they left it, and the route
    runs on the pair of the world and the context \<open>ctx\<close>.
  \<^item> Values that may be \<open>null\<close> or \<open>undefined\<close> are options; the input of the
    route is a \<open>jsval\<close>, since the validator tests its truthiness.
  \<^item> Strings are lists of code units below 256. White space is that of the
    language in this range (U+00A0 included); case mapping is that of the
    ASCII letters, which is all a host name delivered by \<open>url.parse\<close> has.

  \<^bold>\<open>Theories.\<close>
  \<^item> \<open>JS_Prelude\<close>: \<open>jsval\<close>, \<open>js_error\<close>, \<open>outcome\<close>, \<open>bind\<close>, \<open>catch\<close> and their
    laws; the collections \<open>js_defs\<close>, \<open>io_simps\<close>, \<open>frame\<close>.
  \<^item> \<open>JS_String\<close>: \<open>toLowerCase\<close>, \<open>toUpperCase\<close>, \<open>trim\<close>, \<open>indexOf\<close>,
    \<open>replace\<close>, \<open>substring\<close>, \<open>matches_AZ\<close>; \<open>indexOf\<close> is \<open>-1\<close> exactly when
    the pattern is no \<open>sublist\<close>, \<open>replace\<close> rewrites the first occurrence,
    \<open>trim\<close> is idempotent.
  \<^item> \<open>Dom\<close>: the parsed page; \<open>icon_href\<close> (line 55) and \<open>title_text\<close>
    (line 63), over selection functions written from the documented behaviour
    of the HTML library, which is not code of the repository.
  \<^item> \<open>Env\<close>: the records exchanged with the libraries, \<open>env\<close>, \<open>world\<close>, one
    action per external call, \<open>appends\<close> (the trace only grows) and \<open>issued\<close>.
  \<^item> \<open>Demo\<close>: the concrete environment of the witnesses.
  \<^item> \<open>Url\<close>: \<open>parseUrl\<close> (lines 76 to 91) against the scheme test of the
    specification.
  \<^item> \<open>Config\<close>: \<open>buildCrxConfig\<close> (lines 28 to 58), \<open>getPageDOM\<close> (93 to 107),
    \<open>getCrxTitle\<close> (60 to 73) and the invariant \<open>wf_config\<close>.
  \<^item> \<open>Assembler_Spec\<close>: the assembler as sections 3 and 4.1 to 4.6 of the
    specification describe it (\<open>spec_validate\<close>, \<open>spec_normalize\<close>,
    \<open>spec_default\<close>, \<open>spec_resolve\<close>, \<open>spec_build\<close>), written from the
    specification and sharing only the libraries and the request options with
    the code; the abstraction \<open>abs_outcome\<close> from the code's outcomes to the
    specification's results; and \<open>diverges\<close>, the inputs on which the two
    differ.
  \<^item> \<open>Files\<close>: \<open>downloadFile\<close> (218 to 238) and \<open>copyLocalFile\<close> (240 to
    260) over \<open>createWriteStream\<close> and \<open>createReadStream\<close>.
  \<^item> \<open>Icon\<close>: \<open>overrideIconIfExists\<close> (165 to 186), \<open>downloadIcon\<close> (151 to
    163), \<open>setPlaceholderIcon\<close> (188 to 205), the cascade \<open>resolveIcon\<close>
    (128 to 142), and the decision of the specification, \<open>icon_decision\<close>,
    with the refinement to it.
  \<^item> \<open>Generate\<close>: \<open>generateCrx\<close> (109 to 149) and \<open>sendCrx\<close> (207 to 216).
  \<^item> \<open>Handler\<close>: the route, \<open>handler\<close> (14 to 26), and \<open>calls\<close>, what one
    request adds to the trace.
  \<^item> \<open>Protocol\<close>: the order of the external calls as an automaton, the
    inductive relations \<open>next_call\<close> and \<open>follows\<close> with their executable
    counterparts \<open>next_phase\<close> and \<open>walk\<close>, and the proof that \<open>calls\<close> is
    always a path of it.
  \<^item> This theory: the properties of a whole request.

  \<^bold>\<open>What the lemmas show.\<close> For the validator: which inputs are accepted and
  with which error the others are rejected. For the assembler: its result and
  its effects for every answer of the page request (rejected input, missing
  host name, failed fetch, fetched page, no answer), that it issues at most
  one request and writes no file. Against the specification: the code's
  outcome is the specified one exactly when the input does not satisfy
  \<open>diverges\<close>, that is, except for an input that is not a string, a scheme
  that only contains \<open>http\<close>, a URL without a host name, a page request that
  is answered (the missing \<open>return\<close> makes the code return \<open>undefined\<close>),
  and a host name with \<open>www.\<close> past its start.
  For the title: the per-host override and the page title rule. For the host:
  \<open>www.\<close> is removed at its first occurrence, wherever that is. For the file
  helpers: what each leaves in the destination for every way the piping can
  end, and that a missing source leaves the promise unsettled. For the icon
  cascade: that it implements \<open>icon_decision\<close>, when it is settled, that the
  curated icon wins, that it writes the icon file only and at most once. For
  packaging: the order of the calls, what is packed, and that no
  configuration means no archive. For the protocol: every run of the route
  is a path of the automaton, a run that returns ends in \<open>Packing\<close>, and no
  run issues more than seven calls. For the whole request (below): a rejected
  input has no effect at all; a site whose page can be fetched never gets an
  answer; a site whose page cannot be fetched gets its default extension; the
  favicon is never downloaded; and a request that fails leaves the response
  as it found it.

  \<^bold>\<open>Bounds.\<close> No loop of the program is unbounded and no fuel is used: every
  definition is a total function, and an external call that never answers is
  the outcome \<open>Pending\<close>, not a diverging computation. What \<open>url.parse\<close>,
  the HTML parser, the certificate generator and the packager compute is not
  modelled; they are parameters. One request is modelled from its first
  statement to its last; requests that overlap in time are not.

  \<^bold>\<open>Assumptions.\<close> \<open>cheerio.load\<close> returns a document for every body (an
  exception inside it would be caught in \<open>buildCrxConfig\<close> like a failed
  fetch). A
  stream opens its file at the call. A stream that fails after the call
  leaves its promise pending; that the runtime then raises an uncaught
  exception, which ends the process unless the host handles it, is outside
  the model, so \<open>Pending\<close> reads "this request gets no answer" and says
  nothing of the requests after it.

  \<^bold>\<open>Not modelled.\<close> The body parser and the router that call the route, the
  status code and the headers the framework derives from the body, the
  content of the static directories (they are files of the \<open>world\<close>), and the
  libraries themselves.

  \<^bold>\<open>Open ends.\<close> One request as a machine that steps from \<open>yield\<close> to
  \<open>yield\<close>, proved to end as \<open>handler\<close> does; two such requests interleaved
  over one file system; a reference \<open>url.parse\<close> for the part of the URL
  grammar the validator depends on; stream calls that throw inside the
  cascade (the refinement to \<open>icon_decision\<close> assumes none does).
\<close>

section \<open>One request, end to end\<close>

text \<open>
  C1: A site whose page can be fetched never gets its extension. When the
  input passes the validator, has a host name, and the page request is
  answered, the route does not return: \<open>buildCrxConfig\<close> hands on \<open>undefined\<close>
  and \<open>generateCrx\<close> fails on it. Nothing is packed and the response is left
  as it was, whatever the certificate generator and the packager answer.
\<close>

theorem handler_fetched_page_fails:
  assumes "parseUrl env (body_url r) = Inr p" and "hostname p = Some h"
    and "http_request env (page_request (js_str (body_url r))) = Reply resp"
  shows "\<not> is_Return (snd (handler env (w, r))) \<and> snd (fst (handler env (w, r))) = r \<and>
     CrxPack \<notin> set (calls env (w, r))"
proof -
  let ?w1 = "w\<lparr>trace := trace w @ [HttpRequest (page_request (js_str (body_url r)))]\<rparr>"
  note b = buildCrxConfig_fetched [OF assms, of w]
  show ?thesis
    by (cases rule: generateCrx_cases [where env = env and w = ?w1])
      (simp_all add: calls_handler b issued_def generateCrx_simps
        handler_generate_Throw [OF b] handler_generate_Pending [OF b])
qed

theorem handler_fetched_page_fails_witness:
  "snd (handler demo_env (demo_world, demo_ctx ''http://example.com/'')) =
     Throw (TypeError ''Cannot read property title of undefined'') \<and>
   snd (fst (handler demo_env (demo_world, demo_ctx ''http://example.com/''))) =
     demo_ctx ''http://example.com/'' \<and>
   CrxPack \<notin> set (calls demo_env (demo_world, demo_ctx ''http://example.com/''))"
proof -
  let ?r = "demo_ctx ''http://example.com/''"
  let ?p = "\<lparr>protocol = Some ''http:'', hostname = Some ''example.com''\<rparr>"
  have p: "parseUrl demo_env (body_url ?r) = Inr ?p"
    by (simp add: demo_ctx_def eval_config)
  have h: "hostname ?p = Some ''example.com''"
    by simp
  have q: "http_request demo_env (page_request (js_str (body_url ?r))) =
      Reply \<lparr>statusCode = 200, body = demo_page\<rparr>"
    by (simp add: demo_ctx_def page_request_def demo_env_def demo_request_def)
  note b = buildCrxConfig_fetched [OF p h q, of demo_world]
  have "files (fst (buildCrxConfig demo_env (body_url ?r) demo_world)) = demo_files"
    by simp
  from handler_generate_Throw [OF b generateCrx_None [OF demo_cert_reply demo_load_reply]] this
    handler_fetched_page_fails [OF p h q, of demo_world]
  show ?thesis
    by (simp add: b)
qed

text \<open>
  C2: A site whose page cannot be fetched gets its default extension. When
  the page request fails and the route returns, the response carries the
  archive that \<open>pack\<close> made, of an extension named after the host name that
  launches the given URL, with the content type of a browser extension and
  the file name \<open>hostname.crx\<close> as attachment.
\<close>

theorem handler_unreachable_site_serves_defaults:
  assumes "body_url r = JStr s" and "parseUrl env (JStr s) = Inr p" and "hostname p = Some h"
    and "http_request env (page_request s) = Fail e"
    and "snd (handler env (w, r)) = Return ()"
  shows "\<exists>crx b. resp_body (snd (fst (handler env (w, r)))) = Some b \<and>
     crx_pack env crx (files (fst (fst (handler env (w, r))))) = Reply b \<and>
     name (manifest crx) = Some h \<and> app_launch_web_url (manifest crx) = s \<and>
     headers (snd (fst (handler env (w, r)))) ''content-type'' =
       Some ''application/x-chrome-extension'' \<and>
     headers (snd (fst (handler env (w, r)))) ''content-disposition'' =
       Some (''attachment; filename='' @ h @ ''.crx'')"
proof -
  let ?c = "\<lparr>url = s, parsedUrl = p, title = Some h, filename = h @ ''.crx'',
        host = normalizeHost h, icon = None, iconOverriden = False\<rparr>"
  let ?w1 = "w\<lparr>trace := trace w @ [HttpRequest (page_request s)]\<rparr>"
  from buildCrxConfig_failed_fetch [OF assms(2-4), of w] assms(1)
  have b: "buildCrxConfig env (body_url r) w = (?w1, Return (Some ?c))"
    by simp
  show ?thesis
  proof (cases rule: outcome_cases3 [of "generateCrx env (Some ?c)" ?w1])
    case (Return w2 a)
    obtain c' bf where a: "a = (c', bf)" by (cases a)
    from Return [unfolded a] obtain k pa m f w3 c1
      where i: "resolveIcon env ?c (loaded k pa m ?c)
          (?w1\<lparr>trace := trace ?w1 @ [PemCreateCertificate 3650 True, CrxLoad (template_dir env)],
             files := f\<rparr>) = (w3, Return c1)"
        and pk: "crx_pack env (loaded k pa m ?c) (files w3) = Reply bf"
        and w2: "w2 = w3\<lparr>trace := trace w3 @ [CrxPack]\<rparr>" and c': "c' = Some c1"
      by (rule generateCrx_ReturnE)
    from resolveIcon_Return_config [OF i] have "filename c1 = h @ ''.crx''"
      by auto
    with pk w2 c' show ?thesis
      by (intro exI [of _ "loaded k pa m ?c"] exI [of _ bf])
        (simp add: handler_send [OF b Return [unfolded a]] sendCrx_Some)
  next
    case (Throw w2 e)
    with assms(5) show ?thesis by (simp add: handler_generate_Throw [OF b])
  next
    case (Pending w2)
    with assms(5) show ?thesis by (simp add: handler_generate_Pending [OF b])
  qed
qed

theorem handler_unreachable_site_serves_defaults_witness:
  "\<exists>crx b. resp_body (snd (fst (handler demo_env
        (demo_world, demo_ctx ''https://down.example.org/'')))) = Some b \<and>
     crx_pack demo_env crx (files (fst (fst (handler demo_env
        (demo_world, demo_ctx ''https://down.example.org/''))))) = Reply b \<and>
     name (manifest crx) = Some ''down.example.org'' \<and>
     app_launch_web_url (manifest crx) = ''https://down.example.org/'' \<and>
     headers (snd (fst (handler demo_env (demo_world, demo_ctx ''https://down.example.org/''))))
       ''content-type'' = Some ''application/x-chrome-extension'' \<and>
     headers (snd (fst (handler demo_env (demo_world, demo_ctx ''https://down.example.org/''))))
       ''content-disposition'' = Some (''attachment; filename='' @ ''down.example.org'' @ ''.crx'')"
proof -
  let ?p = "\<lparr>protocol = Some ''https:'', hostname = Some ''down.example.org''\<rparr>"
  have u: "body_url (demo_ctx ''https://down.example.org/'') = JStr ''https://down.example.org/''"
    by (simp add: demo_ctx_def)
  have p: "parseUrl demo_env (JStr ''https://down.example.org/'') = Inr ?p"
    by (simp add: eval_config)
  have h: "hostname ?p = Some ''down.example.org''"
    by simp
  have q: "http_request demo_env (page_request ''https://down.example.org/'') =
      Fail (LibError ''ECONNREFUSED'')"
    by (simp add: page_request_def demo_env_def demo_request_def)
  have r: "snd (handler demo_env (demo_world, demo_ctx ''https://down.example.org/'')) = Return ()"
    by (simp add: demo_handler_down)
  from handler_unreachable_site_serves_defaults [OF u p h q r] show ?thesis .
qed

text \<open>
  C5: A rejected input has no effect. When the validator rejects the URL of
  the request, the route throws the validator's error; no external call has
  been made, no file written, and the response is untouched.
\<close>

theorem handler_invalid_url_no_effects:
  assumes "parseUrl env (body_url r) = Inl e"
  shows "handler env (w, r) = ((w, r), Throw e)"
  using assms by (simp add: handler_build_Throw buildCrxConfig_apply)

theorem handler_invalid_url_no_effects_witness:
  "handler demo_env (demo_world, demo_ctx ''ftp://example.com/'') =
     ((demo_world, demo_ctx ''ftp://example.com/''), Throw (Error bad_url_message))"
proof -
  have "parseUrl demo_env (body_url (demo_ctx ''ftp://example.com/'')) =
      Inl (Error bad_url_message)"
    by (simp add: demo_ctx_def eval_config)
  from handler_invalid_url_no_effects [OF this] show ?thesis .
qed

text \<open>
  C8: The favicon is never downloaded. No run of the route issues a download:
  the only configuration \<open>buildCrxConfig\<close> ever returns is the default one,
  which has no icon reference, so the cascade never takes the branch of
  \<open>downloadIcon\<close>.
\<close>

theorem handler_never_downloads_favicon:
  "list_all (\<lambda>e. \<not> is_download e) (calls env (w, r))"
proof (cases rule: outcome_cases3 [of "buildCrxConfig env (body_url r)" w])
  case (Return w1 cfg)
  have "\<not> icon_truthy (icon c)" if "cfg = Some c" for c
    using buildCrxConfig_Return_Some [of env "body_url r" w w1 c] Return that by simp
  from no_download_generateCrx [of cfg env w1, OF this] Return show ?thesis
    by (simp add: calls_handler no_download_buildCrxConfig)
qed (simp_all add: calls_handler no_download_buildCrxConfig)

text \<open>
  C17: The route answers only for sites it could not reach. Whenever the route
  returns, the URL of the request was a string and the request for its page
  had failed.
\<close>

theorem handler_answers_only_unreachable_sites:
  assumes "snd (handler env (w, r)) = Return ()"
  shows "\<exists>s e. body_url r = JStr s \<and> http_request env (page_request s) = Fail e"
proof (cases rule: handler_cases [where env = env and r = r and w = w])
  case (send w1 cfg w2 cfg' b)
  from generateCrx_Return_Some [OF send(2)] obtain c where "cfg = Some c"
    by blast
  with send(1) show ?thesis
    by (auto simp: buildCrxConfig_apply parseUrl_Inr_iff initConfig_Inr_iff
        split: sum.splits reply.splits)
qed (use assms in \<open>simp_all add: handler_simps\<close>)

theorem handler_answers_only_unreachable_sites_witness:
  "\<exists>s e. body_url (demo_ctx ''https://down.example.org/'') = JStr s \<and>
     http_request demo_env (page_request s) = Fail e"
proof -
  have "snd (handler demo_env (demo_world, demo_ctx ''https://down.example.org/'')) = Return ()"
    by (simp add: demo_handler_down)
  from handler_answers_only_unreachable_sites [OF this] show ?thesis .
qed

text \<open>
  C18: A failed request leaves the response as it found it. If the route does
  not return (it throws, or a call is never answered), no header and no body
  has been set: \<open>sendCrx\<close> runs last and, once reached, cannot fail.
\<close>

theorem handler_failure_leaves_response:
  assumes "snd (handler env (w, r)) \<noteq> Return ()"
  shows "snd (fst (handler env (w, r))) = r"
proof (cases rule: handler_cases [where env = env and r = r and w = w])
  case (send w1 cfg w2 cfg' b)
  from generateCrx_Return_Some [OF send(2)] obtain c' where "cfg' = Some c'"
    by blast
  with assms send show ?thesis
    by (simp add: handler_send sendCrx_Some)
qed (simp_all add: handler_simps)

theorem handler_failure_leaves_response_witness:
  "snd (handler demo_env (demo_world, demo_ctx ''ftp://example.com/'')) \<noteq> Return () \<and>
   snd (fst (handler demo_env (demo_world, demo_ctx ''ftp://example.com/''))) =
     demo_ctx ''ftp://example.com/''"
proof -
  have "buildCrxConfig demo_env (body_url (demo_ctx ''ftp://example.com/'')) demo_world =
      (demo_world, Throw (Error bad_url_message))"
    by (simp add: demo_ctx_def eval_config)
  from handler_build_Throw [OF this]
  have n: "snd (handler demo_env (demo_world, demo_ctx ''ftp://example.com/'')) \<noteq> Return ()"
    by simp
  from handler_failure_leaves_response [OF n] n show ?thesis
    by simp
qed

end
